theory Spec2Isabelle
  imports Main "HOL-Library.Sublist"
begin

section \<open>Python values\<close>

text \<open>
  A Python \<open>str\<close> is a sequence of Unicode code points; \<open>len\<close>, \<open>strip\<close>, \<open>replace\<close> and
  the \<open>re\<close> module all work on code points. The messages of the server are Chinese text, so a
  string is modelled as the list of its code points. \<open>ascii\<close> embeds an ASCII literal.
\<close>

type_synonym pystr = "nat list"

definition ascii :: "string \<Rightarrow> pystr" where
  "ascii s = map of_char s"

text \<open>\<open>str(i)\<close> for a Python \<open>int\<close>: decimal digits, with a leading minus sign.\<close>

fun digits :: "nat \<Rightarrow> pystr" where
  "digits n = (if n < 10 then [48 + n] else digits (n div 10) @ [48 + n mod 10])"

declare digits.simps [simp del]

definition py_str_int :: "int \<Rightarrow> pystr" where
  "py_str_int i = (if i < 0 then 45 # digits (nat (- i)) else digits (nat i))"

text \<open>
  The values \<open>json.loads\<close> and \<open>response.json()\<close> produce. A \<open>dict\<close> keeps its items in
  insertion order and its keys are distinct. Fractional JSON numbers (Python \<open>float\<close>) are
  outside the model: the upstream reports identifiers, counts and millisecond values.
\<close>

datatype json =
    JNull
  | JBool bool
  | JInt int
  | JStr pystr
  | JArr "json list"
  | JObj "(pystr \<times> json) list"

text \<open>
  The exceptions the code can meet. The three \<open>httpx\<close> classes are the ones \<open>_handle_error\<close>
  tests with \<open>isinstance\<close>; the next six are raised by the interpreter and the standard library
  (\<open>json.JSONDecodeError\<close> is a subclass of \<open>ValueError\<close>);
  \<open>OtherException\<close> carries the class name of anything else derived from \<open>Exception\<close>.
\<close>

datatype exc =
    HTTPStatusError int
  | TimeoutException
  | ConnectError
  | ValueError
  | JSONDecodeError
  | OSError
  | OverflowError
  | TypeError
  | AttributeError
  | OtherException pystr

fun exc_name :: "exc \<Rightarrow> pystr" where
  "exc_name (HTTPStatusError c) = ascii ''HTTPStatusError''"
| "exc_name TimeoutException = ascii ''TimeoutException''"
| "exc_name ConnectError = ascii ''ConnectError''"
| "exc_name ValueError = ascii ''ValueError''"
| "exc_name JSONDecodeError = ascii ''JSONDecodeError''"
| "exc_name OSError = ascii ''OSError''"
| "exc_name OverflowError = ascii ''OverflowError''"
| "exc_name TypeError = ascii ''TypeError''"
| "exc_name AttributeError = ascii ''AttributeError''"
| "exc_name (OtherException n) = n"

text \<open>
  The module constants read from the environment at start-up, and the behaviour of the
  libraries and of the remote servers, which are not part of the repository.
  \<open>REQUEST_TIMEOUT\<close> is a \<open>float\<close> that the code only formats: the field holds its \<open>str\<close>.
  \<open>local_strftime ms\<close> stands for
  \<open>datetime.fromtimestamp(ms / 1000).strftime("%Y-%m-%d %H:%M:%S")\<close> once the quotient exists;
  it depends on the time zone of the host. \<open>str_lower\<close> is \<open>str.lower\<close>, and
  \<open>float_format_1f i\<close> is \<open>format(float(i), ".1f")\<close> for an integer \<open>i\<close>.
\<close>

record env =
  JOBHISTORY_BASE_URL :: pystr
  NODEMANAGER_PORT :: pystr
  REQUEST_TIMEOUT :: pystr
  LOGS_BASE_URL :: pystr
  http_get_json :: "pystr \<Rightarrow> (pystr \<times> json) list \<Rightarrow> exc + json"
  http_get_text :: "pystr \<Rightarrow> exc + pystr"
  json_dumps :: "json \<Rightarrow> pystr"
  json_loads :: "pystr \<Rightarrow> exc + json"
  py_repr :: "json \<Rightarrow> pystr"
  exc_str :: "exc \<Rightarrow> pystr"
  local_strftime :: "int \<Rightarrow> exc + pystr"
  str_lower :: "pystr \<Rightarrow> pystr"
  float_format_1f :: "int \<Rightarrow> exc + pystr"

text \<open>Truth value of an object (\<open>if x\<close>, \<open>not x\<close>).\<close>

fun truthy :: "json \<Rightarrow> bool" where
  "truthy JNull = False"
| "truthy (JBool b) = b"
| "truthy (JInt i) = (i \<noteq> 0)"
| "truthy (JStr s) = (s \<noteq> [])"
| "truthy (JArr xs) = (xs \<noteq> [])"
| "truthy (JObj kvs) = (kvs \<noteq> [])"

text \<open>The integer an \<open>int\<close> or \<open>bool\<close> takes part in arithmetic and comparisons with.\<close>

fun as_int :: "json \<Rightarrow> int option" where
  "as_int (JInt i) = Some i"
| "as_int (JBool b) = Some (if b then 1 else 0)"
| "as_int _ = None"

text \<open>
  \<open>d.get(k, default)\<close>: \<open>dict_get\<close> on the items of a \<open>dict\<close>; only a \<open>dict\<close> has the
  method, so \<open>py_get\<close> raises \<open>AttributeError\<close> on every other value.
\<close>

definition dict_get :: "(pystr \<times> json) list \<Rightarrow> pystr \<Rightarrow> json \<Rightarrow> json" where
  "dict_get kvs k dflt = (case map_of kvs k of Some v \<Rightarrow> v | None \<Rightarrow> dflt)"

definition py_get :: "json \<Rightarrow> pystr \<Rightarrow> json \<Rightarrow> exc + json" where
  "py_get d k dflt =
     (case d of
        JObj kvs \<Rightarrow> Inr (dict_get kvs k dflt)
      | _ \<Rightarrow> Inl AttributeError)"

text \<open>\<open>f"{v}"\<close>: a string as it is, an integer in decimal; lists and dicts by their \<open>repr\<close>.\<close>

definition py_format :: "env \<Rightarrow> json \<Rightarrow> pystr" where
  "py_format ev v =
     (case v of
        JStr s \<Rightarrow> s
      | JInt i \<Rightarrow> py_str_int i
      | JBool b \<Rightarrow> (if b then ascii ''True'' else ascii ''False'')
      | JNull \<Rightarrow> ascii ''None''
      | _ \<Rightarrow> py_repr ev v)"

section \<open>Formatting helpers\<close>

text \<open>
  \<open>_handle_error\<close> (lines 850-880). The messages, in English:
  404 "Error: resource not found. Check that the ID is right, or the job/task may have been cleaned up.";
  403 "Error: insufficient permission, cannot access the resource. ...";
  401 "Error: authentication failed. ...";
  500 "Error: server internal error. Check the JobHistory Server log.";
  503 "Error: service temporarily unavailable. JobHistory Server may be starting or overloaded.";
  other codes "Error: API request failed, HTTP status code <code>.";
  timeout "Error: request timed out (<timeout> seconds). ...";
  connection "Error: cannot connect to JobHistory Server (<base url>)." and three lines of advice;
  anything else "Error: <class name> - <str(e)>".
\<close>

definition msg_404 :: pystr where
  "msg_404 = [38169, 35823, 65306, 36164, 28304, 26410, 25214, 21040, 12290, 35831, 26816, 26597]
     @ ascii '' ID '' @ [26159, 21542, 27491, 30830, 65292, 25110, 32773, 35813, 20316, 19994]
     @ ascii ''/'' @ [20219, 21153, 21487, 33021, 24050, 34987, 28165, 29702, 12290]"

definition msg_403 :: pystr where
  "msg_403 = [38169, 35823, 65306, 26435, 38480, 19981, 36275, 65292, 26080, 27861, 35775, 38382,
     35813, 36164, 28304, 12290, 35831, 26816, 26597, 35775, 38382, 26435, 38480, 37197, 32622, 12290]"

definition msg_401 :: pystr where
  "msg_401 = [38169, 35823, 65306, 35748, 35777, 22833, 36133, 12290, 22914, 26524, 21551, 29992,
     20102, 23433, 20840, 27169, 24335, 65292, 35831, 26816, 26597, 35748, 35777, 37197, 32622, 12290]"

definition msg_500 :: pystr where
  "msg_500 = [38169, 35823, 65306, 26381, 21153, 22120, 20869, 37096, 38169, 35823, 12290, 35831,
     26816, 26597] @ ascii '' JobHistory Server '' @ [26085, 24535, 12290]"

definition msg_503 :: pystr where
  "msg_503 = [38169, 35823, 65306, 26381, 21153, 26242, 26102, 19981, 21487, 29992, 12290]
     @ ascii ''JobHistory Server '' @ [21487, 33021, 27491, 22312, 21551, 21160, 25110, 36807, 36733, 12290]"

definition msg_http_prefix :: pystr where
  "msg_http_prefix = [38169, 35823, 65306] @ ascii ''API '' @ [35831, 27714, 22833, 36133, 65292]
     @ ascii ''HTTP '' @ [29366, 24577, 30721] @ ascii '' ''"

definition msg_timeout_prefix :: pystr where
  "msg_timeout_prefix = [38169, 35823, 65306, 35831, 27714, 36229, 26102, 65288]"

definition msg_timeout_suffix :: pystr where
  "msg_timeout_suffix = [31186, 65289, 12290, 35831, 26816, 26597, 32593, 32476, 36830, 25509,
     25110, 22686, 21152, 36229, 26102, 26102, 38388, 12290]"

definition msg_connect_prefix :: pystr where
  "msg_connect_prefix = [38169, 35823, 65306, 26080, 27861, 36830, 25509, 21040]
     @ ascii '' JobHistory Server (''"

definition msg_connect_suffix :: pystr where
  "msg_connect_suffix = ascii '')'' @ [12290, 10, 35831, 26816, 26597, 65306, 10]
     @ ascii ''1. '' @ [26381, 21153, 26159, 21542, 24050, 21551, 21160, 10]
     @ ascii ''2. '' @ [22320, 22336, 21644, 31471, 21475, 26159, 21542, 27491, 30830, 10]
     @ ascii ''3. '' @ [32593, 32476, 26159, 21542, 21487, 36798]"

definition msg_error_prefix :: pystr where
  "msg_error_prefix = [38169, 35823, 65306]"

definition handle_error :: "env \<Rightarrow> exc \<Rightarrow> pystr" where
  "handle_error ev e =
     (case e of
        HTTPStatusError status_code \<Rightarrow>
          (if status_code = 404 then msg_404
           else if status_code = 403 then msg_403
           else if status_code = 401 then msg_401
           else if status_code = 500 then msg_500
           else if status_code = 503 then msg_503
           else msg_http_prefix @ py_str_int status_code @ [12290])
      | TimeoutException \<Rightarrow> msg_timeout_prefix @ REQUEST_TIMEOUT ev @ msg_timeout_suffix
      | ConnectError \<Rightarrow> msg_connect_prefix @ JOBHISTORY_BASE_URL ev @ msg_connect_suffix
      | _ \<Rightarrow> msg_error_prefix @ exc_name e @ ascii '' - '' @ exc_str ev e)"

text \<open>
  \<open>ms / 1000\<close> on integers is true division: the quotient is rounded to the nearest
  \<open>float\<close>, and the interpreter raises \<open>OverflowError\<close> when the rounded quotient does not fit,
  that is from the midpoint between the largest \<open>float\<close> and \<open>2 ^ 1024\<close> on.
\<close>

definition int_truediv_1000 :: "int \<Rightarrow> exc + unit" where
  "int_truediv_1000 ms =
     (if \<bar>ms\<bar> \<ge> 1000 * (2 ^ 1024 - 2 ^ 970) then Inl OverflowError else Inr ())"

definition NA :: pystr where
  "NA = ascii ''N/A''"

text \<open>
  \<open>_format_timestamp\<close> (lines 883-899). The \<open>try\<close> block holds the division and the library
  conversion; \<open>except (ValueError, OSError)\<close> turns those two classes into \<open>"N/A"\<close> and lets
  every other exception pass.
\<close>

definition format_timestamp :: "env \<Rightarrow> json \<Rightarrow> exc + pystr" where
  "format_timestamp ev ms =
     (if \<not> truthy ms then Inr NA
      else case as_int ms of
        None \<Rightarrow> Inl TypeError
      | Some i \<Rightarrow>
          if i \<le> 0 then Inr NA
          else (case (case int_truediv_1000 i of
                        Inl e \<Rightarrow> Inl e
                      | Inr _ \<Rightarrow> local_strftime ev i) of
                  Inl e \<Rightarrow>
                    (if e = ValueError \<or> e = JSONDecodeError \<or> e = OSError then Inr NA
                     else Inl e)
                | Inr s \<Rightarrow> Inr s))"

text \<open>
  \<open>_format_duration\<close> (lines 902-926). The unit words are the code points 31186 (seconds),
  20998 (minutes) and 26102 (hours). \<open>//\<close> and \<open>%\<close> are floor division and its remainder,
  as \<open>div\<close> and \<open>mod\<close> on \<open>int\<close> are.
\<close>

definition format_duration :: "json \<Rightarrow> exc + pystr" where
  "format_duration ms =
     (if \<not> truthy ms then Inr NA
      else case as_int ms of
        None \<Rightarrow> Inl TypeError
      | Some i \<Rightarrow>
          if i \<le> 0 then Inr NA
          else
            (let seconds = i div 1000 in
             if seconds < 60 then Inr (py_str_int seconds @ [31186])
             else if seconds < 3600 then
               (let minutes = seconds div 60; secs = seconds mod 60
                in Inr (py_str_int minutes @ [20998] @ py_str_int secs @ [31186]))
             else
               (let hours = seconds div 3600; minutes = (seconds mod 3600) div 60;
                    secs = seconds mod 60
                in Inr (py_str_int hours @ [26102] @ py_str_int minutes @ [20998]
                        @ py_str_int secs @ [31186]))))"

section \<open>Strings and containers\<close>

text \<open>Sequencing of computations that may raise: the first exception ends the block.\<close>

definition and_then :: "exc + 'a \<Rightarrow> ('a \<Rightarrow> exc + 'b) \<Rightarrow> exc + 'b" where
  "and_then r f = (case r of Inl e \<Rightarrow> Inl e | Inr x \<Rightarrow> f x)"

text \<open>A \<open>for\<close> loop that appends what each item yields; the first exception ends it.\<close>

fun for_each :: "('a \<Rightarrow> exc + 'b) \<Rightarrow> 'a list \<Rightarrow> exc + 'b list" where
  "for_each f [] = Inr []"
| "for_each f (x # xs) =
     (case f x of
        Inl e \<Rightarrow> Inl e
      | Inr y \<Rightarrow> (case for_each f xs of Inl e \<Rightarrow> Inl e | Inr ys \<Rightarrow> Inr (y # ys)))"

text \<open>\<open>sep.join(lines)\<close>.\<close>

fun py_join :: "pystr \<Rightarrow> pystr list \<Rightarrow> pystr" where
  "py_join sep [] = []"
| "py_join sep [x] = x"
| "py_join sep (x # y # ys) = x @ sep @ py_join sep (y # ys)"

text \<open>\<open>for x in v\<close>: the items of a list, the characters of a string, the keys of a dict.\<close>

definition py_iter :: "json \<Rightarrow> exc + json list" where
  "py_iter v =
     (case v of
        JArr xs \<Rightarrow> Inr xs
      | JStr s \<Rightarrow> Inr (map (\<lambda>c. JStr [c]) s)
      | JObj kvs \<Rightarrow> Inr (map (\<lambda>kv. JStr (fst kv)) kvs)
      | _ \<Rightarrow> Inl TypeError)"

text \<open>\<open>len(v)\<close>.\<close>

definition py_len :: "json \<Rightarrow> exc + int" where
  "py_len v =
     (case v of
        JArr xs \<Rightarrow> Inr (int (length xs))
      | JStr s \<Rightarrow> Inr (int (length s))
      | JObj kvs \<Rightarrow> Inr (int (length kvs))
      | _ \<Rightarrow> Inl TypeError)"

text \<open>
  \<open>c in v\<close> for a one-character string \<open>c\<close>: a substring test on a string, a membership
  test on a list, a key test on a dict.
\<close>

definition py_in :: "nat \<Rightarrow> json \<Rightarrow> exc + bool" where
  "py_in c v =
     (case v of
        JStr s \<Rightarrow> Inr (c \<in> set s)
      | JArr xs \<Rightarrow> Inr (JStr [c] \<in> set xs)
      | JObj kvs \<Rightarrow> Inr ([c] \<in> set (map fst kvs))
      | _ \<Rightarrow> Inl TypeError)"

text \<open>\<open>s.split(c)\<close> for a one-character separator.\<close>

fun py_split :: "nat \<Rightarrow> pystr \<Rightarrow> pystr list" where
  "py_split sep [] = [[]]"
| "py_split sep (c # cs) =
     (if c = sep then [] # py_split sep cs
      else (case py_split sep cs of
              [] \<Rightarrow> [[c]]
            | x # xs \<Rightarrow> (c # x) # xs))"

text \<open>\<open>s.rsplit(c, 1)[0]\<close>: what stands before the last \<open>c\<close>, the whole string without one.\<close>

definition py_rsplit1_head :: "nat \<Rightarrow> pystr \<Rightarrow> pystr" where
  "py_rsplit1_head sep s =
     (if sep \<in> set s then rev (tl (dropWhile (\<lambda>c. c \<noteq> sep) (rev s))) else s)"

text \<open>
  \<open>str.strip()\<close> removes the characters of \<open>str.isspace\<close> at both ends: the ASCII
  controls 9-13 and 28-31, the space, and the Unicode spaces listed.
\<close>

definition py_whitespace :: "nat \<Rightarrow> bool" where
  "py_whitespace c =
     ((9 \<le> c \<and> c \<le> 13) \<or> (28 \<le> c \<and> c \<le> 32) \<or> c = 133 \<or> c = 160 \<or> c = 5760
      \<or> (8192 \<le> c \<and> c \<le> 8202) \<or> c = 8232 \<or> c = 8233 \<or> c = 8239 \<or> c = 8287
      \<or> c = 12288)"

definition py_strip :: "pystr \<Rightarrow> pystr" where
  "py_strip s = rev (dropWhile py_whitespace (rev (dropWhile py_whitespace s)))"

text \<open>
  \<open>s.replace(old, new)\<close>: the occurrences of \<open>old\<close> are found from the left and do not
  overlap; an empty \<open>old\<close> matches before every character and at the end.
\<close>

fun strip_prefix :: "pystr \<Rightarrow> pystr \<Rightarrow> pystr option" where
  "strip_prefix [] s = Some s"
| "strip_prefix (p # ps) [] = None"
| "strip_prefix (p # ps) (c # cs) = (if p = c then strip_prefix ps cs else None)"

lemma strip_prefix_length:
  "strip_prefix old s = Some rest \<Longrightarrow> length rest + length old = length s"
  by (induction old s rule: strip_prefix.induct) (auto split: if_splits)

function py_replace :: "pystr \<Rightarrow> pystr \<Rightarrow> pystr \<Rightarrow> pystr" where
  "py_replace [] new s = new @ concat (map (\<lambda>c. c # new) s)"
| "py_replace (p # ps) new [] = []"
| "py_replace (p # ps) new (c # cs) =
     (case strip_prefix (p # ps) (c # cs) of
        Some rest \<Rightarrow> new @ py_replace (p # ps) new rest
      | None \<Rightarrow> c # py_replace (p # ps) new cs)"
  by pat_completeness auto
termination
  by (relation "measure (\<lambda>(old, new, s). length s)")
     (auto dest: strip_prefix_length split: if_splits)

text \<open>
  \<open>f"{v:,}"\<close>: an integer with a comma between groups of three digits; a \<open>bool\<close> is
  formatted as the integer it is; a string rejects the format (\<open>ValueError\<close>), and
  \<open>None\<close>, lists and dicts have no such format (\<open>TypeError\<close>).
\<close>

fun comma_digits :: "nat \<Rightarrow> pystr" where
  "comma_digits n =
     (if n < 1000 then digits n
      else comma_digits (n div 1000)
           @ [44, 48 + n mod 1000 div 100, 48 + n mod 100 div 10, 48 + n mod 10])"

declare comma_digits.simps [simp del]

definition py_format_comma :: "json \<Rightarrow> exc + pystr" where
  "py_format_comma v =
     (case v of
        JInt i \<Rightarrow> Inr (if i < 0 then 45 # comma_digits (nat (- i)) else comma_digits (nat i))
      | JBool b \<Rightarrow> Inr (if b then ascii ''1'' else ascii ''0'')
      | JStr s \<Rightarrow> Inl ValueError
      | _ \<Rightarrow> Inl TypeError)"

text \<open>
  \<open>f"{v:.1f}"\<close>: the number with one decimal. An \<open>int\<close> (a \<open>bool\<close> is one) is converted to
  \<open>float\<close> first: up to \<open>2 ^ 53\<close> in absolute value the conversion is exact and the result
  is the decimal numeral followed by \<open>.0\<close>; beyond that the rounding, and the
  \<open>OverflowError\<close> of an integer too large for a \<open>float\<close>, are the library's
  (\<open>float_format_1f\<close>). A string rejects the format (\<open>ValueError\<close>), and \<open>None\<close>, lists
  and dicts have no such format (\<open>TypeError\<close>).
\<close>

definition py_format_1f :: "env \<Rightarrow> json \<Rightarrow> exc + pystr" where
  "py_format_1f ev v =
     (case v of
        JInt i \<Rightarrow>
          (if \<bar>i\<bar> \<le> 2 ^ 53 then Inr (py_str_int i @ ascii ''.0'') else float_format_1f ev i)
      | JBool b \<Rightarrow> Inr (if b then ascii ''1.0'' else ascii ''0.0'')
      | JStr s \<Rightarrow> Inl ValueError
      | _ \<Rightarrow> Inl TypeError)"

text \<open>\<open>sub in s\<close> for two strings: \<open>sub\<close> occurs in \<open>s\<close>.\<close>

fun py_contains :: "pystr \<Rightarrow> pystr \<Rightarrow> bool" where
  "py_contains sub [] = (sub = [])"
| "py_contains sub (c # cs) =
     (case strip_prefix sub (c # cs) of
        Some rest \<Rightarrow> True
      | None \<Rightarrow> py_contains sub cs)"

text \<open>
  \<open>sorted(keys)\<close> for strings: strings compare by code points, a proper prefix is smaller.
\<close>

fun str_le :: "pystr \<Rightarrow> pystr \<Rightarrow> bool" where
  "str_le [] t = True"
| "str_le (c # cs) [] = False"
| "str_le (c # cs) (d # ds) = (c < d \<or> (c = d \<and> str_le cs ds))"

fun insert_sorted :: "pystr \<Rightarrow> pystr list \<Rightarrow> pystr list" where
  "insert_sorted x [] = [x]"
| "insert_sorted x (y # ys) = (if str_le x y then x # y # ys else y # insert_sorted x ys)"

definition py_sorted :: "pystr list \<Rightarrow> pystr list" where
  "py_sorted xs = foldr insert_sorted xs []"

text \<open>
  \<open>[x for x in xs if cond(x)]\<close>: the condition is evaluated on every item in order, and
  the first exception ends the comprehension.
\<close>

fun comprehension_if :: "('a \<Rightarrow> exc + bool) \<Rightarrow> 'a list \<Rightarrow> exc + 'a list" where
  "comprehension_if cond [] = Inr []"
| "comprehension_if cond (x # xs) =
     (case cond x of
        Inl e \<Rightarrow> Inl e
      | Inr b \<Rightarrow>
          (case comprehension_if cond xs of
             Inl e \<Rightarrow> Inl e
           | Inr ys \<Rightarrow> Inr (if b then x # ys else ys)))"

section \<open>Log pages and counters\<close>

text \<open>
  \<open>_extract_hostname\<close> (lines 998-1014). The handlers pass whatever the upstream put under
  \<open>nodeHttpAddress\<close>: \<open>':' in v\<close> raises on a number, and \<open>rsplit\<close> is a method of
  strings only.
\<close>

definition extract_hostname :: "json \<Rightarrow> exc + json" where
  "extract_hostname node_http_address =
     and_then (py_in 58 node_http_address) (\<lambda>has_colon.
       if has_colon then
         (case node_http_address of
            JStr s \<Rightarrow> Inr (JStr (py_rsplit1_head 58 s))
          | _ \<Rightarrow> Inl AttributeError)
       else Inr node_http_address)"

text \<open>
  \<open>re.search(r'<pre[^>]*>(.*?)</pre>', html, re.DOTALL | re.IGNORECASE)\<close> (line 1087).
  \<open>ci_char p c\<close>: the pattern character \<open>p\<close> matches \<open>c\<close> when the case is ignored; the
  letters of the pattern are \<open>p\<close>, \<open>r\<close> and \<open>e\<close>, which only their ASCII capitals fold to.
  \<open>match_literal\<close> matches literal pattern text at the start of the input and returns the
  rest. \<open>[^>]*>\<close> can only end at the first \<open>>\<close>. \<open>(.*?)</pre>\<close> is lazy: the group is
  the shortest text followed by the closing tag, and with \<open>DOTALL\<close> the dot matches line
  breaks as well. \<open>re.search\<close> tries the start positions from the left.
\<close>

definition ci_char :: "nat \<Rightarrow> nat \<Rightarrow> bool" where
  "ci_char p c = (c = p \<or> (97 \<le> p \<and> p \<le> 122 \<and> c + 32 = p))"

fun match_literal :: "pystr \<Rightarrow> pystr \<Rightarrow> pystr option" where
  "match_literal [] s = Some s"
| "match_literal (p # ps) [] = None"
| "match_literal (p # ps) (c # cs) = (if ci_char p c then match_literal ps cs else None)"

fun lazy_group_to_close :: "pystr \<Rightarrow> pystr option" where
  "lazy_group_to_close [] = None"
| "lazy_group_to_close (c # cs) =
     (case match_literal (ascii ''</pre>'') (c # cs) of
        Some rest \<Rightarrow> Some []
      | None \<Rightarrow> map_option ((#) c) (lazy_group_to_close cs))"

definition match_pre_here :: "pystr \<Rightarrow> pystr option" where
  "match_pre_here s =
     (case match_literal (ascii ''<pre'') s of
        None \<Rightarrow> None
      | Some r \<Rightarrow>
          (case dropWhile (\<lambda>c. c \<noteq> 62) r of
             [] \<Rightarrow> None
           | gt # rest \<Rightarrow> lazy_group_to_close rest))"

fun re_search_pre :: "pystr \<Rightarrow> pystr option" where
  "re_search_pre [] = None"
| "re_search_pre (c # cs) =
     (case match_pre_here (c # cs) of
        Some g \<Rightarrow> Some g
      | None \<Rightarrow> re_search_pre cs)"

text \<open>\<open>_extract_pre_content\<close> (lines 1076-1098): six replacements in the order of the source.\<close>

definition extract_pre_content :: "pystr \<Rightarrow> pystr" where
  "extract_pre_content html =
     (case re_search_pre html of
        Some group1 \<Rightarrow>
          (let content = group1;
               content = py_replace (ascii ''&lt;'') (ascii ''<'') content;
               content = py_replace (ascii ''&gt;'') (ascii ''>'') content;
               content = py_replace (ascii ''&amp;'') (ascii ''&'') content;
               content = py_replace (ascii ''&quot;'') [34] content;
               content = py_replace (ascii ''&#39;'') [39] content;
               content = py_replace (ascii ''&nbsp;'') (ascii '' '') content
           in py_strip content)
      | None \<Rightarrow> [])"

text \<open>
  \<open>_format_counters_markdown\<close> (lines 955-995). \<open>counter_groups_of\<close> is the choice of the
  group list (lines 968-972), \<open>short_group_name\<close> line 977, \<open>counter_line\<close> the body of the
  inner loop (lines 983-992), \<open>group_lines\<close> the body of the outer loop (lines 975-993).
\<close>

definition counter_groups_of :: "json \<Rightarrow> exc + json" where
  "counter_groups_of counters_data =
     and_then (py_get counters_data (ascii ''counterGroup'') (JArr [])) (\<lambda>counter_groups.
     and_then (if \<not> truthy counter_groups
               then py_get counters_data (ascii ''taskCounterGroup'') (JArr [])
               else Inr counter_groups) (\<lambda>counter_groups.
     if \<not> truthy counter_groups
     then py_get counters_data (ascii ''taskAttemptCounterGroup'') (JArr [])
     else Inr counter_groups))"

definition short_group_name :: "json \<Rightarrow> exc + json" where
  "short_group_name group_name =
     and_then (py_in 46 group_name) (\<lambda>has_dot.
       if has_dot then
         (case group_name of
            JStr s \<Rightarrow> Inr (JStr (last (py_split 46 s)))
          | _ \<Rightarrow> Inl AttributeError)
       else Inr group_name)"

definition counter_line :: "env \<Rightarrow> json \<Rightarrow> exc + pystr" where
  "counter_line ev counter =
     and_then (py_get counter (ascii ''name'') (JStr (ascii ''Unknown''))) (\<lambda>name.
     and_then (py_get counter (ascii ''value'') (JInt 0)) (\<lambda>generic_value.
     and_then (py_get counter (ascii ''totalCounterValue'') generic_value) (\<lambda>total_value.
     and_then (py_get counter (ascii ''mapCounterValue'') JNull) (\<lambda>map_value.
     and_then (py_get counter (ascii ''reduceCounterValue'') JNull) (\<lambda>reduce_value.
     if map_value \<noteq> JNull \<and> reduce_value \<noteq> JNull then
       and_then (py_format_comma total_value) (\<lambda>t.
       and_then (py_format_comma map_value) (\<lambda>m.
       and_then (py_format_comma reduce_value) (\<lambda>r.
         Inr (ascii ''- **'' @ py_format ev name @ ascii ''**: '' @ t
              @ ascii '' (Map: '' @ m @ ascii '', Reduce: '' @ r @ ascii '')''))))
     else
       and_then (py_format_comma total_value) (\<lambda>t.
         Inr (ascii ''- **'' @ py_format ev name @ ascii ''**: '' @ t)))))))"

definition group_lines :: "env \<Rightarrow> json \<Rightarrow> exc + pystr list" where
  "group_lines ev grp =
     and_then (py_get grp (ascii ''counterGroupName'') (JStr (ascii ''Unknown Group'')))
       (\<lambda>group_name.
     and_then (short_group_name group_name) (\<lambda>short_name.
     and_then (py_get grp (ascii ''counter'') (JArr [])) (\<lambda>counters.
     and_then (py_iter counters) (\<lambda>cs.
     and_then (for_each (counter_line ev) cs) (\<lambda>ls.
       Inr ([ascii ''## '' @ py_format ev short_name, []] @ ls @ [[]]))))))"

definition format_counters_markdown :: "env \<Rightarrow> json \<Rightarrow> pystr \<Rightarrow> exc + pystr" where
  "format_counters_markdown ev counters_data title =
     and_then (counter_groups_of counters_data) (\<lambda>counter_groups.
     and_then (py_iter counter_groups) (\<lambda>gs.
     and_then (for_each (group_lines ev) gs) (\<lambda>ls.
       Inr (py_join [10] ([ascii ''# '' @ title, []] @ concat ls)))))"

section \<open>Input models\<close>

text \<open>
  \<open>BaseInput.parse_json_string\<close> (lines 376-399), the validator that runs before the fields
  are validated. \<open>data\<close> is the raw argument: a \<open>str\<close> is \<open>JStr\<close>. Only
  \<open>json.JSONDecodeError\<close> is caught. \<open>model_validate\<close> is the validation of one model:
  the validator first, then the validation of the declared fields, which is the library's
  and is a parameter here.
\<close>

definition parse_json_string :: "env \<Rightarrow> json \<Rightarrow> exc + json" where
  "parse_json_string ev data =
     (case data of
        JStr s \<Rightarrow>
          (case json_loads ev s of
             Inr parsed \<Rightarrow> Inr parsed
           | Inl e \<Rightarrow> (if e = JSONDecodeError then Inr data else Inl e))
      | _ \<Rightarrow> Inr data)"

definition model_validate :: "env \<Rightarrow> (json \<Rightarrow> exc + 'p) \<Rightarrow> json \<Rightarrow> exc + 'p" where
  "model_validate ev validate_fields data =
     and_then (parse_json_string ev data) validate_fields"

datatype ResponseFormat = MARKDOWN | JSON

datatype JobState = NEW | INITED | RUNNING | SUCCEEDED | FAILED | KILL_WAIT | KILLED | ERROR

fun JobState_value :: "JobState \<Rightarrow> pystr" where
  "JobState_value NEW = ascii ''NEW''"
| "JobState_value INITED = ascii ''INITED''"
| "JobState_value RUNNING = ascii ''RUNNING''"
| "JobState_value SUCCEEDED = ascii ''SUCCEEDED''"
| "JobState_value FAILED = ascii ''FAILED''"
| "JobState_value KILL_WAIT = ascii ''KILL_WAIT''"
| "JobState_value KILLED = ascii ''KILLED''"
| "JobState_value ERROR = ascii ''ERROR''"

datatype LogType = STDOUT | STDERR | SYSLOG | SYSLOG_SHUFFLE | PRELAUNCH_OUT | PRELAUNCH_ERR
  | CONTAINER_LOCALIZER_SYSLOG

fun LogType_value :: "LogType \<Rightarrow> pystr" where
  "LogType_value STDOUT = ascii ''stdout''"
| "LogType_value STDERR = ascii ''stderr''"
| "LogType_value SYSLOG = ascii ''syslog''"
| "LogType_value SYSLOG_SHUFFLE = ascii ''syslog.shuffle''"
| "LogType_value PRELAUNCH_OUT = ascii ''prelaunch.out''"
| "LogType_value PRELAUNCH_ERR = ascii ''prelaunch.err''"
| "LogType_value CONTAINER_LOCALIZER_SYSLOG = ascii ''container-localizer-syslog''"

datatype TaskType = MAP | REDUCE

fun TaskType_value :: "TaskType \<Rightarrow> pystr" where
  "TaskType_value MAP = ascii ''m''"
| "TaskType_value REDUCE = ascii ''r''"

text \<open>
  The validated input objects. Every model of the source declares \<open>response_format\<close>;
  the records share it, and the identifiers, through record extension. \<open>end_pos\<close> is the
  field \<open>end\<close> of the source. \<open>valid_ListJobsInput\<close> holds the bounds the fields declare
  (\<open>ge\<close>, \<open>le\<close>), which every validated object satisfies.
\<close>

record BaseInput =
  response_format :: ResponseFormat

record ListJobsInput = BaseInput +
  user :: "pystr option"
  state :: "JobState option"
  queue :: "pystr option"
  limit :: "int option"
  started_time_begin :: "int option"
  started_time_end :: "int option"
  finished_time_begin :: "int option"
  finished_time_end :: "int option"

definition valid_ListJobsInput :: "ListJobsInput \<Rightarrow> bool" where
  "valid_ListJobsInput p =
     ((case limit p of None \<Rightarrow> True | Some n \<Rightarrow> 1 \<le> n \<and> n \<le> 100)
      \<and> (case started_time_begin p of None \<Rightarrow> True | Some t \<Rightarrow> 0 \<le> t)
      \<and> (case started_time_end p of None \<Rightarrow> True | Some t \<Rightarrow> 0 \<le> t)
      \<and> (case finished_time_begin p of None \<Rightarrow> True | Some t \<Rightarrow> 0 \<le> t)
      \<and> (case finished_time_end p of None \<Rightarrow> True | Some t \<Rightarrow> 0 \<le> t))"

record GetJobInput = BaseInput +
  job_id :: pystr

record GetTaskInput = GetJobInput +
  task_id :: pystr

record GetTaskAttemptInput = GetTaskInput +
  attempt_id :: pystr

record GetTaskAttemptLogsInput = GetTaskAttemptInput +
  log_type :: LogType

record GetTaskAttemptLogsPartialInput = GetTaskAttemptLogsInput +
  start :: int
  end_pos :: int

record GetJobConfInput = GetJobInput +
  filter_key :: "pystr option"

record ListTasksInput = GetJobInput +
  task_type :: "TaskType option"

text \<open>
  What the declarations of \<open>GetJobInput\<close> (lines 468-497) make the validation library do
  with the value the validator above hands over. Only a dict is accepted. \<open>job_id\<close> is
  required and must be a string; \<open>str_strip_whitespace\<close> removes the characters of the
  Unicode property \<open>White_Space\<close> at both ends, then \<open>min_length=1\<close> and
  \<open>max_length=100\<close> are checked on the number of code points, then \<open>validate_job_id\<close>
  rejects a string that \<open>strip()\<close> empties and returns the stripped string.
  \<open>response_format\<close> must be one of the two values of the enumeration and is
  \<open>markdown\<close> when absent. Keys that are not declared are ignored. Every rejection is the
  library's \<open>ValidationError\<close>.
\<close>

definition ValidationError :: exc where
  "ValidationError = OtherException (ascii ''ValidationError'')"

definition white_space :: "nat \<Rightarrow> bool" where
  "white_space c =
     ((9 \<le> c \<and> c \<le> 13) \<or> c = 32 \<or> c = 133 \<or> c = 160 \<or> c = 5760
      \<or> (8192 \<le> c \<and> c \<le> 8202) \<or> c = 8232 \<or> c = 8233 \<or> c = 8239 \<or> c = 8287
      \<or> c = 12288)"

definition strip_white_space :: "pystr \<Rightarrow> pystr" where
  "strip_white_space s = rev (dropWhile white_space (rev (dropWhile white_space s)))"

definition validate_response_format :: "(pystr \<times> json) list \<Rightarrow> exc + ResponseFormat" where
  "validate_response_format kvs =
     (case map_of kvs (ascii ''response_format'') of
        None \<Rightarrow> Inr MARKDOWN
      | Some (JStr v) \<Rightarrow>
          (if v = ascii ''markdown'' then Inr MARKDOWN
           else if v = ascii ''json'' then Inr JSON
           else Inl ValidationError)
      | Some other \<Rightarrow> Inl ValidationError)"

definition validate_job_id :: "pystr \<Rightarrow> exc + pystr" where
  "validate_job_id v = (if py_strip v = [] then Inl ValueError else Inr (py_strip v))"

definition validate_GetJobInput :: "json \<Rightarrow> exc + GetJobInput" where
  "validate_GetJobInput data =
     (case data of
        JObj kvs \<Rightarrow>
          (case map_of kvs (ascii ''job_id'') of
             Some (JStr raw) \<Rightarrow>
               (let v = strip_white_space raw in
                if length v < 1 \<or> 100 < length v then Inl ValidationError
                else case validate_job_id v of
                  Inl e \<Rightarrow> Inl ValidationError
                | Inr checked \<Rightarrow>
                    (case validate_response_format kvs of
                       Inl e \<Rightarrow> Inl e
                     | Inr fmt \<Rightarrow> Inr \<lparr>response_format = fmt, job_id = checked\<rparr>))
           | other \<Rightarrow> Inl ValidationError)
      | other \<Rightarrow> Inl ValidationError)"

section \<open>Upstream client\<close>

text \<open>
  A handler runs against the remote servers. The trace records, in order, the requests a
  call has issued; \<open>'a io\<close> is a computation that extends the trace and either raises or
  returns. \<open>_make_request\<close> (lines 777-847) joins the base URL and the endpoint, hands the
  query to the HTTP client and re-raises whatever the client, \<open>raise_for_status\<close> or the
  JSON decoding raise; \<open>_fetch_logs_html\<close> (lines 1017-1073) gets a page by its full URL.
  The log lines they write are not modelled. An absent query (\<open>None\<close>) is the empty one.
\<close>

datatype call = GetJson pystr "(pystr \<times> json) list" | GetText pystr

type_synonym 'a io = "call list \<Rightarrow> (exc + 'a) \<times> call list"

definition io_return :: "'a \<Rightarrow> 'a io" where
  "io_return x = (\<lambda>tr. (Inr x, tr))"

definition io_lift :: "exc + 'a \<Rightarrow> 'a io" where
  "io_lift r = (\<lambda>tr. (r, tr))"

definition io_bind :: "'a io \<Rightarrow> ('a \<Rightarrow> 'b io) \<Rightarrow> 'b io" where
  "io_bind m f = (\<lambda>tr. case m tr of (Inl e, tr') \<Rightarrow> (Inl e, tr') | (Inr x, tr') \<Rightarrow> f x tr')"

definition make_request :: "env \<Rightarrow> pystr \<Rightarrow> (pystr \<times> json) list \<Rightarrow> json io" where
  "make_request ev endpoint params =
     (\<lambda>tr. let url = JOBHISTORY_BASE_URL ev @ ascii ''/'' @ endpoint
           in (http_get_json ev url params, tr @ [GetJson url params]))"

definition fetch_logs_html :: "env \<Rightarrow> pystr \<Rightarrow> pystr io" where
  "fetch_logs_html ev url = (\<lambda>tr. (http_get_text ev url, tr @ [GetText url]))"

text \<open>
  Every tool is \<open>try: ... except Exception as e: return _handle_error(e)\<close> around its whole
  body: \<open>guarded\<close> is that frame.
\<close>

definition guarded :: "env \<Rightarrow> pystr io \<Rightarrow> pystr io" where
  "guarded ev body =
     (\<lambda>tr. case body tr of
             (Inl e, tr') \<Rightarrow> (Inr (handle_error ev e), tr')
           | (Inr s, tr') \<Rightarrow> (Inr s, tr'))"

section \<open>Tool handlers\<close>

text \<open>Rows and words of the tables the handlers render, with the meaning of the Chinese words.\<close>

definition table_row :: "pystr \<Rightarrow> pystr \<Rightarrow> pystr" where
  "table_row label v = ascii ''| '' @ label @ ascii '' | '' @ v @ ascii '' |''"

definition table_row_code :: "pystr \<Rightarrow> pystr \<Rightarrow> pystr" where
  "table_row_code label v = ascii ''| '' @ label @ ascii '' | '' @ [96] @ v @ [96] @ ascii '' |''"

definition word_user :: pystr where "word_user = [29992, 25143]"
definition word_queue :: pystr where "word_queue = [38431, 21015]"
definition word_state :: pystr where "word_state = [29366, 24577]"
definition word_start_time :: pystr where "word_start_time = [24320, 22987, 26102, 38388]"
definition word_finish_time :: pystr where "word_finish_time = [32467, 26463, 26102, 38388]"
definition word_submit_time :: pystr where "word_submit_time = [25552, 20132, 26102, 38388]"
definition word_progress :: pystr where "word_progress = [36827, 24230]"
definition word_job :: pystr where "word_job = [20316, 19994]"
definition word_task :: pystr where "word_task = [20219, 21153]"
definition word_attempt :: pystr where "word_attempt = [23581, 35797]"
definition word_container :: pystr where "word_container = [23481, 22120]"
definition word_node :: pystr where "word_node = [33410, 28857]"
definition word_log :: pystr where "word_log = [26085, 24535]"
definition word_average :: pystr where "word_average = [24179, 22343]"
definition word_time :: pystr where "word_time = [26102, 38388]"
definition word_counters :: pystr where "word_counters = [35745, 25968, 22120]"
definition word_bytes :: pystr where "word_bytes = [23383, 33410]"

definition header_attribute_value :: pystr where
  "header_attribute_value = table_row [23646, 24615] [20540]"

text \<open>
  The icon of a state: a lookup in a \<open>dict\<close> literal with a default (white question mark).
  A list or a dict cannot be a key: the lookup raises \<open>TypeError\<close>.
\<close>

definition state_icon_of :: "json \<Rightarrow> exc + pystr" where
  "state_icon_of st =
     (case st of
        JArr xs \<Rightarrow> Inl TypeError
      | JObj kvs \<Rightarrow> Inl TypeError
      | JStr s \<Rightarrow>
          Inr (if s = ascii ''SUCCEEDED'' then [9989]
               else if s = ascii ''FAILED'' then [10060]
               else if s = ascii ''KILLED'' then [9888, 65039]
               else if s = ascii ''RUNNING'' then [128260]
               else [10067])
      | _ \<Rightarrow> Inr [10067])"

text \<open>
  \<open>jobhistory_get_info\<close> (lines 1117-1150) takes no input. The page says "JobHistory
  Server information", "service state", "start time", "running state: normal", "Hadoop
  version information", "version", "build version", "build time", "connection information"
  and "service address".
\<close>

definition get_info_markdown :: "env \<Rightarrow> json \<Rightarrow> exc + pystr" where
  "get_info_markdown ev info =
     (case info of
        JObj kvs \<Rightarrow>
          (let field = (\<lambda>k. py_format ev (dict_get kvs k (JStr NA)))
           in and_then (format_timestamp ev (dict_get kvs (ascii ''startedOn'') (JInt 0)))
                (\<lambda>started_on.
                Inr (ascii ''# JobHistory Server '' @ [20449, 24687, 10, 10]
                     @ ascii ''## '' @ [26381, 21153, 29366, 24577, 10]
                     @ ascii ''- **'' @ [21551, 21160, 26102, 38388] @ ascii ''**: ''
                     @ started_on @ [10]
                     @ ascii ''- **'' @ [36816, 34892, 29366, 24577] @ ascii ''**: ''
                     @ [27491, 24120, 10, 10]
                     @ ascii ''## Hadoop '' @ [29256, 26412, 20449, 24687, 10]
                     @ ascii ''- **'' @ [29256, 26412] @ ascii ''**: ''
                     @ field (ascii ''hadoopVersion'') @ [10]
                     @ ascii ''- **'' @ [26500, 24314, 29256, 26412] @ ascii ''**: ''
                     @ field (ascii ''hadoopBuildVersion'') @ [10]
                     @ ascii ''- **'' @ [26500, 24314, 26102, 38388] @ ascii ''**: ''
                     @ field (ascii ''hadoopVersionBuiltOn'') @ [10, 10]
                     @ ascii ''## '' @ [36830, 25509, 20449, 24687, 10]
                     @ ascii ''- **'' @ [26381, 21153, 22320, 22336] @ ascii ''**: ''
                     @ JOBHISTORY_BASE_URL ev @ [10])))
      | _ \<Rightarrow> Inl AttributeError)"

definition jobhistory_get_info_body :: "env \<Rightarrow> pystr io" where
  "jobhistory_get_info_body ev =
     io_bind (make_request ev (ascii ''info'') []) (\<lambda>data.
     io_lift
       (and_then (py_get data (ascii ''historyInfo'') (JObj [])) (\<lambda>info.
          get_info_markdown ev info)))"

definition jobhistory_get_info :: "env \<Rightarrow> pystr io" where
  "jobhistory_get_info ev = guarded ev (jobhistory_get_info_body ev)"

text \<open>
  \<open>jobhistory_list_jobs\<close> (lines 1164-1265). \<open>if params.user:\<close> and the seven tests after
  it are truth tests; \<open>set_if_truthy\<close> is one of them with its assignment. The message for
  an empty list says "no jobs found that match the conditions".
\<close>

definition set_if_truthy ::
  "pystr \<Rightarrow> json option \<Rightarrow> (pystr \<times> json) list \<Rightarrow> (pystr \<times> json) list" where
  "set_if_truthy k v query_params =
     (case v of
        None \<Rightarrow> query_params
      | Some x \<Rightarrow> if truthy x then query_params @ [(k, x)] else query_params)"

definition list_jobs_query_params :: "ListJobsInput \<Rightarrow> (pystr \<times> json) list" where
  "list_jobs_query_params params =
     (let query_params = [];
          query_params = set_if_truthy (ascii ''user'') (map_option JStr (user params)) query_params;
          query_params = set_if_truthy (ascii ''state'')
            (map_option (\<lambda>s. JStr (JobState_value s)) (state params)) query_params;
          query_params = set_if_truthy (ascii ''queue'') (map_option JStr (queue params)) query_params;
          query_params = set_if_truthy (ascii ''limit'') (map_option JInt (limit params)) query_params;
          query_params = set_if_truthy (ascii ''startedTimeBegin'')
            (map_option JInt (started_time_begin params)) query_params;
          query_params = set_if_truthy (ascii ''startedTimeEnd'')
            (map_option JInt (started_time_end params)) query_params;
          query_params = set_if_truthy (ascii ''finishedTimeBegin'')
            (map_option JInt (finished_time_begin params)) query_params;
          query_params = set_if_truthy (ascii ''finishedTimeEnd'')
            (map_option JInt (finished_time_end params)) query_params
      in query_params)"

definition msg_no_jobs :: pystr where
  "msg_no_jobs = [27809, 26377, 25214, 21040, 31526, 21512, 26465, 20214, 30340, 20316, 19994, 12290]"

definition list_jobs_job_lines :: "env \<Rightarrow> json \<Rightarrow> exc + pystr list" where
  "list_jobs_job_lines ev job =
     (case job of
        JObj kvs \<Rightarrow>
          (let job_id = dict_get kvs (ascii ''id'') (JStr NA);
               job_name = dict_get kvs (ascii ''name'') (JStr NA);
               job_state = dict_get kvs (ascii ''state'') (JStr NA);
               job_user = dict_get kvs (ascii ''user'') (JStr NA);
               job_queue = dict_get kvs (ascii ''queue'') (JStr NA)
           in and_then (state_icon_of job_state) (\<lambda>state_icon.
              and_then (format_timestamp ev (dict_get kvs (ascii ''startTime'') (JInt 0)))
                (\<lambda>start_time.
              and_then (format_timestamp ev (dict_get kvs (ascii ''finishTime'') (JInt 0)))
                (\<lambda>finish_time.
                Inr [ascii ''## '' @ state_icon @ ascii '' '' @ py_format ev job_name,
                     ascii ''**ID**: '' @ [96] @ py_format ev job_id @ [96],
                     [],
                     header_attribute_value,
                     ascii ''|------|-----|'',
                     table_row word_user (py_format ev job_user),
                     table_row word_queue (py_format ev job_queue),
                     table_row word_state (py_format ev job_state),
                     table_row word_start_time start_time,
                     table_row word_finish_time finish_time,
                     table_row (ascii ''Map '' @ word_progress)
                       (py_format ev (dict_get kvs (ascii ''mapsCompleted'') (JInt 0)) @ ascii ''/''
                        @ py_format ev (dict_get kvs (ascii ''mapsTotal'') (JInt 0))),
                     table_row (ascii ''Reduce '' @ word_progress)
                       (py_format ev (dict_get kvs (ascii ''reducesCompleted'') (JInt 0)) @ ascii ''/''
                        @ py_format ev (dict_get kvs (ascii ''reducesTotal'') (JInt 0))),
                     []]))))
      | _ \<Rightarrow> Inl AttributeError)"

definition jobhistory_list_jobs_body :: "env \<Rightarrow> ListJobsInput \<Rightarrow> pystr io" where
  "jobhistory_list_jobs_body ev params =
     io_bind (make_request ev (ascii ''mapreduce/jobs'') (list_jobs_query_params params)) (\<lambda>data.
     io_lift
       (and_then (py_get data (ascii ''jobs'') (JObj [])) (\<lambda>jobs_entry.
        and_then (py_get jobs_entry (ascii ''job'') (JArr [])) (\<lambda>jobs.
          if \<not> truthy jobs then Inr msg_no_jobs
          else if response_format params = JSON then
            and_then (py_len jobs) (\<lambda>n.
              Inr (json_dumps ev (JObj [(ascii ''total'', JInt n), (ascii ''jobs'', jobs)])))
          else
            and_then (py_len jobs) (\<lambda>n.
            and_then (py_iter jobs) (\<lambda>js.
            and_then (for_each (list_jobs_job_lines ev) js) (\<lambda>ls.
              Inr (py_join [10]
                    ([ascii ''# MapReduce '' @ word_job @ [21015, 34920],
                      [20849, 25214, 21040] @ ascii '' **'' @ py_str_int n @ ascii ''** ''
                        @ [20010] @ word_job,
                      []] @ concat ls)))))))))"

definition jobhistory_list_jobs :: "env \<Rightarrow> ListJobsInput \<Rightarrow> pystr io" where
  "jobhistory_list_jobs ev params = guarded ev (jobhistory_list_jobs_body ev params)"

text \<open>
  \<open>jobhistory_get_job\<close> (lines 1279-1374). \<open>get_job_markdown\<close> is the rendering after
  the JSON branch. The list of lines is built before the diagnostics and the access
  control entries are added; \<open>"\n".join\<close> raises \<open>TypeError\<close> on a line that is not a
  string, which only the diagnostics value can be.
\<close>

definition acl_line :: "env \<Rightarrow> json \<Rightarrow> exc + pystr" where
  "acl_line ev acl =
     (case acl of
        JObj kvs \<Rightarrow>
          Inr (ascii ''| '' @ py_format ev (dict_get kvs (ascii ''name'') (JStr NA)) @ ascii '' | ''
               @ py_format ev (dict_get kvs (ascii ''value'') (JStr NA)) @ ascii '' |'')
      | _ \<Rightarrow> Inl AttributeError)"

definition get_job_markdown :: "env \<Rightarrow> json \<Rightarrow> exc + pystr" where
  "get_job_markdown ev job =
     (case job of
        JObj kvs \<Rightarrow>
          (let field = (\<lambda>k d. py_format ev (dict_get kvs k d));
               count = (\<lambda>k. py_format ev (dict_get kvs k (JInt 0)));
               job_state = dict_get kvs (ascii ''state'') (JStr NA)
           in and_then (state_icon_of job_state) (\<lambda>state_icon.
              and_then (format_timestamp ev (dict_get kvs (ascii ''submitTime'') (JInt 0)))
                (\<lambda>submit_time.
              and_then (format_timestamp ev (dict_get kvs (ascii ''startTime'') (JInt 0)))
                (\<lambda>start_time.
              and_then (format_timestamp ev (dict_get kvs (ascii ''finishTime'') (JInt 0)))
                (\<lambda>finish_time.
              and_then (format_duration (dict_get kvs (ascii ''avgMapTime'') (JInt 0)))
                (\<lambda>avg_map_time.
              and_then (format_duration (dict_get kvs (ascii ''avgReduceTime'') (JInt 0)))
                (\<lambda>avg_reduce_time.
              and_then (format_duration (dict_get kvs (ascii ''avgShuffleTime'') (JInt 0)))
                (\<lambda>avg_shuffle_time.
              and_then (format_duration (dict_get kvs (ascii ''avgMergeTime'') (JInt 0)))
                (\<lambda>avg_merge_time.
              let lines =
                   [ascii ''# '' @ state_icon @ ascii '' '' @ word_job @ [35814, 24773] @ ascii '': ''
                      @ field (ascii ''name'') (JStr NA),
                    [],
                    ascii ''## '' @ [22522, 26412, 20449, 24687],
                    header_attribute_value,
                    ascii ''|------|-----|'',
                    table_row_code (word_job @ ascii '' ID'') (field (ascii ''id'') (JStr NA)),
                    table_row (word_job @ [21517, 31216]) (field (ascii ''name'') (JStr NA)),
                    table_row word_user (field (ascii ''user'') (JStr NA)),
                    table_row word_queue (field (ascii ''queue'') (JStr NA)),
                    table_row word_state (py_format ev job_state),
                    table_row (ascii ''Uber '' @ [27169, 24335])
                      (if truthy (dict_get kvs (ascii ''uberized'') JNull) then [26159] else [21542]),
                    [],
                    ascii ''## '' @ word_time @ [20449, 24687],
                    table_row [38454, 27573] word_time,
                    ascii ''|------|-----|'',
                    table_row word_submit_time submit_time,
                    table_row word_start_time start_time,
                    table_row word_finish_time finish_time,
                    [],
                    ascii ''## '' @ word_task @ [32479, 35745],
                    ascii ''| '' @ [31867, 22411] @ ascii '' | '' @ [23436, 25104] @ ascii ''/''
                      @ [24635, 25968] @ ascii '' | '' @ [25104, 21151] @ ascii '' | ''
                      @ [22833, 36133] @ ascii '' | '' @ [32456, 27490] @ ascii '' |'',
                    ascii ''|------|----------|------|------|------|'',
                    ascii ''| Map | '' @ count (ascii ''mapsCompleted'') @ ascii ''/''
                      @ count (ascii ''mapsTotal'') @ ascii '' | ''
                      @ count (ascii ''successfulMapAttempts'') @ ascii '' | ''
                      @ count (ascii ''failedMapAttempts'') @ ascii '' | ''
                      @ count (ascii ''killedMapAttempts'') @ ascii '' |'',
                    ascii ''| Reduce | '' @ count (ascii ''reducesCompleted'') @ ascii ''/''
                      @ count (ascii ''reducesTotal'') @ ascii '' | ''
                      @ count (ascii ''successfulReduceAttempts'') @ ascii '' | ''
                      @ count (ascii ''failedReduceAttempts'') @ ascii '' | ''
                      @ count (ascii ''killedReduceAttempts'') @ ascii '' |'',
                    [],
                    ascii ''## '' @ [24615, 33021, 32479, 35745],
                    table_row [25351, 26631] [32791, 26102],
                    ascii ''|------|------|'',
                    table_row (word_average @ ascii '' Map '' @ word_time) avg_map_time,
                    table_row (word_average @ ascii '' Reduce '' @ word_time) avg_reduce_time,
                    table_row (word_average @ ascii '' Shuffle '' @ word_time) avg_shuffle_time,
                    table_row (word_average @ ascii '' Merge '' @ word_time) avg_merge_time];
                  diagnostics = dict_get kvs (ascii ''diagnostics'') JNull;
                  acls = dict_get kvs (ascii ''acls'') (JArr [])
              in and_then (if truthy acls
                           then and_then (py_iter acls) (for_each (acl_line ev))
                           else Inr []) (\<lambda>acl_lines.
                 (case diagnostics of
                    JStr d \<Rightarrow>
                      Inr (py_join [10]
                        (lines
                         @ (if d \<noteq> []
                            then [[], ascii ''## '' @ [35786, 26029, 20449, 24687], [96, 96, 96], d,
                                  [96, 96, 96]]
                            else [])
                         @ (if truthy acls
                            then [[], ascii ''## '' @ [35775, 38382, 25511, 21046],
                                  table_row (ascii ''ACL '' @ [21517, 31216]) [20540],
                                  ascii ''|----------|-----|''] @ acl_lines
                            else [])))
                  | _ \<Rightarrow>
                      if truthy diagnostics then Inl TypeError
                      else Inr (py_join [10]
                        (lines
                         @ (if truthy acls
                            then [[], ascii ''## '' @ [35775, 38382, 25511, 21046],
                                  table_row (ascii ''ACL '' @ [21517, 31216]) [20540],
                                  ascii ''|----------|-----|''] @ acl_lines
                            else []))))))))))))))
      | _ \<Rightarrow> Inl AttributeError)"

definition jobhistory_get_job_body :: "env \<Rightarrow> 'a GetJobInput_scheme \<Rightarrow> pystr io" where
  "jobhistory_get_job_body ev params =
     io_bind (make_request ev (ascii ''mapreduce/jobs/'' @ job_id params) []) (\<lambda>data.
     io_lift
       (and_then (py_get data (ascii ''job'') (JObj [])) (\<lambda>job.
          if response_format params = JSON then Inr (json_dumps ev job)
          else get_job_markdown ev job)))"

definition jobhistory_get_job :: "env \<Rightarrow> 'a GetJobInput_scheme \<Rightarrow> pystr io" where
  "jobhistory_get_job ev params = guarded ev (jobhistory_get_job_body ev params)"

text \<open>
  The three counter tools (lines 1388-1417, 1726-1751, 1931-1956) differ in the endpoint,
  the key of the payload, the title and the identifier shown when the payload has none.
\<close>

definition counters_tool_body ::
  "env \<Rightarrow> ResponseFormat \<Rightarrow> pystr \<Rightarrow> pystr \<Rightarrow> pystr \<Rightarrow> pystr \<Rightarrow> pystr io" where
  "counters_tool_body ev fmt endpoint payload_key title own_id =
     io_bind (make_request ev endpoint []) (\<lambda>data.
     io_lift
       (and_then (py_get data payload_key (JObj [])) (\<lambda>counters.
          if fmt = JSON then Inr (json_dumps ev counters)
          else
            and_then (py_get counters (ascii ''id'') (JStr own_id)) (\<lambda>shown_id.
              format_counters_markdown ev counters (title @ py_format ev shown_id)))))"

definition jobhistory_get_job_counters :: "env \<Rightarrow> 'a GetJobInput_scheme \<Rightarrow> pystr io" where
  "jobhistory_get_job_counters ev params =
     guarded ev (counters_tool_body ev (response_format params)
       (ascii ''mapreduce/jobs/'' @ job_id params @ ascii ''/counters'')
       (ascii ''jobCounters'') (word_job @ word_counters @ ascii '': '') (job_id params))"

definition jobhistory_get_task_counters :: "env \<Rightarrow> 'a GetTaskInput_scheme \<Rightarrow> pystr io" where
  "jobhistory_get_task_counters ev params =
     guarded ev (counters_tool_body ev (response_format params)
       (ascii ''mapreduce/jobs/'' @ job_id params @ ascii ''/tasks/'' @ task_id params
        @ ascii ''/counters'')
       (ascii ''jobTaskCounters'') (word_task @ word_counters @ ascii '': '') (task_id params))"

definition jobhistory_get_task_attempt_counters ::
  "env \<Rightarrow> 'a GetTaskAttemptInput_scheme \<Rightarrow> pystr io" where
  "jobhistory_get_task_attempt_counters ev params =
     guarded ev (counters_tool_body ev (response_format params)
       (ascii ''mapreduce/jobs/'' @ job_id params @ ascii ''/tasks/'' @ task_id params
        @ ascii ''/attempts/'' @ attempt_id params @ ascii ''/counters'')
       (ascii ''jobTaskAttemptCounters'') (word_task @ word_attempt @ word_counters @ ascii '': '')
       (attempt_id params))"

text \<open>
  \<open>jobhistory_get_job_conf\<close> (lines 1431-1500). \<open>conf_name_matches\<close> is the condition of
  the filter (line 1465), \<open>conf_prefix_of\<close> the group of a property (lines 1479-1480),
  \<open>group_add\<close> the insertion into the dict of groups (lines 1481-1483), which keeps the
  order of first insertion, \<open>conf_property_line\<close> the body of the inner loop (lines
  1490-1495) and \<open>conf_group_lines\<close> the body of the outer one. \<open>lower\<close> is a method of
  strings only. A value longer than 100 is cut: a string can be, a list cannot be joined
  with the string \<open>"..."\<close>, and a dict cannot be sliced (\<open>TypeError\<close>; from Python 3.12 on
  the slice of a dict is a failed lookup instead). The text says "job configuration",
  "path of the configuration file", "N configuration items in all", "(filter: 'key')" and
  "N items".
\<close>

definition conf_name_matches :: "env \<Rightarrow> pystr \<Rightarrow> json \<Rightarrow> exc + bool" where
  "conf_name_matches ev filter_lower p =
     and_then (py_get p (ascii ''name'') (JStr [])) (\<lambda>name.
       case name of
         JStr s \<Rightarrow> Inr (py_contains filter_lower (str_lower ev s))
       | _ \<Rightarrow> Inl AttributeError)"

definition conf_prefix_of :: "json \<Rightarrow> exc + pystr \<times> json" where
  "conf_prefix_of prop =
     and_then (py_get prop (ascii ''name'') (JStr [])) (\<lambda>name.
     and_then (py_in 46 name) (\<lambda>has_dot.
       if has_dot then
         (case name of
            JStr s \<Rightarrow> Inr (hd (py_split 46 s), prop)
          | _ \<Rightarrow> Inl AttributeError)
       else Inr (ascii ''other'', prop)))"

fun group_add ::
  "pystr \<times> json \<Rightarrow> (pystr \<times> json list) list \<Rightarrow> (pystr \<times> json list) list" where
  "group_add (pfx, prop) [] = [(pfx, [prop])]"
| "group_add (pfx, prop) ((k, props) # groups) =
     (if k = pfx then (k, props @ [prop]) # groups
      else (k, props) # group_add (pfx, prop) groups)"

definition conf_property_line :: "env \<Rightarrow> json \<Rightarrow> exc + pystr" where
  "conf_property_line ev prop =
     and_then (py_get prop (ascii ''name'') (JStr NA)) (\<lambda>name.
     and_then (py_get prop (ascii ''value'') (JStr NA)) (\<lambda>v.
     and_then (py_len v) (\<lambda>n.
     and_then (if n > 100 then
                 (case v of
                    JStr s \<Rightarrow> Inr (JStr (take 100 s @ ascii ''...''))
                  | _ \<Rightarrow> Inl TypeError)
               else Inr v) (\<lambda>shown.
       Inr (ascii ''- '' @ [96] @ py_format ev name @ [96] @ ascii '' = '' @ [96]
            @ py_format ev shown @ [96])))))"

definition conf_group_lines ::
  "env \<Rightarrow> (pystr \<times> json list) list \<Rightarrow> pystr \<Rightarrow> exc + pystr list" where
  "conf_group_lines ev groups pfx =
     (let props = (case map_of groups pfx of Some ps \<Rightarrow> ps | None \<Rightarrow> [])
      in and_then (for_each (conf_property_line ev) props) (\<lambda>ls.
           Inr ([ascii ''## '' @ pfx @ ascii '' ('' @ py_str_int (int (length props))
                   @ ascii '' '' @ [39033] @ ascii '')'',
                 []] @ ls @ [[]])))"

definition get_job_conf_markdown ::
  "env \<Rightarrow> pystr \<Rightarrow> pystr option \<Rightarrow> json \<Rightarrow> exc + pystr" where
  "get_job_conf_markdown ev own_job_id fkey conf =
     and_then (py_get conf (ascii ''path'') (JStr NA)) (\<lambda>path.
     and_then (py_get conf (ascii ''property'') (JArr [])) (\<lambda>properties.
     and_then (case fkey of
                 None \<Rightarrow> Inr properties
               | Some f \<Rightarrow>
                   if f = [] then Inr properties
                   else
                     and_then (py_iter properties) (\<lambda>ps.
                     and_then (comprehension_if (conf_name_matches ev (str_lower ev f)) ps)
                       (\<lambda>kept. Inr (JArr kept)))) (\<lambda>properties.
     and_then (py_len properties) (\<lambda>n.
     and_then (py_iter properties) (\<lambda>ps.
     and_then (for_each conf_prefix_of ps) (\<lambda>grouped.
     let groups = foldl (\<lambda>gs pp. group_add pp gs) [] grouped in
     and_then (for_each (conf_group_lines ev groups) (py_sorted (map fst groups)))
       (\<lambda>group_lines.
       Inr (py_join [10]
             ([ascii ''# '' @ word_job @ [37197, 32622] @ ascii '': '' @ own_job_id,
               ascii ''**'' @ [37197, 32622, 25991, 20214, 36335, 24452] @ ascii ''**: ''
                 @ [96] @ py_format ev path @ [96],
               [],
               [20849] @ ascii '' **'' @ py_str_int n @ ascii ''** ''
                 @ [20010, 37197, 32622, 39033]
                 @ (case fkey of
                      None \<Rightarrow> []
                    | Some f \<Rightarrow>
                        if f = [] then []
                        else [65288, 36807, 28388] @ ascii '': '' @ [39] @ f @ [39, 65289]),
               []] @ concat group_lines)))))))))"

definition jobhistory_get_job_conf_body :: "env \<Rightarrow> 'a GetJobConfInput_scheme \<Rightarrow> pystr io" where
  "jobhistory_get_job_conf_body ev params =
     io_bind (make_request ev (ascii ''mapreduce/jobs/'' @ job_id params @ ascii ''/conf'') [])
       (\<lambda>data.
     io_lift
       (and_then (py_get data (ascii ''conf'') (JObj [])) (\<lambda>conf.
          if response_format params = JSON then Inr (json_dumps ev conf)
          else get_job_conf_markdown ev (job_id params) (filter_key params) conf)))"

definition jobhistory_get_job_conf :: "env \<Rightarrow> 'a GetJobConfInput_scheme \<Rightarrow> pystr io" where
  "jobhistory_get_job_conf ev params = guarded ev (jobhistory_get_job_conf_body ev params)"


text \<open>
  \<open>jobhistory_get_job_attempts\<close> (lines 1514-1564). \<open>job_attempt_lines\<close> is the body of
  the loop. The messages say "no record of a job attempt was found", "list of job
  attempts", "N attempts in all", "attempt #", "node HTTP address", "log link" and "view
  the log".
\<close>

definition msg_no_job_attempts :: pystr where
  "msg_no_job_attempts =
     [27809, 26377, 25214, 21040, 20316, 19994, 23581, 35797, 35760, 24405, 12290]"

definition job_attempt_lines :: "env \<Rightarrow> json \<Rightarrow> exc + pystr list" where
  "job_attempt_lines ev attempt =
     (case attempt of
        JObj kvs \<Rightarrow>
          (let field = (\<lambda>k. py_format ev (dict_get kvs k (JStr NA)))
           in and_then (format_timestamp ev (dict_get kvs (ascii ''startTime'') (JInt 0)))
                (\<lambda>start_time.
                let logs_link = dict_get kvs (ascii ''logsLink'') (JStr [])
                in Inr ([ascii ''## '' @ word_attempt @ ascii '' #'' @ field (ascii ''id''),
                         [],
                         header_attribute_value,
                         ascii ''|------|-----|'',
                         table_row_code (word_container @ ascii '' ID'')
                           (field (ascii ''containerId'')),
                         table_row (word_node @ ascii '' ID'') (field (ascii ''nodeId'')),
                         table_row (word_node @ ascii '' HTTP '' @ [22320, 22336])
                           (field (ascii ''nodeHttpAddress'')),
                         table_row word_start_time start_time]
                        @ (if truthy logs_link
                           then [table_row (word_log @ [38142, 25509])
                                   (ascii ''['' @ [26597, 30475] @ word_log @ ascii '']('' 
                                    @ py_format ev logs_link @ ascii '')'')]
                           else [])
                        @ [[]])))
      | _ \<Rightarrow> Inl AttributeError)"

definition jobhistory_get_job_attempts_body :: "env \<Rightarrow> 'a GetJobInput_scheme \<Rightarrow> pystr io" where
  "jobhistory_get_job_attempts_body ev params =
     io_bind (make_request ev
        (ascii ''mapreduce/jobs/'' @ job_id params @ ascii ''/jobattempts'') []) (\<lambda>data.
     io_lift
       (and_then (py_get data (ascii ''jobAttempts'') (JObj [])) (\<lambda>attempts_entry.
        and_then (py_get attempts_entry (ascii ''jobAttempt'') (JArr [])) (\<lambda>attempts.
          if response_format params = JSON then
            and_then (py_len attempts) (\<lambda>n.
              Inr (json_dumps ev
                    (JObj [(ascii ''total'', JInt n), (ascii ''attempts'', attempts)])))
          else if \<not> truthy attempts then Inr msg_no_job_attempts
          else
            and_then (py_len attempts) (\<lambda>n.
            and_then (py_iter attempts) (\<lambda>items.
            and_then (for_each (job_attempt_lines ev) items) (\<lambda>ls.
              Inr (py_join [10]
                    ([ascii ''# '' @ word_job @ word_attempt @ [21015, 34920] @ ascii '': ''
                        @ job_id params,
                      [20849] @ ascii '' **'' @ py_str_int n @ ascii ''** ''
                        @ [27425] @ word_attempt,
                      []] @ concat ls)))))))))"

definition jobhistory_get_job_attempts :: "env \<Rightarrow> 'a GetJobInput_scheme \<Rightarrow> pystr io" where
  "jobhistory_get_job_attempts ev params =
     guarded ev (jobhistory_get_job_attempts_body ev params)"

text \<open>
  \<open>jobhistory_list_tasks\<close> (lines 1578-1653). A member of \<open>TaskType\<close> is a non-empty
  string, so \<open>if params.task_type:\<close> holds for every type that is given.
  \<open>task_has_type\<close> is the condition of the two comprehensions, \<open>task_row\<close> the body of
  the two loops and \<open>tasks_section\<close> one of the two tables. The messages say "no task was
  found", "list of tasks", "N tasks in all", "Map tasks (N)" and the columns "task ID",
  "state", "progress", "elapsed".
\<close>

definition list_tasks_query_params :: "'a ListTasksInput_scheme \<Rightarrow> (pystr \<times> json) list" where
  "list_tasks_query_params params =
     (let query_params = [];
          query_params = set_if_truthy (ascii ''type'')
            (map_option (\<lambda>t. JStr (TaskType_value t)) (task_type params)) query_params
      in query_params)"

definition msg_no_tasks :: pystr where
  "msg_no_tasks = [27809, 26377, 25214, 21040, 20219, 21153, 12290]"

definition task_has_type :: "pystr \<Rightarrow> json \<Rightarrow> exc + bool" where
  "task_has_type type_name t =
     and_then (py_get t (ascii ''type'') JNull) (\<lambda>v. Inr (v = JStr type_name))"

definition task_row :: "env \<Rightarrow> json \<Rightarrow> exc + pystr" where
  "task_row ev task =
     (case task of
        JObj kvs \<Rightarrow>
          and_then (format_duration (dict_get kvs (ascii ''elapsedTime'') (JInt 0))) (\<lambda>elapsed.
          and_then (py_format_1f ev (dict_get kvs (ascii ''progress'') (JInt 0))) (\<lambda>progress.
            Inr (ascii ''| '' @ [96] @ py_format ev (dict_get kvs (ascii ''id'') (JStr NA)) @ [96]
                 @ ascii '' | '' @ py_format ev (dict_get kvs (ascii ''state'') (JStr NA))
                 @ ascii '' | '' @ progress @ ascii ''% | '' @ elapsed @ ascii '' |'')))
      | _ \<Rightarrow> Inl AttributeError)"

definition tasks_section :: "env \<Rightarrow> pystr \<Rightarrow> json list \<Rightarrow> exc + pystr list" where
  "tasks_section ev title tasks_of_type =
     (if tasks_of_type = [] then Inr []
      else
        and_then (for_each (task_row ev) tasks_of_type) (\<lambda>rows.
          Inr ([ascii ''## '' @ title @ ascii '' '' @ word_task @ ascii '' (''
                  @ py_str_int (int (length tasks_of_type)) @ ascii '' '' @ [20010] @ ascii '')'',
                [],
                ascii ''| '' @ word_task @ ascii '' ID | '' @ word_state @ ascii '' | ''
                  @ word_progress @ ascii '' | '' @ [32791, 26102] @ ascii '' |'',
                ascii ''|---------|------|------|------|''] @ rows @ [[]])))"

definition jobhistory_list_tasks_body :: "env \<Rightarrow> 'a ListTasksInput_scheme \<Rightarrow> pystr io" where
  "jobhistory_list_tasks_body ev params =
     io_bind (make_request ev (ascii ''mapreduce/jobs/'' @ job_id params @ ascii ''/tasks'')
        (list_tasks_query_params params)) (\<lambda>data.
     io_lift
       (and_then (py_get data (ascii ''tasks'') (JObj [])) (\<lambda>tasks_entry.
        and_then (py_get tasks_entry (ascii ''task'') (JArr [])) (\<lambda>tasks.
          if response_format params = JSON then
            and_then (py_len tasks) (\<lambda>n.
              Inr (json_dumps ev (JObj [(ascii ''total'', JInt n), (ascii ''tasks'', tasks)])))
          else if \<not> truthy tasks then Inr msg_no_tasks
          else
            and_then (py_len tasks) (\<lambda>n.
            and_then (py_iter tasks) (\<lambda>items.
            and_then (comprehension_if (task_has_type (ascii ''MAP'')) items) (\<lambda>map_tasks.
            and_then (comprehension_if (task_has_type (ascii ''REDUCE'')) items)
              (\<lambda>reduce_tasks.
            and_then (tasks_section ev (ascii ''Map'') map_tasks) (\<lambda>map_lines.
            and_then (tasks_section ev (ascii ''Reduce'') reduce_tasks) (\<lambda>reduce_lines.
              Inr (py_join [10]
                    ([ascii ''# '' @ word_task @ [21015, 34920] @ ascii '': '' @ job_id params,
                      [20849] @ ascii '' **'' @ py_str_int n @ ascii ''** ''
                        @ [20010] @ word_task,
                      []] @ map_lines @ reduce_lines))))))))))))"

definition jobhistory_list_tasks :: "env \<Rightarrow> 'a ListTasksInput_scheme \<Rightarrow> pystr io" where
  "jobhistory_list_tasks ev params = guarded ev (jobhistory_list_tasks_body ev params)"

text \<open>
  \<open>jobhistory_get_task\<close> (lines 1667-1712). The elements of the list of lines are
  evaluated in order: the progress, the two timestamps, the duration. The rows say "task
  ID", "type", "state", "progress", "start time", "finish time", "elapsed" and
  "successful attempt".
\<close>

definition get_task_markdown :: "env \<Rightarrow> json \<Rightarrow> exc + pystr" where
  "get_task_markdown ev task =
     (case task of
        JObj kvs \<Rightarrow>
          (let field = (\<lambda>k. py_format ev (dict_get kvs k (JStr NA)));
               task_type_shown = dict_get kvs (ascii ''type'') (JStr (ascii ''UNKNOWN''));
               task_state = dict_get kvs (ascii ''state'') (JStr NA)
           in and_then (state_icon_of task_state) (\<lambda>state_icon.
              and_then (py_format_1f ev (dict_get kvs (ascii ''progress'') (JInt 0)))
                (\<lambda>progress.
              and_then (format_timestamp ev (dict_get kvs (ascii ''startTime'') (JInt 0)))
                (\<lambda>start_time.
              and_then (format_timestamp ev (dict_get kvs (ascii ''finishTime'') (JInt 0)))
                (\<lambda>finish_time.
              and_then (format_duration (dict_get kvs (ascii ''elapsedTime'') (JInt 0)))
                (\<lambda>elapsed.
                Inr (py_join [10]
                      [ascii ''# '' @ state_icon @ ascii '' '' @ word_task @ [35814, 24773]
                         @ ascii '': '' @ field (ascii ''id''),
                       [],
                       header_attribute_value,
                       ascii ''|------|-----|'',
                       table_row_code (word_task @ ascii '' ID'') (field (ascii ''id'')),
                       table_row [31867, 22411] (py_format ev task_type_shown),
                       table_row word_state (py_format ev task_state),
                       table_row word_progress (progress @ ascii ''%''),
                       table_row word_start_time start_time,
                       table_row word_finish_time finish_time,
                       table_row [32791, 26102] elapsed,
                       table_row_code ([25104, 21151] @ word_attempt)
                         (field (ascii ''successfulAttempt''))])))))))
      | _ \<Rightarrow> Inl AttributeError)"

definition jobhistory_get_task_body :: "env \<Rightarrow> 'a GetTaskInput_scheme \<Rightarrow> pystr io" where
  "jobhistory_get_task_body ev params =
     io_bind (make_request ev
        (ascii ''mapreduce/jobs/'' @ job_id params @ ascii ''/tasks/'' @ task_id params) [])
       (\<lambda>data.
     io_lift
       (and_then (py_get data (ascii ''task'') (JObj [])) (\<lambda>task.
          if response_format params = JSON then Inr (json_dumps ev task)
          else get_task_markdown ev task)))"

definition jobhistory_get_task :: "env \<Rightarrow> 'a GetTaskInput_scheme \<Rightarrow> pystr io" where
  "jobhistory_get_task ev params = guarded ev (jobhistory_get_task_body ev params)"

text \<open>
  \<open>jobhistory_list_task_attempts\<close> (lines 1765-1829) and \<open>jobhistory_get_task_attempt\<close>
  (lines 1843-1917). Their \<open>dict\<close> of icons has three keys: a running attempt gets the
  question mark. \<open>task_attempt_lines\<close> is the body of the loop of the listing. In the
  detail, the five rows of a reduce attempt follow when the type is \<open>REDUCE\<close>, and the
  diagnostics value is put among the lines as it is, so \<open>"\n".join\<close> raises \<open>TypeError\<close>
  when it is true and not a string. The texts say "no record of a task attempt was
  found", "list of task attempts", "task ID", "N attempts in all", "rack", "diagnostics",
  "detail of the task attempt", "attempt ID", "basic information", "execution
  environment", "node address", "time information", "phase", "time/elapsed", "total
  elapsed", "Shuffle finish time", "Merge finish time" and "Shuffle/Merge/Reduce elapsed".
\<close>

definition attempt_state_icon_of :: "json \<Rightarrow> exc + pystr" where
  "attempt_state_icon_of st =
     (case st of
        JArr xs \<Rightarrow> Inl TypeError
      | JObj kvs \<Rightarrow> Inl TypeError
      | JStr s \<Rightarrow>
          Inr (if s = ascii ''SUCCEEDED'' then [9989]
               else if s = ascii ''FAILED'' then [10060]
               else if s = ascii ''KILLED'' then [9888, 65039]
               else [10067])
      | _ \<Rightarrow> Inr [10067])"

definition msg_no_task_attempts :: pystr where
  "msg_no_task_attempts =
     [27809, 26377, 25214, 21040, 20219, 21153, 23581, 35797, 35760, 24405, 12290]"

definition task_attempt_lines :: "env \<Rightarrow> json \<Rightarrow> exc + pystr list" where
  "task_attempt_lines ev attempt =
     (case attempt of
        JObj kvs \<Rightarrow>
          (let field = (\<lambda>k. py_format ev (dict_get kvs k (JStr NA)));
               attempt_state = dict_get kvs (ascii ''state'') (JStr NA)
           in and_then (attempt_state_icon_of attempt_state) (\<lambda>state_icon.
              and_then (py_format_1f ev (dict_get kvs (ascii ''progress'') (JInt 0)))
                (\<lambda>progress.
              and_then (format_timestamp ev (dict_get kvs (ascii ''startTime'') (JInt 0)))
                (\<lambda>start_time.
              and_then (format_timestamp ev (dict_get kvs (ascii ''finishTime'') (JInt 0)))
                (\<lambda>finish_time.
              and_then (format_duration (dict_get kvs (ascii ''elapsedTime'') (JInt 0)))
                (\<lambda>elapsed.
                let diagnostics = dict_get kvs (ascii ''diagnostics'') JNull
                in Inr ([ascii ''## '' @ state_icon @ ascii '' '' @ field (ascii ''id''),
                         [],
                         header_attribute_value,
                         ascii ''|------|-----|'',
                         table_row word_state (py_format ev attempt_state),
                         table_row [31867, 22411] (field (ascii ''type'')),
                         table_row word_progress (progress @ ascii ''%''),
                         table_row_code (word_container @ ascii '' ID'')
                           (field (ascii ''assignedContainerId'')),
                         table_row word_node (field (ascii ''nodeHttpAddress'')),
                         table_row [26426, 26550] (field (ascii ''rack'')),
                         table_row word_start_time start_time,
                         table_row word_finish_time finish_time,
                         table_row [32791, 26102] elapsed]
                        @ (if truthy diagnostics
                           then [table_row [35786, 26029, 20449, 24687]
                                   (py_format ev diagnostics)]
                           else [])
                        @ [[]])))))))
      | _ \<Rightarrow> Inl AttributeError)"

definition jobhistory_list_task_attempts_body ::
  "env \<Rightarrow> 'a GetTaskInput_scheme \<Rightarrow> pystr io" where
  "jobhistory_list_task_attempts_body ev params =
     io_bind (make_request ev
        (ascii ''mapreduce/jobs/'' @ job_id params @ ascii ''/tasks/'' @ task_id params
         @ ascii ''/attempts'') []) (\<lambda>data.
     io_lift
       (and_then (py_get data (ascii ''taskAttempts'') (JObj [])) (\<lambda>attempts_entry.
        and_then (py_get attempts_entry (ascii ''taskAttempt'') (JArr [])) (\<lambda>attempts.
          if response_format params = JSON then
            and_then (py_len attempts) (\<lambda>n.
              Inr (json_dumps ev
                    (JObj [(ascii ''total'', JInt n), (ascii ''attempts'', attempts)])))
          else if \<not> truthy attempts then Inr msg_no_task_attempts
          else
            and_then (py_len attempts) (\<lambda>n.
            and_then (py_iter attempts) (\<lambda>items.
            and_then (for_each (task_attempt_lines ev) items) (\<lambda>ls.
              Inr (py_join [10]
                    ([ascii ''# '' @ word_task @ word_attempt @ [21015, 34920],
                      ascii ''**'' @ word_task @ ascii '' ID**: '' @ [96] @ task_id params @ [96],
                      [20849] @ ascii '' **'' @ py_str_int n @ ascii ''** ''
                        @ [27425] @ word_attempt,
                      []] @ concat ls)))))))))"

definition jobhistory_list_task_attempts ::
  "env \<Rightarrow> 'a GetTaskInput_scheme \<Rightarrow> pystr io" where
  "jobhistory_list_task_attempts ev params =
     guarded ev (jobhistory_list_task_attempts_body ev params)"

definition get_task_attempt_markdown :: "env \<Rightarrow> json \<Rightarrow> exc + pystr" where
  "get_task_attempt_markdown ev attempt =
     (case attempt of
        JObj kvs \<Rightarrow>
          (let field = (\<lambda>k. py_format ev (dict_get kvs k (JStr NA)));
               stamp = (\<lambda>k. format_timestamp ev (dict_get kvs k (JInt 0)));
               span = (\<lambda>k. format_duration (dict_get kvs k (JInt 0)));
               attempt_state = dict_get kvs (ascii ''state'') (JStr NA)
           in and_then (attempt_state_icon_of attempt_state) (\<lambda>state_icon.
              and_then (py_format_1f ev (dict_get kvs (ascii ''progress'') (JInt 0)))
                (\<lambda>progress.
              and_then (stamp (ascii ''startTime'')) (\<lambda>start_time.
              and_then (stamp (ascii ''finishTime'')) (\<lambda>finish_time.
              and_then (span (ascii ''elapsedTime'')) (\<lambda>elapsed.
              let lines =
                   [ascii ''# '' @ state_icon @ ascii '' '' @ word_task @ word_attempt
                      @ [35814, 24773],
                    ascii ''**'' @ word_attempt @ ascii '' ID**: '' @ [96] @ field (ascii ''id'')
                      @ [96],
                    [],
                    ascii ''## '' @ [22522, 26412, 20449, 24687],
                    header_attribute_value,
                    ascii ''|------|-----|'',
                    table_row word_state (py_format ev attempt_state),
                    table_row [31867, 22411] (field (ascii ''type'')),
                    table_row word_progress (progress @ ascii ''%''),
                    [],
                    ascii ''## '' @ [25191, 34892, 29615, 22659],
                    header_attribute_value,
                    ascii ''|------|-----|'',
                    table_row_code (word_container @ ascii '' ID'')
                      (field (ascii ''assignedContainerId'')),
                    table_row (word_node @ [22320, 22336]) (field (ascii ''nodeHttpAddress'')),
                    table_row [26426, 26550] (field (ascii ''rack'')),
                    [],
                    ascii ''## '' @ word_time @ [20449, 24687],
                    table_row [38454, 27573] (word_time @ ascii ''/'' @ [32791, 26102]),
                    ascii ''|------|----------|'',
                    table_row word_start_time start_time,
                    table_row word_finish_time finish_time,
                    table_row [24635, 32791, 26102] elapsed]
              in and_then
                   (if dict_get kvs (ascii ''type'') JNull = JStr (ascii ''REDUCE'') then
                      and_then (stamp (ascii ''shuffleFinishTime'')) (\<lambda>shuffle_finish.
                      and_then (stamp (ascii ''mergeFinishTime'')) (\<lambda>merge_finish.
                      and_then (span (ascii ''elapsedShuffleTime'')) (\<lambda>shuffle_elapsed.
                      and_then (span (ascii ''elapsedMergeTime'')) (\<lambda>merge_elapsed.
                      and_then (span (ascii ''elapsedReduceTime'')) (\<lambda>reduce_elapsed.
                        Inr [table_row (ascii ''Shuffle '' @ [23436, 25104] @ word_time)
                               shuffle_finish,
                             table_row (ascii ''Merge '' @ [23436, 25104] @ word_time)
                               merge_finish,
                             table_row (ascii ''Shuffle '' @ [32791, 26102]) shuffle_elapsed,
                             table_row (ascii ''Merge '' @ [32791, 26102]) merge_elapsed,
                             table_row (ascii ''Reduce '' @ [32791, 26102]) reduce_elapsed])))))
                    else Inr []) (\<lambda>reduce_rows.
                 let diagnostics = dict_get kvs (ascii ''diagnostics'') JNull
                 in (case diagnostics of
                       JStr d \<Rightarrow>
                         Inr (py_join [10]
                           (lines @ reduce_rows
                            @ (if d \<noteq> []
                               then [[], ascii ''## '' @ [35786, 26029, 20449, 24687],
                                     [96, 96, 96], d, [96, 96, 96]]
                               else [])))
                     | _ \<Rightarrow>
                         if truthy diagnostics then Inl TypeError
                         else Inr (py_join [10] (lines @ reduce_rows))))))))))
      | _ \<Rightarrow> Inl AttributeError)"

definition jobhistory_get_task_attempt_body ::
  "env \<Rightarrow> 'a GetTaskAttemptInput_scheme \<Rightarrow> pystr io" where
  "jobhistory_get_task_attempt_body ev params =
     io_bind (make_request ev
        (ascii ''mapreduce/jobs/'' @ job_id params @ ascii ''/tasks/'' @ task_id params
         @ ascii ''/attempts/'' @ attempt_id params) []) (\<lambda>data.
     io_lift
       (and_then (py_get data (ascii ''taskAttempt'') (JObj [])) (\<lambda>attempt.
          if response_format params = JSON then Inr (json_dumps ev attempt)
          else get_task_attempt_markdown ev attempt)))"

definition jobhistory_get_task_attempt ::
  "env \<Rightarrow> 'a GetTaskAttemptInput_scheme \<Rightarrow> pystr io" where
  "jobhistory_get_task_attempt ev params =
     guarded ev (jobhistory_get_task_attempt_body ev params)"

text \<open>
  The two log tools (lines 1970-2081 and 2095-2231). The messages say: "Error: cannot get
  the container ID. Check that attempt_id is right.", "Error: cannot get the node
  address. Check that attempt_id is right.", "Error: cannot get the user of the job. Check
  that job_id is right.", and "The log is empty or its content cannot be parsed." followed
  by the URL. \<open>locate_log\<close> is the part the two tools share (lines 1999-2023 and
  2131-2155): it returns either the message of an early \<open>return\<close> or the container, the
  NodeManager address and the user.
\<close>

definition msg_no_container :: pystr where
  "msg_no_container = [38169, 35823, 65306, 26080, 27861, 33719, 21462, 23481, 22120]
     @ ascii '' ID '' @ [20449, 24687, 12290, 35831, 26816, 26597] @ ascii '' attempt_id ''
     @ [26159, 21542, 27491, 30830, 12290]"

definition msg_no_node_address :: pystr where
  "msg_no_node_address = [38169, 35823, 65306, 26080, 27861, 33719, 21462, 33410, 28857, 22320,
     22336, 20449, 24687, 12290, 35831, 26816, 26597] @ ascii '' attempt_id ''
     @ [26159, 21542, 27491, 30830, 12290]"

definition msg_no_user :: pystr where
  "msg_no_user = [38169, 35823, 65306, 26080, 27861, 33719, 21462, 20316, 19994, 29992, 25143,
     20449, 24687, 12290, 35831, 26816, 26597] @ ascii '' job_id ''
     @ [26159, 21542, 27491, 30830, 12290]"

definition msg_empty_log :: pystr where
  "msg_empty_log = [26085, 24535, 20026, 31354, 25110, 26080, 27861, 35299, 26512, 26085, 24535,
     20869, 23481, 12290, 10, 10] @ ascii ''**'' @ word_log @ ascii '' URL**: ''"

datatype located = Located json pystr json

definition locate_log :: "env \<Rightarrow> 'a GetTaskAttemptInput_scheme \<Rightarrow> (pystr + located) io" where
  "locate_log ev params =
     io_bind (make_request ev
        (ascii ''mapreduce/jobs/'' @ job_id params @ ascii ''/tasks/'' @ task_id params
         @ ascii ''/attempts/'' @ attempt_id params) []) (\<lambda>attempt_data.
     io_bind (io_lift (py_get attempt_data (ascii ''taskAttempt'') (JObj []))) (\<lambda>attempt.
     io_bind (io_lift (py_get attempt (ascii ''assignedContainerId'') JNull)) (\<lambda>container_id.
     io_bind (io_lift (py_get attempt (ascii ''nodeHttpAddress'') JNull)) (\<lambda>node_http_address.
     if \<not> truthy container_id then io_return (Inl msg_no_container)
     else if \<not> truthy node_http_address then io_return (Inl msg_no_node_address)
     else
       io_bind (make_request ev (ascii ''mapreduce/jobs/'' @ job_id params) []) (\<lambda>job_data.
       io_bind (io_lift (py_get job_data (ascii ''job'') (JObj []))) (\<lambda>job.
       io_bind (io_lift (py_get job (ascii ''user'') JNull)) (\<lambda>job_user.
       if \<not> truthy job_user then io_return (Inl msg_no_user)
       else
         io_bind (io_lift (extract_hostname node_http_address)) (\<lambda>hostname.
           io_return (Inr (Located container_id
             (py_format ev hostname @ ascii '':'' @ NODEMANAGER_PORT ev) job_user))))))))))"

definition jobhistory_get_task_attempt_logs_body ::
  "env \<Rightarrow> 'a GetTaskAttemptLogsInput_scheme \<Rightarrow> pystr io" where
  "jobhistory_get_task_attempt_logs_body ev params =
     io_bind (locate_log ev params) (\<lambda>r.
     case r of
       Inl message \<Rightarrow> io_return message
     | Inr (Located container_id node_manager job_user) \<Rightarrow>
         (let log_url = LOGS_BASE_URL ev @ ascii ''/'' @ node_manager @ ascii ''/''
                @ py_format ev container_id @ ascii ''/'' @ attempt_id params @ ascii ''/''
                @ py_format ev job_user @ ascii ''/'' @ LogType_value (log_type params) @ ascii ''/''
                @ ascii ''?start=0&start.time=0&end.time=9223372036854775807''
          in io_bind (fetch_logs_html ev log_url) (\<lambda>html_content.
             let log_content = extract_pre_content html_content in
             if log_content = [] then io_return (msg_empty_log @ log_url)
             else if response_format params = JSON then
               io_return (json_dumps ev (JObj
                 [(ascii ''job_id'', JStr (job_id params)),
                  (ascii ''task_id'', JStr (task_id params)),
                  (ascii ''attempt_id'', JStr (attempt_id params)),
                  (ascii ''container_id'', container_id),
                  (ascii ''node_manager'', JStr node_manager),
                  (ascii ''user'', job_user),
                  (ascii ''log_type'', JStr (LogType_value (log_type params))),
                  (ascii ''log_url'', JStr log_url),
                  (ascii ''content'', JStr log_content)]))
             else
               io_return (py_join [10]
                 [ascii ''# '' @ word_task @ word_attempt @ word_log @ ascii '': ''
                    @ LogType_value (log_type params),
                  [],
                  ascii ''## '' @ word_log @ [20449, 24687],
                  header_attribute_value,
                  ascii ''|------|-----|'',
                  table_row_code (word_job @ ascii '' ID'') (job_id params),
                  table_row_code (word_task @ ascii '' ID'') (task_id params),
                  table_row_code (word_attempt @ ascii '' ID'') (attempt_id params),
                  table_row_code (word_container @ ascii '' ID'') (py_format ev container_id),
                  table_row word_node node_manager,
                  table_row word_user (py_format ev job_user),
                  table_row (word_log @ [31867, 22411]) (LogType_value (log_type params)),
                  [],
                  ascii ''## '' @ word_log @ [20869, 23481],
                  [96, 96, 96],
                  log_content,
                  [96, 96, 96]]))))"

definition jobhistory_get_task_attempt_logs ::
  "env \<Rightarrow> 'a GetTaskAttemptLogsInput_scheme \<Rightarrow> pystr io" where
  "jobhistory_get_task_attempt_logs ev params =
     guarded ev (jobhistory_get_task_attempt_logs_body ev params)"

text \<open>
  The description of the range (lines 2176-2181): "last N bytes", "from N bytes to the
  end", "N - M bytes". \<open>abs\<close> of a negative \<open>start\<close> is its negation.
\<close>

definition range_desc_of :: "int \<Rightarrow> int \<Rightarrow> pystr" where
  "range_desc_of range_start range_end =
     (if range_start < 0 then [26411, 23614] @ ascii '' '' @ py_str_int \<bar>range_start\<bar> @ ascii '' ''
        @ word_bytes
      else if range_end = 0 then [20174] @ ascii '' '' @ py_str_int range_start @ ascii '' ''
        @ word_bytes @ [21040, 26411, 23614]
      else py_str_int range_start @ ascii '' - '' @ py_str_int range_end @ ascii '' ''
        @ word_bytes)"

definition jobhistory_get_task_attempt_logs_partial_body ::
  "env \<Rightarrow> 'a GetTaskAttemptLogsPartialInput_scheme \<Rightarrow> pystr io" where
  "jobhistory_get_task_attempt_logs_partial_body ev params =
     io_bind (locate_log ev params) (\<lambda>r.
     case r of
       Inl message \<Rightarrow> io_return message
     | Inr (Located container_id node_manager job_user) \<Rightarrow>
         (let log_url = LOGS_BASE_URL ev @ ascii ''/'' @ node_manager @ ascii ''/''
                @ py_format ev container_id @ ascii ''/'' @ attempt_id params @ ascii ''/''
                @ py_format ev job_user @ ascii ''/'' @ LogType_value (log_type params) @ ascii ''/''
                @ ascii ''?start='' @ py_str_int (start params)
                @ ascii ''&end='' @ py_str_int (end_pos params)
          in io_bind (fetch_logs_html ev log_url) (\<lambda>html_content.
             let log_content = extract_pre_content html_content in
             if log_content = [] then io_return (msg_empty_log @ log_url)
             else
               (let range_desc = range_desc_of (start params) (end_pos params) in
                if response_format params = JSON then
                  io_return (json_dumps ev (JObj
                    [(ascii ''job_id'', JStr (job_id params)),
                     (ascii ''task_id'', JStr (task_id params)),
                     (ascii ''attempt_id'', JStr (attempt_id params)),
                     (ascii ''container_id'', container_id),
                     (ascii ''node_manager'', JStr node_manager),
                     (ascii ''user'', job_user),
                     (ascii ''log_type'', JStr (LogType_value (log_type params))),
                     (ascii ''byte_range'', JObj
                        [(ascii ''start'', JInt (start params)),
                         (ascii ''end'', JInt (end_pos params)),
                         (ascii ''description'', JStr range_desc)]),
                     (ascii ''log_url'', JStr log_url),
                     (ascii ''content_length'', JInt (int (length log_content))),
                     (ascii ''content'', JStr log_content)]))
                else
                  io_return (py_join [10]
                    [ascii ''# '' @ word_task @ word_attempt @ word_log
                       @ [65288, 37096, 20998, 65289] @ ascii '': ''
                       @ LogType_value (log_type params),
                     [],
                     ascii ''## '' @ word_log @ [20449, 24687],
                     header_attribute_value,
                     ascii ''|------|-----|'',
                     table_row_code (word_job @ ascii '' ID'') (job_id params),
                     table_row_code (word_task @ ascii '' ID'') (task_id params),
                     table_row_code (word_attempt @ ascii '' ID'') (attempt_id params),
                     table_row_code (word_container @ ascii '' ID'') (py_format ev container_id),
                     table_row word_node node_manager,
                     table_row word_user (py_format ev job_user),
                     table_row (word_log @ [31867, 22411]) (LogType_value (log_type params)),
                     table_row [35835, 21462, 33539, 22260] range_desc,
                     table_row [20869, 23481, 38271, 24230]
                       (py_str_int (int (length log_content)) @ ascii '' '' @ word_bytes),
                     [],
                     ascii ''## '' @ word_log @ [20869, 23481],
                     [96, 96, 96],
                     log_content,
                     [96, 96, 96],
                     [],
                     ascii ''*'' @ [25552, 31034, 65306, 22914, 38656, 23436, 25972, 26085, 24535,
                       65292, 35831, 20351, 29992] @ ascii '' '' @ [96]
                       @ ascii ''jobhistory_get_task_attempt_logs'' @ [96] @ ascii '' ''
                       @ [24037, 20855] @ ascii ''*''])))))"

definition jobhistory_get_task_attempt_logs_partial ::
  "env \<Rightarrow> 'a GetTaskAttemptLogsPartialInput_scheme \<Rightarrow> pystr io" where
  "jobhistory_get_task_attempt_logs_partial ev params =
     guarded ev (jobhistory_get_task_attempt_logs_partial_body ev params)"

section \<open>The specification's reading, and an example deployment\<close>

text \<open>
  Definitions that follow the words of the specification, to compare the code with.
  \<open>spec_decode_entities\<close>: each of the six entities, where it stands in the text, is
  replaced by its character, in one pass from the left (for \<open>&nbsp;\<close> the space the code
  writes). \<open>spec_extract_preformatted\<close> is the extractor with that decoding.
\<close>

definition entity_table :: "(pystr \<times> nat) list" where
  "entity_table =
     [(ascii ''&lt;'', 60), (ascii ''&gt;'', 62), (ascii ''&amp;'', 38), (ascii ''&quot;'', 34),
      (ascii ''&#39;'', 39), (ascii ''&nbsp;'', 32)]"

fun entity_at :: "(pystr \<times> nat) list \<Rightarrow> pystr \<Rightarrow> (nat \<times> pystr) option" where
  "entity_at [] s = None"
| "entity_at ((name, ch) # es) s =
     (case strip_prefix name s of
        Some rest \<Rightarrow> Some (ch, rest)
      | None \<Rightarrow> entity_at es s)"

lemma entity_at_shorter:
  "entity_at es s = Some (ch, rest) \<Longrightarrow> \<forall>e \<in> set es. fst e \<noteq> [] \<Longrightarrow> length rest < length s"
proof (induction es)
  case Nil
  then show ?case by simp
next
  case (Cons e es)
  obtain name c where e: "e = (name, c)" by (cases e)
  show ?case
  proof (cases "strip_prefix name s")
    case None
    with Cons e show ?thesis by simp
  next
    case (Some r)
    with Cons.prems e have "r = rest" and "name \<noteq> []" by auto
    with Some strip_prefix_length [of name s rest] show ?thesis by (cases name) auto
  qed
qed

lemma entity_table_nonempty: "\<forall>e \<in> set entity_table. fst e \<noteq> []"
  by (simp add: entity_table_def ascii_def)

function spec_decode_entities :: "pystr \<Rightarrow> pystr" where
  "spec_decode_entities [] = []"
| "spec_decode_entities (c # cs) =
     (case entity_at entity_table (c # cs) of
        Some (ch, rest) \<Rightarrow> ch # spec_decode_entities rest
      | None \<Rightarrow> c # spec_decode_entities cs)"
  by pat_completeness auto
termination
  by (relation "measure length")
     (auto dest: entity_at_shorter [OF _ entity_table_nonempty])

definition spec_extract_preformatted :: "pystr \<Rightarrow> pystr" where
  "spec_extract_preformatted html =
     (case re_search_pre html of
        Some group1 \<Rightarrow> py_strip (spec_decode_entities group1)
      | None \<Rightarrow> [])"

text \<open>
  \<open>spec_counter_groups\<close>: the value under the first of the three keys that is present,
  the empty list when none is. \<open>spec_list_jobs_query\<close>: every filter that is not null,
  under its upstream name.
\<close>

definition spec_counter_groups :: "(pystr \<times> json) list \<Rightarrow> json" where
  "spec_counter_groups kvs =
     (case map_of kvs (ascii ''counterGroup'') of
        Some v \<Rightarrow> v
      | None \<Rightarrow>
          (case map_of kvs (ascii ''taskCounterGroup'') of
             Some v \<Rightarrow> v
           | None \<Rightarrow>
               (case map_of kvs (ascii ''taskAttemptCounterGroup'') of
                  Some v \<Rightarrow> v
                | None \<Rightarrow> JArr [])))"

definition spec_list_jobs_query :: "ListJobsInput \<Rightarrow> (pystr \<times> json) list" where
  "spec_list_jobs_query params =
     List.map_filter (\<lambda>(k, v). map_option (Pair k) v)
       [(ascii ''user'', map_option JStr (user params)),
        (ascii ''state'', map_option (\<lambda>s. JStr (JobState_value s)) (state params)),
        (ascii ''queue'', map_option JStr (queue params)),
        (ascii ''limit'', map_option JInt (limit params)),
        (ascii ''startedTimeBegin'', map_option JInt (started_time_begin params)),
        (ascii ''startedTimeEnd'', map_option JInt (started_time_end params)),
        (ascii ''finishedTimeBegin'', map_option JInt (finished_time_begin params)),
        (ascii ''finishedTimeEnd'', map_option JInt (finished_time_end params))]"

text \<open>
  An example input as a JSON text, \<open>{"job_id": "job_1_1", "response_format": "json"}\<close>,
  and the dict it stands for; the \<open>json.loads\<close> of the example deployment knows this text
  and the empty object.
\<close>

definition example_json_text :: pystr where
  "example_json_text =
     ascii ''{'' @ [34] @ ascii ''job_id'' @ [34] @ ascii '': '' @ [34] @ ascii ''job_1_1'' @ [34]
     @ ascii '', '' @ [34] @ ascii ''response_format'' @ [34] @ ascii '': '' @ [34]
     @ ascii ''json'' @ [34] @ ascii ''}''"

definition example_json_dict :: "(pystr \<times> json) list" where
  "example_json_dict =
     [(ascii ''job_id'', JStr (ascii ''job_1_1'')), (ascii ''response_format'', JStr (ascii ''json''))]"

definition example_json_loads :: "pystr \<Rightarrow> exc + json" where
  "example_json_loads s =
     (if s = ascii ''{}'' then Inr (JObj [])
      else if s = example_json_text then Inr (JObj example_json_dict)
      else Inl JSONDecodeError)"



text \<open>
  An example deployment and example inputs, to instantiate the theorems at: a history
  server at \<open>jhs:19888\<close>, the default port and timeout, and the upstream answers given as
  arguments. \<open>example_list_params\<close> holds the defaults of \<open>ListJobsInput\<close>.
\<close>

definition example_env ::
  "(pystr \<Rightarrow> (pystr \<times> json) list \<Rightarrow> exc + json) \<Rightarrow> (pystr \<Rightarrow> exc + pystr) \<Rightarrow> env" where
  "example_env get_json get_text =
     \<lparr>JOBHISTORY_BASE_URL = ascii ''http://jhs:19888/ws/v1/history'',
      NODEMANAGER_PORT = ascii ''8052'',
      REQUEST_TIMEOUT = ascii ''30.0'',
      LOGS_BASE_URL = ascii ''http://jhs:19888/jobhistory/logs'',
      http_get_json = get_json,
      http_get_text = get_text,
      json_dumps = (\<lambda>v. ascii ''{}''),
      json_loads = example_json_loads,
      py_repr = (\<lambda>v. ascii ''[]''),
      exc_str = (\<lambda>e. []),
      local_strftime = (\<lambda>ms. Inl ValueError),
      str_lower = (\<lambda>s. s),
      float_format_1f = (\<lambda>i. Inl OverflowError)\<rparr>"

definition example_list_params :: ListJobsInput where
  "example_list_params =
     \<lparr>response_format = MARKDOWN, user = None, state = None, queue = None, limit = Some 20,
      started_time_begin = None, started_time_end = None,
      finished_time_begin = None, finished_time_end = None\<rparr>"

definition example_logs_params :: GetTaskAttemptLogsPartialInput where
  "example_logs_params =
     \<lparr>response_format = MARKDOWN, job_id = ascii ''job_1_1'', task_id = ascii ''task_1_1_m_0'',
      attempt_id = ascii ''attempt_1_1_m_0_0'', log_type = SYSLOG, start = - 4096, end_pos = 0\<rparr>"

definition example_upstream :: "json \<Rightarrow> json \<Rightarrow> pystr \<Rightarrow> (pystr \<times> json) list \<Rightarrow> exc + json" where
  "example_upstream attempt_data job_data url query =
     (if url = ascii ''http://jhs:19888/ws/v1/history/mapreduce/jobs/job_1_1''
      then Inr job_data else Inr attempt_data)"

text \<open>
  More of the example deployment: an upstream where every request raises the same
  exception, one that answers the detail of the task attempt and raises on the detail of
  the job, and example inputs of the other tools.
\<close>

definition example_failing_env :: "exc \<Rightarrow> env" where
  "example_failing_env e = example_env (\<lambda>url q. Inl e) (\<lambda>url. Inl e)"

definition example_upstream_job_fails ::
  "json \<Rightarrow> exc \<Rightarrow> pystr \<Rightarrow> (pystr \<times> json) list \<Rightarrow> exc + json" where
  "example_upstream_job_fails attempt_data e url query =
     (if url = ascii ''http://jhs:19888/ws/v1/history/mapreduce/jobs/job_1_1''
      then Inl e else Inr attempt_data)"

definition example_attempt :: "(pystr \<times> json) list" where
  "example_attempt =
     [(ascii ''assignedContainerId'', JStr (ascii ''container_1'')),
      (ascii ''nodeHttpAddress'', JStr (ascii ''nm1:8042''))]"

definition example_job :: "(pystr \<times> json) list" where
  "example_job = [(ascii ''user'', JStr (ascii ''hadoop''))]"

definition example_job_params :: GetJobInput where
  "example_job_params = \<lparr>response_format = MARKDOWN, job_id = ascii ''job_1_1''\<rparr>"

definition example_conf_params :: GetJobConfInput where
  "example_conf_params =
     \<lparr>response_format = MARKDOWN, job_id = ascii ''job_1_1'', filter_key = Some (ascii ''mapreduce'')\<rparr>"

definition example_tasks_params :: ListTasksInput where
  "example_tasks_params =
     \<lparr>response_format = MARKDOWN, job_id = ascii ''job_1_1'', task_type = Some MAP\<rparr>"

section \<open>Properties\<close>

subsection \<open>Durations\<close>

lemma div_rest: "0 \<le> r \<Longrightarrow> r < n \<Longrightarrow> (n * s + r) div n = (s::int)"
  by (simp add: div_pos_pos_trivial)

lemma mod_rest: "0 \<le> r \<Longrightarrow> r < n \<Longrightarrow> (n * s + r) mod n = (r::int)"
  by (simp add: mod_pos_pos_trivial)

text \<open>
  C5. \<open>_format_duration\<close> has three tiers, cut exactly at 60 and at 3600 whole seconds, and
  it drops the milliseconds below a whole second instead of rounding. Every positive \<open>ms\<close>
  is \<open>1000 * (3600 * h + 60 * m + c) + r\<close> for one choice of hours \<open>h\<close>, minutes \<open>m < 60\<close>,
  seconds \<open>c < 60\<close> and a rest \<open>r < 1000\<close>: the rest never shows; below 60 seconds only the
  seconds are rendered, below 3600 seconds the minutes and the seconds, from 3600 seconds
  on the hours, the minutes and the seconds.
\<close>

theorem format_duration_tiers:
  fixes h m c r :: int
  assumes h0: "0 \<le> h" and m0: "0 \<le> m" and m60: "m < 60" and c0: "0 \<le> c" and c60: "c < 60"
    and r0: "0 \<le> r" and r1000: "r < 1000"
    and pos: "0 < 1000 * (3600 * h + 60 * m + c) + r"
  shows "format_duration (JInt (1000 * (3600 * h + 60 * m + c) + r)) =
     Inr (if h = 0 \<and> m = 0 then py_str_int c @ [31186]
          else if h = 0 then py_str_int m @ [20998] @ py_str_int c @ [31186]
          else py_str_int h @ [26102] @ py_str_int m @ [20998] @ py_str_int c @ [31186])"
proof -
  define s where "s = 3600 * h + 60 * m + c"
  define ms where "ms = 1000 * s + r"
  have s_div: "ms div 1000 = s"
    unfolding ms_def using r0 r1000 by (rule div_rest)
  have mc: "0 \<le> 60 * m + c" "60 * m + c < 3600"
    using m0 m60 c0 c60 by linarith+
  have s1: "s = 3600 * h + (60 * m + c)" by (simp add: s_def)
  have s2: "s = 60 * (60 * h + m) + c" by (simp add: s_def)
  have hh: "s div 3600 = h"
    unfolding s1 using mc by (rule div_rest)
  have sm: "s mod 3600 = 60 * m + c"
    unfolding s1 using mc by (rule mod_rest)
  have mm: "(s mod 3600) div 60 = m"
    unfolding sm using c0 c60 by (rule div_rest)
  have cc: "s mod 60 = c"
    unfolding s2 using c0 c60 by (rule mod_rest)
  have sd: "s div 60 = 60 * h + m"
    unfolding s2 using c0 c60 by (rule div_rest)
  have ms_pos: "0 < ms" using pos by (simp only: ms_def s_def)
  have s_lt_60: "s < 60 \<longleftrightarrow> h = 0 \<and> m = 0"
    unfolding s_def using h0 m0 c0 c60 by linarith
  have s_lt_3600: "s < 3600 \<longleftrightarrow> h = 0"
    unfolding s_def using h0 m0 m60 c0 c60 by linarith
  have s_c: "h = 0 \<Longrightarrow> m = 0 \<Longrightarrow> s = c" by (simp add: s_def)
  have "format_duration (JInt ms) =
     Inr (if h = 0 \<and> m = 0 then py_str_int c @ [31186]
          else if h = 0 then py_str_int m @ [20998] @ py_str_int c @ [31186]
          else py_str_int h @ [26102] @ py_str_int m @ [20998] @ py_str_int c @ [31186])"
  proof (cases "h = 0")
    case True
    then show ?thesis
      using ms_pos s_lt_60 s_lt_3600
      by (auto simp add: format_duration_def Let_def s_div cc sd s_c)
  next
    case False
    then show ?thesis
      using ms_pos s_lt_60 s_lt_3600
      by (simp add: format_duration_def Let_def s_div cc mm hh)
  qed
  then show ?thesis by (simp only: ms_def s_def)
qed

text \<open>
  The three examples of the specification, and the cuts: 59999 ms is still 59 seconds,
  60000 ms is the first value with minutes, 3599999 ms the last without hours.
\<close>

theorem format_duration_tiers_witness:
  "format_duration (JInt 59000) = Inr (ascii ''59'' @ [31186])
   \<and> format_duration (JInt 59999) = Inr (ascii ''59'' @ [31186])
   \<and> format_duration (JInt 60000) = Inr (ascii ''1'' @ [20998] @ ascii ''0'' @ [31186])
   \<and> format_duration (JInt 65000) = Inr (ascii ''1'' @ [20998] @ ascii ''5'' @ [31186])
   \<and> format_duration (JInt 3599999) = Inr (ascii ''59'' @ [20998] @ ascii ''59'' @ [31186])
   \<and> format_duration (JInt 3600000) =
       Inr (ascii ''1'' @ [26102] @ ascii ''0'' @ [20998] @ ascii ''0'' @ [31186])
   \<and> format_duration (JInt 3661000) =
       Inr (ascii ''1'' @ [26102] @ ascii ''1'' @ [20998] @ ascii ''1'' @ [31186])"
proof -
  have d: "py_str_int 59 = ascii ''59''" "py_str_int 0 = ascii ''0''"
    "py_str_int 1 = ascii ''1''" "py_str_int 5 = ascii ''5''"
    by code_simp+
  show ?thesis
    using format_duration_tiers [of 0 0 59 0] format_duration_tiers [of 0 0 59 999]
      format_duration_tiers [of 0 1 0 0] format_duration_tiers [of 0 1 5 0]
      format_duration_tiers [of 0 59 59 999] format_duration_tiers [of 1 0 0 0]
      format_duration_tiers [of 1 1 1 0]
    by (simp add: d)
qed

subsection \<open>Timestamps\<close>

text \<open>
  What holds of both formatters: a value that is zero, negative or absent gives \<open>"N/A"\<close>, and
  \<open>_format_duration\<close> returns on every integer.
\<close>

lemma format_nonpositive:
  "ms \<le> 0 \<Longrightarrow> format_timestamp ev (JInt ms) = Inr NA \<and> format_duration (JInt ms) = Inr NA"
  by (simp add: format_timestamp_def format_duration_def)

lemma format_absent:
  "format_timestamp ev JNull = Inr NA \<and> format_duration JNull = Inr NA"
  by (simp add: format_timestamp_def format_duration_def)

lemma format_duration_total: "\<exists>s. format_duration (JInt ms) = Inr s"
  by (simp add: format_duration_def Let_def)

text \<open>
  The library reports a value beyond the range of the platform's \<open>time_t\<close> with
  \<open>OverflowError\<close> (CPython on Linux does from \<open>10 ^ 22\<close> ms on): the \<open>except\<close> clause does
  not name that class, and the exception leaves the function.
\<close>

lemma format_timestamp_library_overflow:
  "0 < ms \<Longrightarrow> \<bar>ms\<bar> < 1000 * (2 ^ 1024 - 2 ^ 970) \<Longrightarrow> local_strftime ev ms = Inl OverflowError
   \<Longrightarrow> format_timestamp ev (JInt ms) = Inl OverflowError"
  by (simp add: format_timestamp_def int_truediv_1000_def)

text \<open>
  C4. The claim is that \<open>_format_timestamp\<close> never raises on an integer and returns
  \<open>"N/A"\<close> on a value out of range. It does not: for \<open>ms = 10 ^ 400\<close> the division
  \<open>ms / 1000\<close> inside the \<open>try\<close> block already raises \<open>OverflowError\<close>, whatever the library
  does, and \<open>except (ValueError, OSError)\<close> lets it pass.
\<close>

theorem format_timestamp_overflow_escapes:
  "format_timestamp ev (JInt (10 ^ 400)) = Inl OverflowError"
  by (simp add: format_timestamp_def int_truediv_1000_def)

subsection \<open>The extractor of log pages\<close>

text \<open>The two examples of the specification hold.\<close>

lemma extract_pre_content_examples:
  "extract_pre_content (ascii ''<html><pre>a &amp; b</pre></html>'') = ascii ''a & b''
   \<and> extract_pre_content (ascii ''<html>no pre</html>'') = []"
  by (simp add: extract_pre_content_def ascii_def match_pre_here_def ci_char_def
      py_strip_def py_whitespace_def)

text \<open>
  C6. The claim is that the entities of the content are decoded to their characters. The
  code replaces \<open>&amp;\<close> third and \<open>&quot;\<close>, \<open>&#39;\<close>, \<open>&nbsp;\<close> after it, so the
  ampersand it has just produced is read again as the start of an entity: the page text
  \<open>&amp;quot;\<close>, which stands for the six characters \<open>&quot;\<close>, comes out as one double
  quote (code point 34).
\<close>

theorem extract_pre_content_decodes_twice:
  "extract_pre_content (ascii ''<pre>&amp;quot;</pre>'') = [34]
   \<and> spec_extract_preformatted (ascii ''<pre>&amp;quot;</pre>'') = ascii ''&quot;''"
  by (simp add: extract_pre_content_def spec_extract_preformatted_def entity_table_def ascii_def
      match_pre_here_def ci_char_def py_strip_def py_whitespace_def)

subsection \<open>The query of the jobs listing\<close>

text \<open>
  C8. The claim is that every filter that is not null reaches the query, a start bound of
  0 among them. The model admits 0 (\<open>ge=0\<close>), but the handler tests the truth value of
  each field, and 0 is false: with \<open>started_time_begin = 0\<close> and the other fields at their
  defaults the query holds the limit alone.
\<close>

theorem list_jobs_query_drops_zero:
  "valid_ListJobsInput (example_list_params\<lparr>started_time_begin := Some 0\<rparr>)
   \<and> list_jobs_query_params (example_list_params\<lparr>started_time_begin := Some 0\<rparr>)
       = [(ascii ''limit'', JInt 20)]
   \<and> spec_list_jobs_query (example_list_params\<lparr>started_time_begin := Some 0\<rparr>)
       = [(ascii ''limit'', JInt 20), (ascii ''startedTimeBegin'', JInt 0)]"
  by (simp add: valid_ListJobsInput_def list_jobs_query_params_def spec_list_jobs_query_def
      example_list_params_def set_if_truthy_def List.map_filter_simps)

subsection \<open>The frame of a tool and the upstream requests\<close>

lemma guarded_returns: "\<exists>s tr'. guarded ev body tr = (Inr s, tr')"
  by (cases "body tr") (auto simp: guarded_def split: sum.splits)

lemma guarded_fst:
  "fst (guarded ev body tr) =
     (case fst (body tr) of Inl e \<Rightarrow> Inr (handle_error ev e) | Inr s \<Rightarrow> Inr s)"
  by (cases "body tr") (auto simp: guarded_def split: sum.splits)

lemma guarded_snd: "snd (guarded ev body tr) = snd (body tr)"
  by (cases "body tr") (auto simp: guarded_def split: sum.splits)

lemma io_bind_make_request:
  "io_bind (make_request ev endpoint q) f tr =
     (case http_get_json ev (JOBHISTORY_BASE_URL ev @ ascii ''/'' @ endpoint) q of
        Inl e \<Rightarrow> (Inl e, tr @ [GetJson (JOBHISTORY_BASE_URL ev @ ascii ''/'' @ endpoint) q])
      | Inr data \<Rightarrow> f data (tr @ [GetJson (JOBHISTORY_BASE_URL ev @ ascii ''/'' @ endpoint) q]))"
  by (simp add: io_bind_def make_request_def Let_def split: sum.splits)

lemma io_bind_lift:
  "io_bind (io_lift r) f tr = (case r of Inl e \<Rightarrow> (Inl e, tr) | Inr x \<Rightarrow> f x tr)"
  by (simp add: io_bind_def io_lift_def split: sum.splits)

subsection \<open>An empty jobs list\<close>

lemma list_jobs_query_format:
  "list_jobs_query_params (params\<lparr>response_format := fmt\<rparr>) = list_jobs_query_params params"
  by (simp add: list_jobs_query_params_def)

text \<open>
  C10. When the upstream answers and the list under \<open>jobs.job\<close> is empty (or any other
  false value, as an absent key gives), \<open>jobhistory_list_jobs\<close> returns the fixed sentence
  "no jobs found that match the conditions", whatever output format the input asks for:
  the test stands before the branch on the format.
\<close>

theorem list_jobs_empty_is_plain_text:
  assumes "http_get_json ev (JOBHISTORY_BASE_URL ev @ ascii ''/'' @ ascii ''mapreduce/jobs'')
             (list_jobs_query_params params) = Inr data"
    and "py_get data (ascii ''jobs'') (JObj []) = Inr jobs_entry"
    and "py_get jobs_entry (ascii ''job'') (JArr []) = Inr jobs"
    and "\<not> truthy jobs"
  shows "fst (jobhistory_list_jobs ev (params\<lparr>response_format := fmt\<rparr>) tr) = Inr msg_no_jobs"
  using assms
  by (simp add: jobhistory_list_jobs_def guarded_fst jobhistory_list_jobs_body_def
      io_bind_make_request io_lift_def and_then_def list_jobs_query_format)

text \<open>The upstream answers \<open>{"jobs": {"job": []}}\<close> and the input asks for JSON.\<close>

theorem list_jobs_empty_is_plain_text_witness:
  "fst (jobhistory_list_jobs
     (example_env (\<lambda>url q. Inr (JObj [(ascii ''jobs'', JObj [(ascii ''job'', JArr [])])]))
        (\<lambda>url. Inl ConnectError))
     (example_list_params\<lparr>response_format := JSON\<rparr>) []) = Inr msg_no_jobs"
  by (rule list_jobs_empty_is_plain_text
        [where data = "JObj [(ascii ''jobs'', JObj [(ascii ''job'', JArr [])])]"
           and jobs_entry = "JObj [(ascii ''job'', JArr [])]" and jobs = "JArr []"])
     (simp_all add: example_env_def py_get_def dict_get_def)

subsection \<open>Input given as a JSON string\<close>

text \<open>
  C9. When the raw input is a string that \<open>json.loads\<close> parses to the dict \<open>kvs\<close>, the
  validator replaces the string by that dict, and leaves the dict as it is when the dict
  itself is the input. So the validation of a model on the string is the validation of
  its fields on the dict \<open>kvs\<close>, which is also what the validation on the dict is: both
  encodings give the same validated object or the same rejection, and so the same result
  of whatever handler runs on the object.
\<close>

theorem json_string_input_equivalent:
  assumes "json_loads ev s = Inr (JObj kvs)"
  shows "parse_json_string ev (JStr s) = Inr (JObj kvs)
    \<and> parse_json_string ev (JObj kvs) = Inr (JObj kvs)
    \<and> model_validate ev validate_fields (JStr s) = validate_fields (JObj kvs)
    \<and> model_validate ev validate_fields (JObj kvs) = validate_fields (JObj kvs)
    \<and> model_validate ev validate_fields (JStr s) = model_validate ev validate_fields (JObj kvs)
    \<and> map_sum id handler (model_validate ev validate_fields (JStr s))
        = map_sum id handler (model_validate ev validate_fields (JObj kvs))"
  using assms by (simp add: model_validate_def parse_json_string_def and_then_def)

text \<open>
  The example text and its dict, validated as a \<open>GetJobInput\<close>: both give the object with
  the job \<open>job_1_1\<close> and the JSON format, and \<open>jobhistory_get_job\<close> on it, with an upstream
  that answers 404, returns the message of 404.
\<close>

theorem json_string_input_equivalent_witness:
  "model_validate (example_env (\<lambda>url q. Inl (HTTPStatusError 404)) (\<lambda>url. Inl ConnectError))
      validate_GetJobInput (JStr example_json_text)
     = Inr \<lparr>response_format = JSON, job_id = ascii ''job_1_1''\<rparr>
   \<and> model_validate (example_env (\<lambda>url q. Inl (HTTPStatusError 404)) (\<lambda>url. Inl ConnectError))
      validate_GetJobInput (JObj example_json_dict)
     = Inr \<lparr>response_format = JSON, job_id = ascii ''job_1_1''\<rparr>
   \<and> map_sum id
        (\<lambda>p. fst (jobhistory_get_job
           (example_env (\<lambda>url q. Inl (HTTPStatusError 404)) (\<lambda>url. Inl ConnectError)) p []))
        (model_validate (example_env (\<lambda>url q. Inl (HTTPStatusError 404)) (\<lambda>url. Inl ConnectError))
           validate_GetJobInput (JStr example_json_text))
     = Inr (Inr msg_404)"
proof -
  let ?ev = "example_env (\<lambda>url q. Inl (HTTPStatusError 404)) (\<lambda>url. Inl ConnectError)"
  let ?h = "\<lambda>p. fst (jobhistory_get_job ?ev p [])"
  have loads: "json_loads ?ev example_json_text = Inr (JObj example_json_dict)"
    by (simp add: example_env_def example_json_loads_def example_json_text_def ascii_def)
  have k: "ascii ''response_format'' \<noteq> ascii ''job_id''"
    "ascii ''job_id'' \<noteq> ascii ''response_format''"
    "ascii ''json'' \<noteq> ascii ''markdown''"
    by (simp_all add: ascii_def)
  have sw: "strip_white_space (ascii ''job_1_1'') = ascii ''job_1_1''"
    by (simp add: strip_white_space_def white_space_def ascii_def)
  have ps: "py_strip (ascii ''job_1_1'') = ascii ''job_1_1''"
    by (simp add: py_strip_def py_whitespace_def ascii_def)
  have len: "length (ascii ''job_1_1'') = 7" "ascii ''job_1_1'' \<noteq> []"
    by (simp_all add: ascii_def)
  have v: "validate_GetJobInput (JObj example_json_dict)
      = Inr \<lparr>response_format = JSON, job_id = ascii ''job_1_1''\<rparr>"
    by (simp add: validate_GetJobInput_def example_json_dict_def k sw ps len
        validate_job_id_def validate_response_format_def)
  have run: "?h \<lparr>response_format = JSON, job_id = ascii ''job_1_1''\<rparr> = Inr msg_404"
    by (simp add: jobhistory_get_job_def guarded_fst jobhistory_get_job_body_def
        io_bind_make_request example_env_def handle_error_def)
  note t = json_string_input_equivalent [OF loads, of validate_GetJobInput ?h]
  from t v have 1: "model_validate ?ev validate_GetJobInput (JStr example_json_text)
      = Inr \<lparr>response_format = JSON, job_id = ascii ''job_1_1''\<rparr>"
    by simp
  from t v have 2: "model_validate ?ev validate_GetJobInput (JObj example_json_dict)
      = Inr \<lparr>response_format = JSON, job_id = ascii ''job_1_1''\<rparr>"
    by simp
  from 1 run have 3: "map_sum id ?h (model_validate ?ev validate_GetJobInput (JStr example_json_text))
      = Inr (Inr msg_404)"
    by simp
  from 1 2 3 show ?thesis by simp
qed

subsection \<open>Decimal numerals\<close>

lemma digits_small: "n < 10 \<Longrightarrow> digits n = [48 + n]"
  by (simp add: digits.simps)

lemma digits_big: "10 \<le> n \<Longrightarrow> digits n = digits (n div 10) @ [48 + n mod 10]"
  by (subst digits.simps) simp

subsection \<open>The lookups of the log tools\<close>

lemma io_bind_return: "io_bind (io_return x) f tr = f x tr"
  by (simp add: io_bind_def io_return_def)

lemma io_bind_fetch:
  "io_bind (fetch_logs_html ev url) f tr =
     (case http_get_text ev url of
        Inl e \<Rightarrow> (Inl e, tr @ [GetText url])
      | Inr html \<Rightarrow> f html (tr @ [GetText url]))"
  by (simp add: io_bind_def fetch_logs_html_def split: sum.splits)

lemma io_bind_apply:
  "m tr = (Inr x, tr') \<Longrightarrow> io_bind m f tr = f x tr'"
  by (simp add: io_bind_def)

lemma absent_is_falsy: "map_of kvs k = None \<Longrightarrow> \<not> truthy (dict_get kvs k JNull)"
  by (simp add: dict_get_def)

lemma locate_log_no_container:
  assumes "http_get_json ev (JOBHISTORY_BASE_URL ev @ ascii ''/''
             @ (ascii ''mapreduce/jobs/'' @ job_id params @ ascii ''/tasks/'' @ task_id params
                @ ascii ''/attempts/'' @ attempt_id params)) [] = Inr attempt_data"
    and "py_get attempt_data (ascii ''taskAttempt'') (JObj []) = Inr (JObj attempt)"
    and "\<not> truthy (dict_get attempt (ascii ''assignedContainerId'') JNull)"
  shows "fst (locate_log ev params tr) = Inr (Inl msg_no_container)"
  using assms
  by (simp add: locate_log_def io_bind_make_request io_bind_lift io_return_def py_get_def)

lemma locate_log_no_node:
  assumes "http_get_json ev (JOBHISTORY_BASE_URL ev @ ascii ''/''
             @ (ascii ''mapreduce/jobs/'' @ job_id params @ ascii ''/tasks/'' @ task_id params
                @ ascii ''/attempts/'' @ attempt_id params)) [] = Inr attempt_data"
    and "py_get attempt_data (ascii ''taskAttempt'') (JObj []) = Inr (JObj attempt)"
    and "truthy (dict_get attempt (ascii ''assignedContainerId'') JNull)"
    and "\<not> truthy (dict_get attempt (ascii ''nodeHttpAddress'') JNull)"
  shows "fst (locate_log ev params tr) = Inr (Inl msg_no_node_address)"
  using assms
  by (simp add: locate_log_def io_bind_make_request io_bind_lift io_return_def py_get_def)

lemma locate_log_no_user:
  assumes "http_get_json ev (JOBHISTORY_BASE_URL ev @ ascii ''/''
             @ (ascii ''mapreduce/jobs/'' @ job_id params @ ascii ''/tasks/'' @ task_id params
                @ ascii ''/attempts/'' @ attempt_id params)) [] = Inr attempt_data"
    and "py_get attempt_data (ascii ''taskAttempt'') (JObj []) = Inr (JObj attempt)"
    and "truthy (dict_get attempt (ascii ''assignedContainerId'') JNull)"
    and "truthy (dict_get attempt (ascii ''nodeHttpAddress'') JNull)"
    and "http_get_json ev (JOBHISTORY_BASE_URL ev @ ascii ''/''
             @ (ascii ''mapreduce/jobs/'' @ job_id params)) [] = Inr job_data"
    and "py_get job_data (ascii ''job'') (JObj []) = Inr (JObj job)"
    and "\<not> truthy (dict_get job (ascii ''user'') JNull)"
  shows "fst (locate_log ev params tr) = Inr (Inl msg_no_user)"
  using assms
  by (simp add: locate_log_def io_bind_make_request io_bind_lift io_return_def py_get_def)

lemma log_tools_early_return:
  assumes "fst (locate_log ev params tr) = Inr (Inl message)"
  shows "fst (jobhistory_get_task_attempt_logs ev params tr) = Inr message"
    and "fst (jobhistory_get_task_attempt_logs_partial ev params tr) = Inr message"
  using assms
  by (cases "locate_log ev params tr";
      simp add: jobhistory_get_task_attempt_logs_def jobhistory_get_task_attempt_logs_partial_def
        guarded_fst jobhistory_get_task_attempt_logs_body_def
        jobhistory_get_task_attempt_logs_partial_body_def io_bind_def io_return_def)+

lemma log_messages_distinct:
  "msg_no_container \<noteq> msg_no_node_address" "msg_no_container \<noteq> msg_no_user"
  "msg_no_node_address \<noteq> msg_no_user"
  by (simp_all add: msg_no_container_def msg_no_node_address_def msg_no_user_def)

text \<open>
  C2. Both log tools, run on the same input, once the detail of the task attempt has been
  fetched and is a dict \<open>attempt\<close>. A detail without \<open>assignedContainerId\<close> (the key absent,
  or its value null or empty: \<open>absent_is_falsy\<close>) gives the message about the container,
  whatever else the detail holds and without asking for the job. A detail with a container
  and without \<open>nodeHttpAddress\<close> gives the message about the node address; the container
  is tested first, so a detail that lacks both gives the message about the container. With
  both present, a job detail without \<open>user\<close> gives the message about the user. Each is the
  value the tool returns, not an exception, and the three messages differ from one another.
\<close>

theorem log_tools_missing_info:
  fixes params :: "'a GetTaskAttemptLogsPartialInput_scheme"
  assumes "http_get_json ev (JOBHISTORY_BASE_URL ev @ ascii ''/''
             @ (ascii ''mapreduce/jobs/'' @ job_id params @ ascii ''/tasks/'' @ task_id params
                @ ascii ''/attempts/'' @ attempt_id params)) [] = Inr attempt_data"
    and "py_get attempt_data (ascii ''taskAttempt'') (JObj []) = Inr (JObj attempt)"
  shows
    "(\<not> truthy (dict_get attempt (ascii ''assignedContainerId'') JNull) \<longrightarrow>
        fst (jobhistory_get_task_attempt_logs ev params tr) = Inr msg_no_container
        \<and> fst (jobhistory_get_task_attempt_logs_partial ev params tr) = Inr msg_no_container)
     \<and> (truthy (dict_get attempt (ascii ''assignedContainerId'') JNull)
          \<and> \<not> truthy (dict_get attempt (ascii ''nodeHttpAddress'') JNull) \<longrightarrow>
        fst (jobhistory_get_task_attempt_logs ev params tr) = Inr msg_no_node_address
        \<and> fst (jobhistory_get_task_attempt_logs_partial ev params tr) = Inr msg_no_node_address)
     \<and> (truthy (dict_get attempt (ascii ''assignedContainerId'') JNull)
          \<and> truthy (dict_get attempt (ascii ''nodeHttpAddress'') JNull)
          \<and> http_get_json ev (JOBHISTORY_BASE_URL ev @ ascii ''/''
                @ (ascii ''mapreduce/jobs/'' @ job_id params)) [] = Inr job_data
          \<and> py_get job_data (ascii ''job'') (JObj []) = Inr (JObj job)
          \<and> \<not> truthy (dict_get job (ascii ''user'') JNull) \<longrightarrow>
        fst (jobhistory_get_task_attempt_logs ev params tr) = Inr msg_no_user
        \<and> fst (jobhistory_get_task_attempt_logs_partial ev params tr) = Inr msg_no_user)
     \<and> msg_no_container \<noteq> msg_no_node_address
     \<and> msg_no_container \<noteq> msg_no_user
     \<and> msg_no_node_address \<noteq> msg_no_user"
  using locate_log_no_container [OF assms, THEN log_tools_early_return(1)]
    locate_log_no_container [OF assms, THEN log_tools_early_return(2)]
    locate_log_no_node [OF assms, THEN log_tools_early_return(1)]
    locate_log_no_node [OF assms, THEN log_tools_early_return(2)]
    locate_log_no_user [OF assms, THEN log_tools_early_return(1)]
    locate_log_no_user [OF assms, THEN log_tools_early_return(2)]
    log_messages_distinct
  by blast

text \<open>The URLs of the example deployment, and what its upstream answers.\<close>

lemma example_urls:
  "JOBHISTORY_BASE_URL (example_env g t) @ ascii ''/''
     @ (ascii ''mapreduce/jobs/'' @ job_id example_logs_params @ ascii ''/tasks/''
        @ task_id example_logs_params @ ascii ''/attempts/'' @ attempt_id example_logs_params)
   = ascii ''http://jhs:19888/ws/v1/history/mapreduce/jobs/job_1_1/tasks/task_1_1_m_0/attempts/attempt_1_1_m_0_0''"
  "JOBHISTORY_BASE_URL (example_env g t) @ ascii ''/''
     @ (ascii ''mapreduce/jobs/'' @ job_id example_logs_params)
   = ascii ''http://jhs:19888/ws/v1/history/mapreduce/jobs/job_1_1''"
  by (simp_all add: example_env_def example_logs_params_def ascii_def)

lemma example_upstream_simps:
  "http_get_json (example_env (example_upstream a j) t)
     (ascii ''http://jhs:19888/ws/v1/history/mapreduce/jobs/job_1_1/tasks/task_1_1_m_0/attempts/attempt_1_1_m_0_0'') q = Inr a"
  "http_get_json (example_env (example_upstream a j) t)
     (ascii ''http://jhs:19888/ws/v1/history/mapreduce/jobs/job_1_1'') q = Inr j"
  by (simp_all add: example_env_def example_upstream_def ascii_def)

text \<open>
  A detail with the node address only, a detail with the container only, and a complete
  detail with a job that has a name and no user.
\<close>

theorem log_tools_missing_info_witness:
  "fst (jobhistory_get_task_attempt_logs
      (example_env (example_upstream
         (JObj [(ascii ''taskAttempt'', JObj [(ascii ''nodeHttpAddress'', JStr (ascii ''nm1:8042''))])])
         (JObj [(ascii ''job'', JObj [(ascii ''user'', JStr (ascii ''hadoop''))])]))
         (\<lambda>url. Inl ConnectError))
      example_logs_params []) = Inr msg_no_container
   \<and> fst (jobhistory_get_task_attempt_logs_partial
      (example_env (example_upstream
         (JObj [(ascii ''taskAttempt'', JObj [(ascii ''assignedContainerId'', JStr (ascii ''container_1''))])])
         (JObj [(ascii ''job'', JObj [(ascii ''user'', JStr (ascii ''hadoop''))])]))
         (\<lambda>url. Inl ConnectError))
      example_logs_params []) = Inr msg_no_node_address
   \<and> fst (jobhistory_get_task_attempt_logs_partial
      (example_env (example_upstream
         (JObj [(ascii ''taskAttempt'', JObj [(ascii ''assignedContainerId'', JStr (ascii ''container_1'')),
                                            (ascii ''nodeHttpAddress'', JStr (ascii ''nm1:8042''))])])
         (JObj [(ascii ''job'', JObj [(ascii ''name'', JStr (ascii ''wordcount''))])]))
         (\<lambda>url. Inl ConnectError))
      example_logs_params []) = Inr msg_no_user"
proof -
  let ?a1 = "JObj [(ascii ''taskAttempt'', JObj [(ascii ''nodeHttpAddress'', JStr (ascii ''nm1:8042''))])]"
  let ?a2 = "JObj [(ascii ''taskAttempt'', JObj [(ascii ''assignedContainerId'', JStr (ascii ''container_1''))])]"
  let ?a3 = "JObj [(ascii ''taskAttempt'', JObj [(ascii ''assignedContainerId'', JStr (ascii ''container_1'')),
                                            (ascii ''nodeHttpAddress'', JStr (ascii ''nm1:8042''))])]"
  let ?j = "JObj [(ascii ''job'', JObj [(ascii ''user'', JStr (ascii ''hadoop''))])]"
  let ?j3 = "JObj [(ascii ''job'', JObj [(ascii ''name'', JStr (ascii ''wordcount''))])]"
  have k: "ascii ''assignedContainerId'' \<noteq> ascii ''nodeHttpAddress''"
    "ascii ''nodeHttpAddress'' \<noteq> ascii ''assignedContainerId''"
    "ascii ''name'' \<noteq> ascii ''user''" "ascii ''user'' \<noteq> ascii ''name''" "ascii ''nm1:8042'' \<noteq> []" "ascii ''container_1'' \<noteq> []"
    by (simp_all add: ascii_def)
  have 1: "fst (jobhistory_get_task_attempt_logs
      (example_env (example_upstream ?a1 ?j) (\<lambda>url. Inl ConnectError)) example_logs_params [])
      = Inr msg_no_container"
    using log_tools_missing_info [of "example_env (example_upstream ?a1 ?j) (\<lambda>url. Inl ConnectError)"
        example_logs_params ?a1 "[(ascii ''nodeHttpAddress'', JStr (ascii ''nm1:8042''))]" "[]"]
    by (simp add: example_urls example_upstream_simps py_get_def dict_get_def k)
  have 2: "fst (jobhistory_get_task_attempt_logs_partial
      (example_env (example_upstream ?a2 ?j) (\<lambda>url. Inl ConnectError)) example_logs_params [])
      = Inr msg_no_node_address"
    using log_tools_missing_info [of "example_env (example_upstream ?a2 ?j) (\<lambda>url. Inl ConnectError)"
        example_logs_params ?a2 "[(ascii ''assignedContainerId'', JStr (ascii ''container_1''))]" "[]"]
    by (simp add: example_urls example_upstream_simps py_get_def dict_get_def k)
  have 3: "fst (jobhistory_get_task_attempt_logs_partial
      (example_env (example_upstream ?a3 ?j3) (\<lambda>url. Inl ConnectError)) example_logs_params [])
      = Inr msg_no_user"
    using log_tools_missing_info [of "example_env (example_upstream ?a3 ?j3) (\<lambda>url. Inl ConnectError)"
        example_logs_params ?a3
        "[(ascii ''assignedContainerId'', JStr (ascii ''container_1'')),
          (ascii ''nodeHttpAddress'', JStr (ascii ''nm1:8042''))]" "[]" ?j3
        "[(ascii ''name'', JStr (ascii ''wordcount''))]"]
    by (simp add: example_urls example_upstream_simps py_get_def dict_get_def k)
  from 1 2 3 show ?thesis by simp
qed

subsection \<open>The URL of a log page\<close>

lemma extract_hostname_str:
  "extract_hostname (JStr n) = Inr (JStr (py_rsplit1_head 58 n))"
  by (simp add: extract_hostname_def and_then_def py_in_def py_rsplit1_head_def)

lemma locate_log_found:
  assumes "http_get_json ev (JOBHISTORY_BASE_URL ev @ ascii ''/''
             @ (ascii ''mapreduce/jobs/'' @ job_id params @ ascii ''/tasks/'' @ task_id params
                @ ascii ''/attempts/'' @ attempt_id params)) [] = Inr attempt_data"
    and "py_get attempt_data (ascii ''taskAttempt'') (JObj []) = Inr (JObj attempt)"
    and "dict_get attempt (ascii ''assignedContainerId'') JNull = JStr c" and "c \<noteq> []"
    and "dict_get attempt (ascii ''nodeHttpAddress'') JNull = JStr n" and "n \<noteq> []"
    and "http_get_json ev (JOBHISTORY_BASE_URL ev @ ascii ''/''
             @ (ascii ''mapreduce/jobs/'' @ job_id params)) [] = Inr job_data"
    and "py_get job_data (ascii ''job'') (JObj []) = Inr (JObj job)"
    and "dict_get job (ascii ''user'') JNull = JStr u" and "u \<noteq> []"
  shows "locate_log ev params tr =
     (Inr (Inr (Located (JStr c) (py_rsplit1_head 58 n @ ascii '':'' @ NODEMANAGER_PORT ev) (JStr u))),
      tr @ [GetJson (JOBHISTORY_BASE_URL ev @ ascii ''/''
               @ (ascii ''mapreduce/jobs/'' @ job_id params @ ascii ''/tasks/'' @ task_id params
                  @ ascii ''/attempts/'' @ attempt_id params)) [],
            GetJson (JOBHISTORY_BASE_URL ev @ ascii ''/''
               @ (ascii ''mapreduce/jobs/'' @ job_id params)) []])"
  using assms
  by (simp add: locate_log_def io_bind_make_request io_bind_lift io_return_def py_get_def
      extract_hostname_str py_format_def)

lemma locate_log_no_fetch:
  "GetText url \<in> set (snd (locate_log ev params tr)) \<Longrightarrow> GetText url \<in> set tr"
  by (auto simp add: locate_log_def io_bind_make_request io_bind_lift io_return_def
      split: sum.splits if_splits)

lemma full_trace:
  "snd (jobhistory_get_task_attempt_logs ev params tr) =
     (case locate_log ev params tr of
        (Inr (Inr (Located container_id node_manager job_user)), tr') \<Rightarrow>
          tr' @ [GetText (LOGS_BASE_URL ev @ ascii ''/'' @ node_manager @ ascii ''/''
                @ py_format ev container_id @ ascii ''/'' @ attempt_id params @ ascii ''/''
                @ py_format ev job_user @ ascii ''/'' @ LogType_value (log_type params) @ ascii ''/''
                @ ascii ''?start=0&start.time=0&end.time=9223372036854775807'')]
      | (_, tr') \<Rightarrow> tr')"
  by (simp add: jobhistory_get_task_attempt_logs_def guarded_snd
      jobhistory_get_task_attempt_logs_body_def io_bind_def [of "locate_log ev params"]
      io_bind_fetch io_return_def Let_def
      split: prod.splits sum.splits located.splits)

lemma partial_trace:
  "snd (jobhistory_get_task_attempt_logs_partial ev params tr) =
     (case locate_log ev params tr of
        (Inr (Inr (Located container_id node_manager job_user)), tr') \<Rightarrow>
          tr' @ [GetText (LOGS_BASE_URL ev @ ascii ''/'' @ node_manager @ ascii ''/''
                @ py_format ev container_id @ ascii ''/'' @ attempt_id params @ ascii ''/''
                @ py_format ev job_user @ ascii ''/'' @ LogType_value (log_type params) @ ascii ''/''
                @ ascii ''?start='' @ py_str_int (start params)
                @ ascii ''&end='' @ py_str_int (end_pos params))]
      | (_, tr') \<Rightarrow> tr')"
  by (simp add: jobhistory_get_task_attempt_logs_partial_def guarded_snd
      jobhistory_get_task_attempt_logs_partial_body_def io_bind_def [of "locate_log ev params"]
      io_bind_fetch io_return_def Let_def
      split: prod.splits sum.splits located.splits)

lemma digits_nonempty: "digits n \<noteq> []"
  by (subst digits.simps) simp

lemma digits_range: "d \<in> set (digits n) \<Longrightarrow> 48 \<le> d \<and> d \<le> 57"
proof (induction n rule: digits.induct)
  case (1 n)
  show ?case
  proof (cases "n < 10")
    case True
    with "1.prems" show ?thesis by (simp add: digits_small)
  next
    case False
    then have "digits n = digits (n div 10) @ [48 + n mod 10]" by (simp add: digits_big)
    with "1.prems" have "d \<in> set (digits (n div 10)) \<or> d = 48 + n mod 10" by auto
    then show ?thesis
    proof
      assume "d \<in> set (digits (n div 10))"
      with False "1.IH" show ?thesis by simp
    next
      assume "d = 48 + n mod 10"
      moreover have "n mod 10 < 10" by simp
      ultimately show ?thesis by linarith
    qed
  qed
qed

lemma digits_inj: "digits a = digits b \<Longrightarrow> a = b"
proof (induction a arbitrary: b rule: digits.induct)
  case (1 a)
  show ?case
  proof (cases "a < 10")
    case a: True
    show ?thesis
    proof (cases "b < 10")
      case True
      with a "1.prems" show ?thesis by (simp add: digits_small)
    next
      case False
      then have "digits b = digits (b div 10) @ [48 + b mod 10]" by (simp add: digits_big)
      with a "1.prems" have "[48 + a] = digits (b div 10) @ [48 + b mod 10]"
        by (simp add: digits_small)
      then have "digits (b div 10) = []" by (cases "digits (b div 10)") auto
      with digits_nonempty show ?thesis by blast
    qed
  next
    case a: False
    then have da: "digits a = digits (a div 10) @ [48 + a mod 10]" by (simp add: digits_big)
    show ?thesis
    proof (cases "b < 10")
      case True
      with da "1.prems" have "digits (a div 10) @ [48 + a mod 10] = [48 + b]"
        by (simp add: digits_small)
      then have "digits (a div 10) = []" by (cases "digits (a div 10)") auto
      with digits_nonempty show ?thesis by blast
    next
      case False
      then have "digits b = digits (b div 10) @ [48 + b mod 10]" by (simp add: digits_big)
      with da "1.prems" have eq: "digits (a div 10) = digits (b div 10)" and m: "a mod 10 = b mod 10"
        by auto
      from a eq "1.IH" have "a div 10 = b div 10" by simp
      with m show ?thesis by (metis div_mult_mod_eq)
    qed
  qed
qed

lemma py_str_int_inj: "py_str_int a = py_str_int b \<Longrightarrow> a = b"
proof -
  assume eq: "py_str_int a = py_str_int b"
  have no_minus: "\<And>n ds. digits n \<noteq> 45 # ds"
  proof
    fix n ds assume "digits n = 45 # ds"
    then have "45 \<in> set (digits n)" by simp
    from digits_range [OF this] show False by simp
  qed
  show ?thesis
  proof (cases "a < 0")
    case a: True
    show ?thesis
    proof (cases "b < 0")
      case True
      with a eq have "digits (nat (- a)) = digits (nat (- b))" by (simp add: py_str_int_def)
      then have "nat (- a) = nat (- b)" by (rule digits_inj)
      with a True show ?thesis by simp
    next
      case False
      with a eq have "digits (nat b) = 45 # digits (nat (- a))" by (simp add: py_str_int_def)
      with no_minus show ?thesis by blast
    qed
  next
    case a: False
    show ?thesis
    proof (cases "b < 0")
      case True
      with a eq have "digits (nat a) = 45 # digits (nat (- b))" by (simp add: py_str_int_def)
      with no_minus show ?thesis by blast
    next
      case False
      with a eq have "digits (nat a) = digits (nat b)" by (simp add: py_str_int_def)
      then have "nat a = nat b" by (rule digits_inj)
      with a False show ?thesis by simp
    qed
  qed
qed

text \<open>
  C1. The URL of the log page. Every page a log tool fetches has the path
  \<open>{LOGS_BASE_URL}/{node_manager}/{container_id}/{attempt_id}/{user}/{log_type}/\<close>; the
  query of the full tool is exactly \<open>start=0&start.time=0&end.time=9223372036854775807\<close>
  and the query of the partial tool is \<open>start=\<close> and \<open>end=\<close> with the decimal forms of
  the two integers of the input. When both lookups succeed with strings \<open>c\<close>, \<open>n\<close> and
  \<open>u\<close> for the container, the node address and the user, the requests of a call are the
  two lookups and then that page, with \<open>n\<close> up to its last colon and the NodeManager port
  as the node. The decimal form determines the integer: nothing is clamped or replaced,
  negative or zero.
\<close>

theorem log_url_construction:
  fixes params :: "'a GetTaskAttemptLogsPartialInput_scheme"
  shows
    "(\<forall>url. GetText url \<in> set (snd (jobhistory_get_task_attempt_logs ev params tr))
            \<and> GetText url \<notin> set tr \<longrightarrow>
        (\<exists>node_manager container_id job_user.
           url = LOGS_BASE_URL ev @ ascii ''/'' @ node_manager @ ascii ''/'' @ container_id
                 @ ascii ''/'' @ attempt_id params @ ascii ''/'' @ job_user @ ascii ''/''
                 @ LogType_value (log_type params) @ ascii ''/''
                 @ ascii ''?start=0&start.time=0&end.time=9223372036854775807''))
     \<and> (\<forall>url. GetText url \<in> set (snd (jobhistory_get_task_attempt_logs_partial ev params tr))
            \<and> GetText url \<notin> set tr \<longrightarrow>
        (\<exists>node_manager container_id job_user.
           url = LOGS_BASE_URL ev @ ascii ''/'' @ node_manager @ ascii ''/'' @ container_id
                 @ ascii ''/'' @ attempt_id params @ ascii ''/'' @ job_user @ ascii ''/''
                 @ LogType_value (log_type params) @ ascii ''/''
                 @ ascii ''?start='' @ py_str_int (start params)
                 @ ascii ''&end='' @ py_str_int (end_pos params)))
     \<and> (http_get_json ev (JOBHISTORY_BASE_URL ev @ ascii ''/''
             @ (ascii ''mapreduce/jobs/'' @ job_id params @ ascii ''/tasks/'' @ task_id params
                @ ascii ''/attempts/'' @ attempt_id params)) [] = Inr attempt_data
          \<and> py_get attempt_data (ascii ''taskAttempt'') (JObj []) = Inr (JObj attempt)
          \<and> dict_get attempt (ascii ''assignedContainerId'') JNull = JStr c \<and> c \<noteq> []
          \<and> dict_get attempt (ascii ''nodeHttpAddress'') JNull = JStr n \<and> n \<noteq> []
          \<and> http_get_json ev (JOBHISTORY_BASE_URL ev @ ascii ''/''
                @ (ascii ''mapreduce/jobs/'' @ job_id params)) [] = Inr job_data
          \<and> py_get job_data (ascii ''job'') (JObj []) = Inr (JObj job)
          \<and> dict_get job (ascii ''user'') JNull = JStr u \<and> u \<noteq> [] \<longrightarrow>
        snd (jobhistory_get_task_attempt_logs ev params tr) =
          tr @ [GetJson (JOBHISTORY_BASE_URL ev @ ascii ''/''
                  @ (ascii ''mapreduce/jobs/'' @ job_id params @ ascii ''/tasks/'' @ task_id params
                     @ ascii ''/attempts/'' @ attempt_id params)) [],
                GetJson (JOBHISTORY_BASE_URL ev @ ascii ''/''
                  @ (ascii ''mapreduce/jobs/'' @ job_id params)) [],
                GetText (LOGS_BASE_URL ev @ ascii ''/''
                  @ (py_rsplit1_head 58 n @ ascii '':'' @ NODEMANAGER_PORT ev) @ ascii ''/'' @ c
                  @ ascii ''/'' @ attempt_id params @ ascii ''/'' @ u @ ascii ''/''
                  @ LogType_value (log_type params) @ ascii ''/''
                  @ ascii ''?start=0&start.time=0&end.time=9223372036854775807'')]
        \<and> snd (jobhistory_get_task_attempt_logs_partial ev params tr) =
          tr @ [GetJson (JOBHISTORY_BASE_URL ev @ ascii ''/''
                  @ (ascii ''mapreduce/jobs/'' @ job_id params @ ascii ''/tasks/'' @ task_id params
                     @ ascii ''/attempts/'' @ attempt_id params)) [],
                GetJson (JOBHISTORY_BASE_URL ev @ ascii ''/''
                  @ (ascii ''mapreduce/jobs/'' @ job_id params)) [],
                GetText (LOGS_BASE_URL ev @ ascii ''/''
                  @ (py_rsplit1_head 58 n @ ascii '':'' @ NODEMANAGER_PORT ev) @ ascii ''/'' @ c
                  @ ascii ''/'' @ attempt_id params @ ascii ''/'' @ u @ ascii ''/''
                  @ LogType_value (log_type params) @ ascii ''/''
                  @ ascii ''?start='' @ py_str_int (start params)
                  @ ascii ''&end='' @ py_str_int (end_pos params))])
     \<and> (\<forall>a b. py_str_int a = py_str_int b \<longrightarrow> a = b)"
proof (intro conjI allI impI)
  fix url
  assume "GetText url \<in> set (snd (jobhistory_get_task_attempt_logs ev params tr))
            \<and> GetText url \<notin> set tr"
  then show "\<exists>node_manager container_id job_user.
           url = LOGS_BASE_URL ev @ ascii ''/'' @ node_manager @ ascii ''/'' @ container_id
                 @ ascii ''/'' @ attempt_id params @ ascii ''/'' @ job_user @ ascii ''/''
                 @ LogType_value (log_type params) @ ascii ''/''
                 @ ascii ''?start=0&start.time=0&end.time=9223372036854775807''"
    using locate_log_no_fetch [of url ev params tr]
    by (cases "locate_log ev params tr")
       (auto simp add: full_trace split: sum.splits located.splits)
next
  fix url
  assume "GetText url \<in> set (snd (jobhistory_get_task_attempt_logs_partial ev params tr))
            \<and> GetText url \<notin> set tr"
  then show "\<exists>node_manager container_id job_user.
           url = LOGS_BASE_URL ev @ ascii ''/'' @ node_manager @ ascii ''/'' @ container_id
                 @ ascii ''/'' @ attempt_id params @ ascii ''/'' @ job_user @ ascii ''/''
                 @ LogType_value (log_type params) @ ascii ''/''
                 @ ascii ''?start='' @ py_str_int (start params)
                 @ ascii ''&end='' @ py_str_int (end_pos params)"
    using locate_log_no_fetch [of url ev params tr]
    by (cases "locate_log ev params tr")
       (auto simp add: partial_trace split: sum.splits located.splits)
next
  assume a: "http_get_json ev (JOBHISTORY_BASE_URL ev @ ascii ''/''
             @ (ascii ''mapreduce/jobs/'' @ job_id params @ ascii ''/tasks/'' @ task_id params
                @ ascii ''/attempts/'' @ attempt_id params)) [] = Inr attempt_data
          \<and> py_get attempt_data (ascii ''taskAttempt'') (JObj []) = Inr (JObj attempt)
          \<and> dict_get attempt (ascii ''assignedContainerId'') JNull = JStr c \<and> c \<noteq> []
          \<and> dict_get attempt (ascii ''nodeHttpAddress'') JNull = JStr n \<and> n \<noteq> []
          \<and> http_get_json ev (JOBHISTORY_BASE_URL ev @ ascii ''/''
                @ (ascii ''mapreduce/jobs/'' @ job_id params)) [] = Inr job_data
          \<and> py_get job_data (ascii ''job'') (JObj []) = Inr (JObj job)
          \<and> dict_get job (ascii ''user'') JNull = JStr u \<and> u \<noteq> []"
  then have l: "locate_log ev params tr =
     (Inr (Inr (Located (JStr c) (py_rsplit1_head 58 n @ ascii '':'' @ NODEMANAGER_PORT ev) (JStr u))),
      tr @ [GetJson (JOBHISTORY_BASE_URL ev @ ascii ''/''
               @ (ascii ''mapreduce/jobs/'' @ job_id params @ ascii ''/tasks/'' @ task_id params
                  @ ascii ''/attempts/'' @ attempt_id params)) [],
            GetJson (JOBHISTORY_BASE_URL ev @ ascii ''/''
               @ (ascii ''mapreduce/jobs/'' @ job_id params)) []])"
    by (intro locate_log_found [where attempt_data = attempt_data and attempt = attempt
          and job_data = job_data and job = job]) simp_all
  show "snd (jobhistory_get_task_attempt_logs ev params tr) =
          tr @ [GetJson (JOBHISTORY_BASE_URL ev @ ascii ''/''
                  @ (ascii ''mapreduce/jobs/'' @ job_id params @ ascii ''/tasks/'' @ task_id params
                     @ ascii ''/attempts/'' @ attempt_id params)) [],
                GetJson (JOBHISTORY_BASE_URL ev @ ascii ''/''
                  @ (ascii ''mapreduce/jobs/'' @ job_id params)) [],
                GetText (LOGS_BASE_URL ev @ ascii ''/''
                  @ (py_rsplit1_head 58 n @ ascii '':'' @ NODEMANAGER_PORT ev) @ ascii ''/'' @ c
                  @ ascii ''/'' @ attempt_id params @ ascii ''/'' @ u @ ascii ''/''
                  @ LogType_value (log_type params) @ ascii ''/''
                  @ ascii ''?start=0&start.time=0&end.time=9223372036854775807'')]"
    by (simp add: full_trace l py_format_def)
  show "snd (jobhistory_get_task_attempt_logs_partial ev params tr) =
          tr @ [GetJson (JOBHISTORY_BASE_URL ev @ ascii ''/''
                  @ (ascii ''mapreduce/jobs/'' @ job_id params @ ascii ''/tasks/'' @ task_id params
                     @ ascii ''/attempts/'' @ attempt_id params)) [],
                GetJson (JOBHISTORY_BASE_URL ev @ ascii ''/''
                  @ (ascii ''mapreduce/jobs/'' @ job_id params)) [],
                GetText (LOGS_BASE_URL ev @ ascii ''/''
                  @ (py_rsplit1_head 58 n @ ascii '':'' @ NODEMANAGER_PORT ev) @ ascii ''/'' @ c
                  @ ascii ''/'' @ attempt_id params @ ascii ''/'' @ u @ ascii ''/''
                  @ LogType_value (log_type params) @ ascii ''/''
                  @ ascii ''?start='' @ py_str_int (start params)
                  @ ascii ''&end='' @ py_str_int (end_pos params))]"
    by (simp add: partial_trace l py_format_def)
next
  fix a b :: int
  assume "py_str_int a = py_str_int b"
  then show "a = b" by (rule py_str_int_inj)
qed

text \<open>
  The defaults of the partial tool, \<open>start = -4096\<close> and \<open>end = 0\<close>, give
  \<open>start=-4096&end=0\<close>.
\<close>

theorem log_url_construction_witness:
  "snd (jobhistory_get_task_attempt_logs
      (example_env (example_upstream
         (JObj [(ascii ''taskAttempt'', JObj [(ascii ''assignedContainerId'', JStr (ascii ''container_1'')),
                                            (ascii ''nodeHttpAddress'', JStr (ascii ''nm1:8042''))])])
         (JObj [(ascii ''job'', JObj [(ascii ''user'', JStr (ascii ''hadoop''))])]))
         (\<lambda>url. Inl ConnectError))
      example_logs_params [])
   = [GetJson (ascii ''http://jhs:19888/ws/v1/history/mapreduce/jobs/job_1_1/tasks/task_1_1_m_0/attempts/attempt_1_1_m_0_0'') [],
      GetJson (ascii ''http://jhs:19888/ws/v1/history/mapreduce/jobs/job_1_1'') [],
      GetText (ascii ''http://jhs:19888/jobhistory/logs/nm1:8052/container_1/attempt_1_1_m_0_0/hadoop/syslog/?start=0&start.time=0&end.time=9223372036854775807'')]
   \<and> snd (jobhistory_get_task_attempt_logs_partial
      (example_env (example_upstream
         (JObj [(ascii ''taskAttempt'', JObj [(ascii ''assignedContainerId'', JStr (ascii ''container_1'')),
                                            (ascii ''nodeHttpAddress'', JStr (ascii ''nm1:8042''))])])
         (JObj [(ascii ''job'', JObj [(ascii ''user'', JStr (ascii ''hadoop''))])]))
         (\<lambda>url. Inl ConnectError))
      example_logs_params [])
   = [GetJson (ascii ''http://jhs:19888/ws/v1/history/mapreduce/jobs/job_1_1/tasks/task_1_1_m_0/attempts/attempt_1_1_m_0_0'') [],
      GetJson (ascii ''http://jhs:19888/ws/v1/history/mapreduce/jobs/job_1_1'') [],
      GetText (ascii ''http://jhs:19888/jobhistory/logs/nm1:8052/container_1/attempt_1_1_m_0_0/hadoop/syslog/?start=-4096&end=0'')]"
proof -
  let ?a = "JObj [(ascii ''taskAttempt'', JObj [(ascii ''assignedContainerId'', JStr (ascii ''container_1'')),
                                            (ascii ''nodeHttpAddress'', JStr (ascii ''nm1:8042''))])]"
  let ?j = "JObj [(ascii ''job'', JObj [(ascii ''user'', JStr (ascii ''hadoop''))])]"
  let ?ev = "example_env (example_upstream ?a ?j) (\<lambda>url. Inl ConnectError)"
  have k: "ascii ''nodeHttpAddress'' \<noteq> ascii ''assignedContainerId''"
    "ascii ''nm1:8042'' \<noteq> []" "ascii ''container_1'' \<noteq> []" "ascii ''hadoop'' \<noteq> []"
    by (simp_all add: ascii_def)
  have pre: "http_get_json ?ev (JOBHISTORY_BASE_URL ?ev @ ascii ''/''
             @ (ascii ''mapreduce/jobs/'' @ job_id example_logs_params @ ascii ''/tasks/''
                @ task_id example_logs_params @ ascii ''/attempts/''
                @ attempt_id example_logs_params)) [] = Inr ?a
          \<and> py_get ?a (ascii ''taskAttempt'') (JObj [])
              = Inr (JObj [(ascii ''assignedContainerId'', JStr (ascii ''container_1'')),
                           (ascii ''nodeHttpAddress'', JStr (ascii ''nm1:8042''))])
          \<and> dict_get [(ascii ''assignedContainerId'', JStr (ascii ''container_1'')),
                        (ascii ''nodeHttpAddress'', JStr (ascii ''nm1:8042''))]
                (ascii ''assignedContainerId'') JNull = JStr (ascii ''container_1'')
          \<and> ascii ''container_1'' \<noteq> []
          \<and> dict_get [(ascii ''assignedContainerId'', JStr (ascii ''container_1'')),
                        (ascii ''nodeHttpAddress'', JStr (ascii ''nm1:8042''))]
                (ascii ''nodeHttpAddress'') JNull = JStr (ascii ''nm1:8042'')
          \<and> ascii ''nm1:8042'' \<noteq> []
          \<and> http_get_json ?ev (JOBHISTORY_BASE_URL ?ev @ ascii ''/''
                @ (ascii ''mapreduce/jobs/'' @ job_id example_logs_params)) [] = Inr ?j
          \<and> py_get ?j (ascii ''job'') (JObj []) = Inr (JObj [(ascii ''user'', JStr (ascii ''hadoop''))])
          \<and> dict_get [(ascii ''user'', JStr (ascii ''hadoop''))] (ascii ''user'') JNull
              = JStr (ascii ''hadoop'')
          \<and> ascii ''hadoop'' \<noteq> []"
    by (simp add: example_urls example_upstream_simps py_get_def dict_get_def k)
  have host: "py_rsplit1_head 58 (ascii ''nm1:8042'') = ascii ''nm1''"
    by (simp add: py_rsplit1_head_def ascii_def)
  have nums: "py_str_int (- 4096) = ascii ''-4096''" "py_str_int 0 = ascii ''0''"
    by (simp_all add: py_str_int_def digits_small digits_big ascii_def)
  have u1: "LOGS_BASE_URL ?ev @ ascii ''/''
      @ (ascii ''nm1'' @ ascii '':'' @ NODEMANAGER_PORT ?ev) @ ascii ''/'' @ ascii ''container_1''
      @ ascii ''/'' @ attempt_id example_logs_params @ ascii ''/'' @ ascii ''hadoop'' @ ascii ''/''
      @ LogType_value (log_type example_logs_params) @ ascii ''/''
      @ ascii ''?start=0&start.time=0&end.time=9223372036854775807''
    = ascii ''http://jhs:19888/jobhistory/logs/nm1:8052/container_1/attempt_1_1_m_0_0/hadoop/syslog/?start=0&start.time=0&end.time=9223372036854775807''"
    by (simp add: example_env_def example_logs_params_def ascii_def)
  have u2: "LOGS_BASE_URL ?ev @ ascii ''/''
      @ (ascii ''nm1'' @ ascii '':'' @ NODEMANAGER_PORT ?ev) @ ascii ''/'' @ ascii ''container_1''
      @ ascii ''/'' @ attempt_id example_logs_params @ ascii ''/'' @ ascii ''hadoop'' @ ascii ''/''
      @ LogType_value (log_type example_logs_params) @ ascii ''/''
      @ ascii ''?start='' @ ascii ''-4096'' @ ascii ''&end='' @ ascii ''0''
    = ascii ''http://jhs:19888/jobhistory/logs/nm1:8052/container_1/attempt_1_1_m_0_0/hadoop/syslog/?start=-4096&end=0''"
    by (simp add: example_env_def example_logs_params_def ascii_def)
  have se: "start example_logs_params = - 4096" "end_pos example_logs_params = 0"
    by (simp_all add: example_logs_params_def)
  note t = log_url_construction
      [where ev = ?ev and params = example_logs_params and tr = "[]" and attempt_data = ?a
         and attempt = "[(ascii ''assignedContainerId'', JStr (ascii ''container_1'')),
                         (ascii ''nodeHttpAddress'', JStr (ascii ''nm1:8042''))]"
         and c = "ascii ''container_1''" and n = "ascii ''nm1:8042''" and job_data = ?j
         and job = "[(ascii ''user'', JStr (ascii ''hadoop''))]" and u = "ascii ''hadoop''",
       THEN conjunct2, THEN conjunct2, THEN conjunct1, THEN mp, OF pre]
  show ?thesis
    using t unfolding host se nums u1 u2 example_urls by simp
qed

subsection \<open>The rendering of counters\<close>

lemma py_split_nonempty: "py_split sep s \<noteq> []"
  by (induction s) (auto split: list.splits)

lemma py_split_no_sep: "sep \<notin> set t \<Longrightarrow> py_split sep t = [t]"
  by (induction t) auto

lemma py_split_after_sep:
  "\<exists>x y ys. py_split sep (pre @ sep # t) = x # y # ys \<and> last (y # ys) = last (py_split sep t)"
proof (induction pre)
  case Nil
  obtain y ys where "py_split sep t = y # ys"
    using py_split_nonempty [of sep t] by (cases "py_split sep t") auto
  then show ?case by simp
next
  case (Cons c pre)
  then obtain x y ys where "py_split sep (pre @ sep # t) = x # y # ys"
    and "last (y # ys) = last (py_split sep t)" by blast
  then show ?case by (cases "c = sep") auto
qed

lemma py_split_last: "sep \<notin> set t \<Longrightarrow> last (py_split sep (pre @ sep # t)) = t"
  using py_split_after_sep [of sep pre t] by (auto simp: py_split_no_sep)

lemma short_group_name_dotted:
  "46 \<notin> set t \<Longrightarrow> short_group_name (JStr (pre @ 46 # t)) = Inr (JStr t)"
  by (simp add: short_group_name_def and_then_def py_in_def py_split_last)

lemma short_group_name_plain:
  "46 \<notin> set s \<Longrightarrow> short_group_name (JStr s) = Inr (JStr s)"
  by (simp add: short_group_name_def and_then_def py_in_def)

lemma counter_groups_of_dict:
  "counter_groups_of (JObj kvs) =
     Inr (if truthy (dict_get kvs (ascii ''counterGroup'') (JArr []))
          then dict_get kvs (ascii ''counterGroup'') (JArr [])
          else if truthy (dict_get kvs (ascii ''taskCounterGroup'') (JArr []))
          then dict_get kvs (ascii ''taskCounterGroup'') (JArr [])
          else dict_get kvs (ascii ''taskAttemptCounterGroup'') (JArr []))"
  by (simp add: counter_groups_of_def and_then_def py_get_def)

lemma counter_line_total:
  assumes "(case map_of counter (ascii ''totalCounterValue'') of
              Some v \<Rightarrow> v
            | None \<Rightarrow> (case map_of counter (ascii ''value'') of Some v \<Rightarrow> v | None \<Rightarrow> JInt 0))
           = total_value"
    and "py_format_comma total_value = Inr t"
  shows "dict_get counter (ascii ''mapCounterValue'') JNull = JNull
           \<or> dict_get counter (ascii ''reduceCounterValue'') JNull = JNull \<Longrightarrow>
         counter_line ev (JObj counter) =
           Inr (ascii ''- **'' @ py_format ev (dict_get counter (ascii ''name'') (JStr (ascii ''Unknown'')))
                @ ascii ''**: '' @ t)"
    and "dict_get counter (ascii ''mapCounterValue'') JNull \<noteq> JNull \<Longrightarrow>
         dict_get counter (ascii ''reduceCounterValue'') JNull \<noteq> JNull \<Longrightarrow>
         py_format_comma (dict_get counter (ascii ''mapCounterValue'') JNull) = Inr m \<Longrightarrow>
         py_format_comma (dict_get counter (ascii ''reduceCounterValue'') JNull) = Inr r \<Longrightarrow>
         counter_line ev (JObj counter) =
           Inr (ascii ''- **'' @ py_format ev (dict_get counter (ascii ''name'') (JStr (ascii ''Unknown'')))
                @ ascii ''**: '' @ t @ ascii '' (Map: '' @ m @ ascii '', Reduce: '' @ r @ ascii '')'')"
  using assms
  by (auto simp add: counter_line_def and_then_def py_get_def dict_get_def split: option.splits)

lemma format_counters_markdown_dict:
  "format_counters_markdown ev (JObj kvs) title =
     and_then (py_iter (if truthy (dict_get kvs (ascii ''counterGroup'') (JArr []))
          then dict_get kvs (ascii ''counterGroup'') (JArr [])
          else if truthy (dict_get kvs (ascii ''taskCounterGroup'') (JArr []))
          then dict_get kvs (ascii ''taskCounterGroup'') (JArr [])
          else dict_get kvs (ascii ''taskAttemptCounterGroup'') (JArr []))) (\<lambda>gs.
     and_then (for_each (group_lines ev) gs) (\<lambda>ls.
       Inr (py_join [10] ([ascii ''# '' @ title, []] @ concat ls))))"
  by (simp add: format_counters_markdown_def counter_groups_of_dict and_then_def)

lemma group_lines_dict:
  assumes "short_group_name (dict_get grp (ascii ''counterGroupName'') (JStr (ascii ''Unknown Group'')))
           = Inr short_name"
    and "py_iter (dict_get grp (ascii ''counter'') (JArr [])) = Inr cs"
    and "for_each (counter_line ev) cs = Inr ls"
  shows "group_lines ev (JObj grp) = Inr ([ascii ''## '' @ py_format ev short_name, []] @ ls @ [[]])"
  using assms by (simp add: group_lines_def and_then_def py_get_def)

lemma comma_digits_small: "n < 1000 \<Longrightarrow> comma_digits n = digits n"
  by (simp add: comma_digits.simps)

lemma comma_digits_big:
  "1000 \<le> n \<Longrightarrow> comma_digits n =
     comma_digits (n div 1000) @ [44, 48 + n mod 1000 div 100, 48 + n mod 100 div 10, 48 + n mod 10]"
  by (subst comma_digits.simps) simp

text \<open>
  C7, as stated: the group list is the value of the first of the three keys that is
  present. The code passes over a key whose value is empty: with \<open>counterGroup\<close> present
  and empty and one group under \<open>taskCounterGroup\<close>, it renders that group, where the
  first present key gives no group at all.
\<close>

theorem counter_groups_not_first_present:
  "counter_groups_of (JObj [(ascii ''counterGroup'', JArr []),
       (ascii ''taskCounterGroup'', JArr [JObj [(ascii ''counterGroupName'', JStr (ascii ''a.B''))]])])
     = Inr (JArr [JObj [(ascii ''counterGroupName'', JStr (ascii ''a.B''))]])
   \<and> spec_counter_groups [(ascii ''counterGroup'', JArr []),
       (ascii ''taskCounterGroup'', JArr [JObj [(ascii ''counterGroupName'', JStr (ascii ''a.B''))]])]
     = JArr []"
  by (simp add: counter_groups_of_dict spec_counter_groups_def dict_get_def ascii_def)

text \<open>
  C7, amended. For every counters dict the formatter renders the title and then the groups
  of the first of \<open>counterGroup\<close>, \<open>taskCounterGroup\<close>, \<open>taskAttemptCounterGroup\<close>, in that
  order, whose value is not empty; when the first two are absent or empty it takes the
  third, and an absent key counts as the empty list. The heading of a group is its name
  when the name has no dot, and what follows the last dot otherwise. The line of a counter
  shows \<open>totalCounterValue\<close> when that key is present, else \<open>value\<close> when that is present,
  else 0, with commas between groups of three digits; the map and the reduce value follow
  in parentheses exactly when neither is absent or null.
\<close>

theorem format_counters_markdown_groups_and_lines:
  "format_counters_markdown ev (JObj kvs) title =
     and_then (py_iter (if truthy (dict_get kvs (ascii ''counterGroup'') (JArr []))
          then dict_get kvs (ascii ''counterGroup'') (JArr [])
          else if truthy (dict_get kvs (ascii ''taskCounterGroup'') (JArr []))
          then dict_get kvs (ascii ''taskCounterGroup'') (JArr [])
          else dict_get kvs (ascii ''taskAttemptCounterGroup'') (JArr []))) (\<lambda>gs.
     and_then (for_each (group_lines ev) gs) (\<lambda>ls.
       Inr (py_join [10] ([ascii ''# '' @ title, []] @ concat ls))))
   \<and> (46 \<notin> set s \<longrightarrow> short_group_name (JStr s) = Inr (JStr s))
   \<and> (46 \<notin> set t \<longrightarrow> short_group_name (JStr (pre @ 46 # t)) = Inr (JStr t))
   \<and> (short_group_name (dict_get grp (ascii ''counterGroupName'') (JStr (ascii ''Unknown Group'')))
          = Inr short_name
        \<and> py_iter (dict_get grp (ascii ''counter'') (JArr [])) = Inr cs
        \<and> for_each (counter_line ev) cs = Inr ls \<longrightarrow>
        group_lines ev (JObj grp) = Inr ([ascii ''## '' @ py_format ev short_name, []] @ ls @ [[]]))
   \<and> (py_format_comma
          (case map_of counter (ascii ''totalCounterValue'') of
             Some v \<Rightarrow> v
           | None \<Rightarrow> (case map_of counter (ascii ''value'') of Some v \<Rightarrow> v | None \<Rightarrow> JInt 0))
          = Inr shown
        \<and> (dict_get counter (ascii ''mapCounterValue'') JNull = JNull
             \<or> dict_get counter (ascii ''reduceCounterValue'') JNull = JNull) \<longrightarrow>
        counter_line ev (JObj counter) =
          Inr (ascii ''- **'' @ py_format ev (dict_get counter (ascii ''name'') (JStr (ascii ''Unknown'')))
               @ ascii ''**: '' @ shown))
   \<and> (py_format_comma
          (case map_of counter (ascii ''totalCounterValue'') of
             Some v \<Rightarrow> v
           | None \<Rightarrow> (case map_of counter (ascii ''value'') of Some v \<Rightarrow> v | None \<Rightarrow> JInt 0))
          = Inr shown
        \<and> dict_get counter (ascii ''mapCounterValue'') JNull \<noteq> JNull
        \<and> dict_get counter (ascii ''reduceCounterValue'') JNull \<noteq> JNull
        \<and> py_format_comma (dict_get counter (ascii ''mapCounterValue'') JNull) = Inr m
        \<and> py_format_comma (dict_get counter (ascii ''reduceCounterValue'') JNull) = Inr r \<longrightarrow>
        counter_line ev (JObj counter) =
          Inr (ascii ''- **'' @ py_format ev (dict_get counter (ascii ''name'') (JStr (ascii ''Unknown'')))
               @ ascii ''**: '' @ shown @ ascii '' (Map: '' @ m @ ascii '', Reduce: '' @ r @ ascii '')''))"
  using format_counters_markdown_dict [of ev kvs title]
    short_group_name_plain [of s] short_group_name_dotted [of t pre]
    group_lines_dict [of grp short_name cs ev ls]
    counter_line_total(1) [OF refl, of counter shown ev]
    counter_line_total(2) [OF refl, of counter shown m r ev]
  by (intro conjI impI) blast+

text \<open>
  A response with \<open>counterGroup\<close> empty and one group under \<open>taskCounterGroup\<close>, whose name
  is a Java class name and which has a counter with the three values and a counter with
  the generic \<open>value\<close> only.
\<close>

theorem format_counters_markdown_groups_and_lines_witness:
  "short_group_name (JStr (ascii ''org.apache.hadoop.mapreduce.FileSystemCounter''))
     = Inr (JStr (ascii ''FileSystemCounter''))
   \<and> short_group_name (JStr (ascii ''Shuffle Errors'')) = Inr (JStr (ascii ''Shuffle Errors''))
   \<and> format_counters_markdown (example_env (\<lambda>url q. Inl ConnectError) (\<lambda>url. Inl ConnectError))
       (JObj [(ascii ''counterGroup'', JArr []),
              (ascii ''taskCounterGroup'', JArr
                 [JObj [(ascii ''counterGroupName'',
                           JStr (ascii ''org.apache.hadoop.mapreduce.FileSystemCounter'')),
                        (ascii ''counter'', JArr
                           [JObj [(ascii ''name'', JStr (ascii ''FILE_BYTES_READ'')),
                                  (ascii ''totalCounterValue'', JInt 2483),
                                  (ascii ''mapCounterValue'', JInt 0),
                                  (ascii ''reduceCounterValue'', JInt 2483)],
                            JObj [(ascii ''name'', JStr (ascii ''HDFS_BYTES_READ'')),
                                  (ascii ''value'', JInt 1234567)]])]])])
       (ascii ''T'')
     = Inr (ascii ''# T'' @ [10, 10] @ ascii ''## FileSystemCounter'' @ [10, 10]
            @ ascii ''- **FILE_BYTES_READ**: 2,483 (Map: 0, Reduce: 2,483)'' @ [10]
            @ ascii ''- **HDFS_BYTES_READ**: 1,234,567'' @ [10])"
proof -
  let ?ev = "example_env (\<lambda>url q. Inl ConnectError) (\<lambda>url. Inl ConnectError)"
  let ?c1 = "[(ascii ''name'', JStr (ascii ''FILE_BYTES_READ'')),
              (ascii ''totalCounterValue'', JInt 2483),
              (ascii ''mapCounterValue'', JInt 0),
              (ascii ''reduceCounterValue'', JInt 2483)]"
  let ?c2 = "[(ascii ''name'', JStr (ascii ''HDFS_BYTES_READ'')), (ascii ''value'', JInt 1234567)]"
  let ?g = "[(ascii ''counterGroupName'', JStr (ascii ''org.apache.hadoop.mapreduce.FileSystemCounter'')),
             (ascii ''counter'', JArr [JObj ?c1, JObj ?c2])]"
  let ?kvs = "[(ascii ''counterGroup'', JArr []), (ascii ''taskCounterGroup'', JArr [JObj ?g])]"
  note T = format_counters_markdown_groups_and_lines
  have n: "py_format_comma (JInt 2483) = Inr (ascii ''2,483'')"
    "py_format_comma (JInt 0) = Inr (ascii ''0'')"
    "py_format_comma (JInt 1234567) = Inr (ascii ''1,234,567'')"
    by (simp_all add: py_format_comma_def comma_digits_small comma_digits_big digits_small
        digits_big ascii_def)
  have w1: "short_group_name (JStr (ascii ''org.apache.hadoop.mapreduce.FileSystemCounter''))
     = Inr (JStr (ascii ''FileSystemCounter''))"
    using T [where t = "ascii ''FileSystemCounter''" and pre = "ascii ''org.apache.hadoop.mapreduce''",
        THEN conjunct2, THEN conjunct2, THEN conjunct1]
    by (simp add: ascii_def)
  have w2: "short_group_name (JStr (ascii ''Shuffle Errors'')) = Inr (JStr (ascii ''Shuffle Errors''))"
    using T [where s = "ascii ''Shuffle Errors''", THEN conjunct2, THEN conjunct1]
    by (simp add: ascii_def)
  have l1: "counter_line ?ev (JObj ?c1)
     = Inr (ascii ''- **FILE_BYTES_READ**: 2,483 (Map: 0, Reduce: 2,483)'')"
    using T [where ev = ?ev and counter = ?c1 and shown = "ascii ''2,483''" and m = "ascii ''0''"
        and r = "ascii ''2,483''",
        THEN conjunct2, THEN conjunct2, THEN conjunct2, THEN conjunct2, THEN conjunct2]
    by (simp add: n dict_get_def py_format_def ascii_def)
  have l2: "counter_line ?ev (JObj ?c2) = Inr (ascii ''- **HDFS_BYTES_READ**: 1,234,567'')"
    using T [where ev = ?ev and counter = ?c2 and shown = "ascii ''1,234,567''",
        THEN conjunct2, THEN conjunct2, THEN conjunct2, THEN conjunct2, THEN conjunct1]
    by (simp add: n dict_get_def py_format_def ascii_def)
  have k: "ascii ''counter'' \<noteq> ascii ''counterGroupName''"
    by (simp add: ascii_def)
  have sn: "short_group_name (dict_get ?g (ascii ''counterGroupName'') (JStr (ascii ''Unknown Group'')))
      = Inr (JStr (ascii ''FileSystemCounter''))"
    by (simp add: dict_get_def w1)
  have it: "py_iter (dict_get ?g (ascii ''counter'') (JArr [])) = Inr [JObj ?c1, JObj ?c2]"
    by (simp add: dict_get_def k py_iter_def)
  have fe: "for_each (counter_line ?ev) [JObj ?c1, JObj ?c2]
      = Inr [ascii ''- **FILE_BYTES_READ**: 2,483 (Map: 0, Reduce: 2,483)'',
             ascii ''- **HDFS_BYTES_READ**: 1,234,567'']"
    by (simp add: l1 l2)
  have hd: "ascii ''## '' @ py_format ?ev (JStr (ascii ''FileSystemCounter''))
      = ascii ''## FileSystemCounter''"
    by (simp add: py_format_def ascii_def)
  have g: "group_lines ?ev (JObj ?g)
     = Inr [ascii ''## FileSystemCounter'', [],
            ascii ''- **FILE_BYTES_READ**: 2,483 (Map: 0, Reduce: 2,483)'',
            ascii ''- **HDFS_BYTES_READ**: 1,234,567'', []]"
    using T [where ev = ?ev and grp = ?g and short_name = "JStr (ascii ''FileSystemCounter'')"
        and cs = "[JObj ?c1, JObj ?c2]"
        and ls = "[ascii ''- **FILE_BYTES_READ**: 2,483 (Map: 0, Reduce: 2,483)'',
                   ascii ''- **HDFS_BYTES_READ**: 1,234,567'']",
        THEN conjunct2, THEN conjunct2, THEN conjunct2, THEN conjunct1, THEN mp,
        OF conjI [OF sn conjI [OF it fe]]]
    by (simp only: hd append.simps)
  have ch: "dict_get ?kvs (ascii ''counterGroup'') (JArr []) = JArr []"
    "dict_get ?kvs (ascii ''taskCounterGroup'') (JArr []) = JArr [JObj ?g]"
    by (simp_all add: dict_get_def ascii_def)
  have w3: "format_counters_markdown ?ev (JObj ?kvs) (ascii ''T'')
     = Inr (ascii ''# T'' @ [10, 10] @ ascii ''## FileSystemCounter'' @ [10, 10]
            @ ascii ''- **FILE_BYTES_READ**: 2,483 (Map: 0, Reduce: 2,483)'' @ [10]
            @ ascii ''- **HDFS_BYTES_READ**: 1,234,567'' @ [10])"
    unfolding T [where ev = ?ev and kvs = ?kvs and title = "ascii ''T''", THEN conjunct1] ch
    apply (simp add: py_iter_def and_then_def g)
    apply (simp add: ascii_def)
    done
  from w1 w2 w3 show ?thesis by blast
qed

subsection \<open>Errors at the boundary of a tool\<close>

lemma conj_drop8:
  "A1 \<and> A2 \<and> A3 \<and> A4 \<and> A5 \<and> A6 \<and> A7 \<and> A8 \<and> R \<Longrightarrow> R"
  by simp

lemma tool_returns: "\<exists>s. fst (guarded ev body tr) = Inr s"
  by (cases "fst (body tr)") (simp_all add: guarded_fst)

lemma log_tools_raise:
  assumes "fst (locate_log ev params tr) = Inl e"
  shows "fst (jobhistory_get_task_attempt_logs ev params tr) = Inr (handle_error ev e)"
    and "fst (jobhistory_get_task_attempt_logs_partial ev params tr) = Inr (handle_error ev e)"
  using assms
  by (cases "locate_log ev params tr";
      simp add: jobhistory_get_task_attempt_logs_def jobhistory_get_task_attempt_logs_partial_def
        guarded_fst jobhistory_get_task_attempt_logs_body_def
        jobhistory_get_task_attempt_logs_partial_body_def io_bind_def)+

lemma log_tools_first_request_fails:
  assumes "http_get_json ev (JOBHISTORY_BASE_URL ev @ ascii ''/''
             @ (ascii ''mapreduce/jobs/'' @ job_id params @ ascii ''/tasks/'' @ task_id params
                @ ascii ''/attempts/'' @ attempt_id params)) [] = Inl e"
  shows "fst (jobhistory_get_task_attempt_logs ev params tr) = Inr (handle_error ev e)
    \<and> fst (jobhistory_get_task_attempt_logs_partial ev params tr) = Inr (handle_error ev e)"
proof -
  from assms have "fst (locate_log ev params tr) = Inl e"
    by (simp add: locate_log_def io_bind_make_request)
  then show ?thesis by (simp add: log_tools_raise)
qed

lemma log_tools_second_request_fails:
  assumes "http_get_json ev (JOBHISTORY_BASE_URL ev @ ascii ''/''
             @ (ascii ''mapreduce/jobs/'' @ job_id params @ ascii ''/tasks/'' @ task_id params
                @ ascii ''/attempts/'' @ attempt_id params)) [] = Inr attempt_data
      \<and> py_get attempt_data (ascii ''taskAttempt'') (JObj []) = Inr (JObj attempt)
      \<and> truthy (dict_get attempt (ascii ''assignedContainerId'') JNull)
      \<and> truthy (dict_get attempt (ascii ''nodeHttpAddress'') JNull)
      \<and> http_get_json ev (JOBHISTORY_BASE_URL ev @ ascii ''/''
             @ (ascii ''mapreduce/jobs/'' @ job_id params)) [] = Inl e"
  shows "fst (jobhistory_get_task_attempt_logs ev params tr) = Inr (handle_error ev e)
    \<and> fst (jobhistory_get_task_attempt_logs_partial ev params tr) = Inr (handle_error ev e)"
proof -
  from assms have "fst (locate_log ev params tr) = Inl e"
    by (simp add: locate_log_def io_bind_make_request io_bind_lift py_get_def)
  then show ?thesis by (simp add: log_tools_raise)
qed

lemma full_fetch_fails:
  assumes "locate_log ev params tr
             = (Inr (Inr (Located container_id node_manager job_user)), tr')
      \<and> http_get_text ev
            (LOGS_BASE_URL ev @ ascii ''/'' @ node_manager @ ascii ''/'' @ py_format ev container_id
             @ ascii ''/'' @ attempt_id params @ ascii ''/'' @ py_format ev job_user @ ascii ''/''
             @ LogType_value (log_type params) @ ascii ''/''
             @ ascii ''?start=0&start.time=0&end.time=9223372036854775807'') = Inl e"
  shows "fst (jobhistory_get_task_attempt_logs ev params tr) = Inr (handle_error ev e)"
  using assms
  by (simp add: jobhistory_get_task_attempt_logs_def guarded_fst
      jobhistory_get_task_attempt_logs_body_def io_bind_def [of "locate_log ev params"]
      io_bind_fetch Let_def)

lemma partial_fetch_fails:
  assumes "locate_log ev params tr
             = (Inr (Inr (Located container_id node_manager job_user)), tr')
      \<and> http_get_text ev
            (LOGS_BASE_URL ev @ ascii ''/'' @ node_manager @ ascii ''/'' @ py_format ev container_id
             @ ascii ''/'' @ attempt_id params @ ascii ''/'' @ py_format ev job_user @ ascii ''/''
             @ LogType_value (log_type params) @ ascii ''/''
             @ ascii ''?start='' @ py_str_int (start params)
             @ ascii ''&end='' @ py_str_int (end_pos params)) = Inl e"
  shows "fst (jobhistory_get_task_attempt_logs_partial ev params tr) = Inr (handle_error ev e)"
  using assms
  by (simp add: jobhistory_get_task_attempt_logs_partial_def guarded_fst
      jobhistory_get_task_attempt_logs_partial_body_def io_bind_def [of "locate_log ev params"]
      io_bind_fetch Let_def)

text \<open>
  C3. Every one of the fourteen tools is its body inside \<open>guarded\<close>, so it returns a
  string and never raises: whatever exception \<open>e\<close> the body meets, the string is
  \<open>_handle_error(e)\<close>. For each tool, an exception \<open>e\<close> of its first upstream request
  reaches \<open>_handle_error\<close> unchanged and the tool returns that message; for the two log
  tools the same holds when the second request (the detail of the job) raises, and when
  the fetch of the log page raises after both lookups went well. An exception of the body
  itself is treated alike: when the upstream answers \<open>jobhistory_get_job\<close> with a list
  instead of an object, the tool returns the message of the \<open>AttributeError\<close>. For an HTTP
  status error the message is the fixed one of 404, 403, 401, 500 or 503, and for every
  other code the generic sentence with the code in decimal in it; a timeout and a failed
  connection have their own sentences, and every other exception gives its class name and
  its text.
\<close>

theorem tools_return_diagnostics:
  fixes params_logs :: "'a GetTaskAttemptLogsPartialInput_scheme"
  shows
    "(\<exists>s. fst (guarded ev body tr) = Inr s)
     \<and> (fst (body tr) = Inl e \<longrightarrow> fst (guarded ev body tr) = Inr (handle_error ev e))
     \<and> (\<exists>s. fst (jobhistory_get_info ev tr) = Inr s)
     \<and> (\<exists>s. fst (jobhistory_list_jobs ev params_list tr) = Inr s)
     \<and> (\<exists>s. fst (jobhistory_get_job ev params_job tr) = Inr s)
     \<and> (\<exists>s. fst (jobhistory_get_job_counters ev params_jc tr) = Inr s)
     \<and> (\<exists>s. fst (jobhistory_get_job_conf ev params_conf tr) = Inr s)
     \<and> (\<exists>s. fst (jobhistory_get_job_attempts ev params_ja tr) = Inr s)
     \<and> (\<exists>s. fst (jobhistory_list_tasks ev params_lt tr) = Inr s)
     \<and> (\<exists>s. fst (jobhistory_get_task ev params_task tr) = Inr s)
     \<and> (\<exists>s. fst (jobhistory_get_task_counters ev params_tc tr) = Inr s)
     \<and> (\<exists>s. fst (jobhistory_list_task_attempts ev params_lta tr) = Inr s)
     \<and> (\<exists>s. fst (jobhistory_get_task_attempt ev params_ta tr) = Inr s)
     \<and> (\<exists>s. fst (jobhistory_get_task_attempt_counters ev params_tac tr) = Inr s)
     \<and> (\<exists>s. fst (jobhistory_get_task_attempt_logs ev params_logs tr) = Inr s)
     \<and> (\<exists>s. fst (jobhistory_get_task_attempt_logs_partial ev params_logs tr) = Inr s)
     \<and> (fst (jobhistory_get_info_body ev tr) = Inl e \<longrightarrow>
        fst (jobhistory_get_info ev tr) = Inr (handle_error ev e))
     \<and> (fst (jobhistory_list_jobs_body ev params_list tr) = Inl e \<longrightarrow>
        fst (jobhistory_list_jobs ev params_list tr) = Inr (handle_error ev e))
     \<and> (fst (jobhistory_get_job_body ev params_job tr) = Inl e \<longrightarrow>
        fst (jobhistory_get_job ev params_job tr) = Inr (handle_error ev e))
     \<and> (fst (counters_tool_body ev (response_format params_jc)
            (ascii ''mapreduce/jobs/'' @ job_id params_jc @ ascii ''/counters'')
            (ascii ''jobCounters'') (word_job @ word_counters @ ascii '': '') (job_id params_jc) tr) = Inl e \<longrightarrow>
        fst (jobhistory_get_job_counters ev params_jc tr) = Inr (handle_error ev e))
     \<and> (fst (jobhistory_get_job_conf_body ev params_conf tr) = Inl e \<longrightarrow>
        fst (jobhistory_get_job_conf ev params_conf tr) = Inr (handle_error ev e))
     \<and> (fst (jobhistory_get_job_attempts_body ev params_ja tr) = Inl e \<longrightarrow>
        fst (jobhistory_get_job_attempts ev params_ja tr) = Inr (handle_error ev e))
     \<and> (fst (jobhistory_list_tasks_body ev params_lt tr) = Inl e \<longrightarrow>
        fst (jobhistory_list_tasks ev params_lt tr) = Inr (handle_error ev e))
     \<and> (fst (jobhistory_get_task_body ev params_task tr) = Inl e \<longrightarrow>
        fst (jobhistory_get_task ev params_task tr) = Inr (handle_error ev e))
     \<and> (fst (counters_tool_body ev (response_format params_tc)
            (ascii ''mapreduce/jobs/'' @ job_id params_tc @ ascii ''/tasks/'' @ task_id params_tc
             @ ascii ''/counters'')
            (ascii ''jobTaskCounters'') (word_task @ word_counters @ ascii '': '') (task_id params_tc) tr) = Inl e \<longrightarrow>
        fst (jobhistory_get_task_counters ev params_tc tr) = Inr (handle_error ev e))
     \<and> (fst (jobhistory_list_task_attempts_body ev params_lta tr) = Inl e \<longrightarrow>
        fst (jobhistory_list_task_attempts ev params_lta tr) = Inr (handle_error ev e))
     \<and> (fst (jobhistory_get_task_attempt_body ev params_ta tr) = Inl e \<longrightarrow>
        fst (jobhistory_get_task_attempt ev params_ta tr) = Inr (handle_error ev e))
     \<and> (fst (counters_tool_body ev (response_format params_tac)
            (ascii ''mapreduce/jobs/'' @ job_id params_tac @ ascii ''/tasks/'' @ task_id params_tac
             @ ascii ''/attempts/'' @ attempt_id params_tac @ ascii ''/counters'')
            (ascii ''jobTaskAttemptCounters'')
            (word_task @ word_attempt @ word_counters @ ascii '': '') (attempt_id params_tac) tr) = Inl e \<longrightarrow>
        fst (jobhistory_get_task_attempt_counters ev params_tac tr) = Inr (handle_error ev e))
     \<and> (fst (jobhistory_get_task_attempt_logs_body ev params_logs tr) = Inl e \<longrightarrow>
        fst (jobhistory_get_task_attempt_logs ev params_logs tr) = Inr (handle_error ev e))
     \<and> (fst (jobhistory_get_task_attempt_logs_partial_body ev params_logs tr) = Inl e \<longrightarrow>
        fst (jobhistory_get_task_attempt_logs_partial ev params_logs tr) = Inr (handle_error ev e))
     \<and> (http_get_json ev
          (JOBHISTORY_BASE_URL ev @ ascii ''/''
            @ ascii ''info'')
          [] = Inl e \<longrightarrow>
        fst (jobhistory_get_info ev tr) = Inr (handle_error ev e))
     \<and> (http_get_json ev
          (JOBHISTORY_BASE_URL ev @ ascii ''/''
            @ ascii ''mapreduce/jobs'')
          (list_jobs_query_params params_list) = Inl e \<longrightarrow>
        fst (jobhistory_list_jobs ev params_list tr) = Inr (handle_error ev e))
     \<and> (http_get_json ev
          (JOBHISTORY_BASE_URL ev @ ascii ''/''
            @ (ascii ''mapreduce/jobs/'' @ job_id params_job))
          [] = Inl e \<longrightarrow>
        fst (jobhistory_get_job ev params_job tr) = Inr (handle_error ev e))
     \<and> (http_get_json ev
          (JOBHISTORY_BASE_URL ev @ ascii ''/''
            @ (ascii ''mapreduce/jobs/'' @ job_id params_jc @ ascii ''/counters''))
          [] = Inl e \<longrightarrow>
        fst (jobhistory_get_job_counters ev params_jc tr) = Inr (handle_error ev e))
     \<and> (http_get_json ev
          (JOBHISTORY_BASE_URL ev @ ascii ''/''
            @ (ascii ''mapreduce/jobs/'' @ job_id params_conf @ ascii ''/conf''))
          [] = Inl e \<longrightarrow>
        fst (jobhistory_get_job_conf ev params_conf tr) = Inr (handle_error ev e))
     \<and> (http_get_json ev
          (JOBHISTORY_BASE_URL ev @ ascii ''/''
            @ (ascii ''mapreduce/jobs/'' @ job_id params_ja @ ascii ''/jobattempts''))
          [] = Inl e \<longrightarrow>
        fst (jobhistory_get_job_attempts ev params_ja tr) = Inr (handle_error ev e))
     \<and> (http_get_json ev
          (JOBHISTORY_BASE_URL ev @ ascii ''/''
            @ (ascii ''mapreduce/jobs/'' @ job_id params_lt @ ascii ''/tasks''))
          (list_tasks_query_params params_lt) = Inl e \<longrightarrow>
        fst (jobhistory_list_tasks ev params_lt tr) = Inr (handle_error ev e))
     \<and> (http_get_json ev
          (JOBHISTORY_BASE_URL ev @ ascii ''/''
            @ (ascii ''mapreduce/jobs/'' @ job_id params_task @ ascii ''/tasks/'' @ task_id params_task))
          [] = Inl e \<longrightarrow>
        fst (jobhistory_get_task ev params_task tr) = Inr (handle_error ev e))
     \<and> (http_get_json ev
          (JOBHISTORY_BASE_URL ev @ ascii ''/''
            @ (ascii ''mapreduce/jobs/'' @ job_id params_tc @ ascii ''/tasks/'' @ task_id params_tc @ ascii ''/counters''))
          [] = Inl e \<longrightarrow>
        fst (jobhistory_get_task_counters ev params_tc tr) = Inr (handle_error ev e))
     \<and> (http_get_json ev
          (JOBHISTORY_BASE_URL ev @ ascii ''/''
            @ (ascii ''mapreduce/jobs/'' @ job_id params_lta @ ascii ''/tasks/'' @ task_id params_lta @ ascii ''/attempts''))
          [] = Inl e \<longrightarrow>
        fst (jobhistory_list_task_attempts ev params_lta tr) = Inr (handle_error ev e))
     \<and> (http_get_json ev
          (JOBHISTORY_BASE_URL ev @ ascii ''/''
            @ (ascii ''mapreduce/jobs/'' @ job_id params_ta @ ascii ''/tasks/'' @ task_id params_ta @ ascii ''/attempts/'' @ attempt_id params_ta))
          [] = Inl e \<longrightarrow>
        fst (jobhistory_get_task_attempt ev params_ta tr) = Inr (handle_error ev e))
     \<and> (http_get_json ev
          (JOBHISTORY_BASE_URL ev @ ascii ''/''
            @ (ascii ''mapreduce/jobs/'' @ job_id params_tac @ ascii ''/tasks/'' @ task_id params_tac @ ascii ''/attempts/'' @ attempt_id params_tac @ ascii ''/counters''))
          [] = Inl e \<longrightarrow>
        fst (jobhistory_get_task_attempt_counters ev params_tac tr) = Inr (handle_error ev e))
     \<and> (http_get_json ev
          (JOBHISTORY_BASE_URL ev @ ascii ''/''
            @ (ascii ''mapreduce/jobs/'' @ job_id params_logs @ ascii ''/tasks/'' @ task_id params_logs @ ascii ''/attempts/'' @ attempt_id params_logs))
          [] = Inl e \<longrightarrow>
        fst (jobhistory_get_task_attempt_logs ev params_logs tr) = Inr (handle_error ev e))
     \<and> (http_get_json ev
          (JOBHISTORY_BASE_URL ev @ ascii ''/''
            @ (ascii ''mapreduce/jobs/'' @ job_id params_logs @ ascii ''/tasks/'' @ task_id params_logs @ ascii ''/attempts/'' @ attempt_id params_logs))
          [] = Inl e \<longrightarrow>
        fst (jobhistory_get_task_attempt_logs_partial ev params_logs tr) = Inr (handle_error ev e))
     \<and> (http_get_json ev (JOBHISTORY_BASE_URL ev @ ascii ''/''
            @ (ascii ''mapreduce/jobs/'' @ job_id params_logs @ ascii ''/tasks/'' @ task_id params_logs @ ascii ''/attempts/'' @ attempt_id params_logs)) [] = Inr attempt_data
      \<and> py_get attempt_data (ascii ''taskAttempt'') (JObj []) = Inr (JObj attempt)
      \<and> truthy (dict_get attempt (ascii ''assignedContainerId'') JNull)
      \<and> truthy (dict_get attempt (ascii ''nodeHttpAddress'') JNull)
      \<and> http_get_json ev (JOBHISTORY_BASE_URL ev @ ascii ''/''
            @ (ascii ''mapreduce/jobs/'' @ job_id params_logs)) [] = Inl e \<longrightarrow>
        fst (jobhistory_get_task_attempt_logs ev params_logs tr) = Inr (handle_error ev e)
        \<and> fst (jobhistory_get_task_attempt_logs_partial ev params_logs tr) = Inr (handle_error ev e))
     \<and> (locate_log ev params_logs tr = (Inr (Inr (Located container_id node_manager job_user)), tr')
      \<and> http_get_text ev
            (LOGS_BASE_URL ev @ ascii ''/'' @ node_manager @ ascii ''/'' @ py_format ev container_id
             @ ascii ''/'' @ attempt_id params_logs @ ascii ''/'' @ py_format ev job_user @ ascii ''/''
             @ LogType_value (log_type params_logs) @ ascii ''/''
             @ ascii ''?start=0&start.time=0&end.time=9223372036854775807'') = Inl e \<longrightarrow>
        fst (jobhistory_get_task_attempt_logs ev params_logs tr) = Inr (handle_error ev e))
     \<and> (locate_log ev params_logs tr = (Inr (Inr (Located container_id node_manager job_user)), tr')
      \<and> http_get_text ev
            (LOGS_BASE_URL ev @ ascii ''/'' @ node_manager @ ascii ''/'' @ py_format ev container_id
             @ ascii ''/'' @ attempt_id params_logs @ ascii ''/'' @ py_format ev job_user @ ascii ''/''
             @ LogType_value (log_type params_logs) @ ascii ''/''
             @ ascii ''?start='' @ py_str_int (start params_logs)
             @ ascii ''&end='' @ py_str_int (end_pos params_logs)) = Inl e \<longrightarrow>
        fst (jobhistory_get_task_attempt_logs_partial ev params_logs tr) = Inr (handle_error ev e))
     \<and> (http_get_json ev (JOBHISTORY_BASE_URL ev @ ascii ''/''
            @ (ascii ''mapreduce/jobs/'' @ job_id params_job)) [] = Inr (JArr xs) \<longrightarrow>
        fst (jobhistory_get_job ev params_job tr) = Inr (handle_error ev AttributeError))
     \<and> (handle_error ev (HTTPStatusError 404) = msg_404)
     \<and> (handle_error ev (HTTPStatusError 403) = msg_403)
     \<and> (handle_error ev (HTTPStatusError 401) = msg_401)
     \<and> (handle_error ev (HTTPStatusError 500) = msg_500)
     \<and> (handle_error ev (HTTPStatusError 503) = msg_503)
     \<and> (c \<notin> {404, 403, 401, 500, 503} \<longrightarrow>
        handle_error ev (HTTPStatusError c) = msg_http_prefix @ py_str_int c @ [12290])
     \<and> (handle_error ev TimeoutException = msg_timeout_prefix @ REQUEST_TIMEOUT ev @ msg_timeout_suffix)
     \<and> (handle_error ev ConnectError = msg_connect_prefix @ JOBHISTORY_BASE_URL ev @ msg_connect_suffix)
     \<and> ((\<forall>c. other \<noteq> HTTPStatusError c) \<and> other \<noteq> TimeoutException \<and> other \<noteq> ConnectError \<longrightarrow>
        handle_error ev other = msg_error_prefix @ exc_name other @ ascii '' - '' @ exc_str ev other)"
proof -
  have g0: "\<exists>s. fst (guarded ev body tr) = Inr s"
    by (cases "fst (body tr)") (simp_all add: guarded_fst)
  have g1: "fst (body tr) = Inl e \<longrightarrow> fst (guarded ev body tr) = Inr (handle_error ev e)"
    by (simp add: guarded_fst)
  have r0: "\<exists>s. fst (jobhistory_get_info ev tr) = Inr s"
    unfolding jobhistory_get_info_def by (rule tool_returns)
  have r1: "\<exists>s. fst (jobhistory_list_jobs ev params_list tr) = Inr s"
    unfolding jobhistory_list_jobs_def by (rule tool_returns)
  have r2: "\<exists>s. fst (jobhistory_get_job ev params_job tr) = Inr s"
    unfolding jobhistory_get_job_def by (rule tool_returns)
  have r3: "\<exists>s. fst (jobhistory_get_job_counters ev params_jc tr) = Inr s"
    unfolding jobhistory_get_job_counters_def by (rule tool_returns)
  have r4: "\<exists>s. fst (jobhistory_get_job_conf ev params_conf tr) = Inr s"
    unfolding jobhistory_get_job_conf_def by (rule tool_returns)
  have r5: "\<exists>s. fst (jobhistory_get_job_attempts ev params_ja tr) = Inr s"
    unfolding jobhistory_get_job_attempts_def by (rule tool_returns)
  have r6: "\<exists>s. fst (jobhistory_list_tasks ev params_lt tr) = Inr s"
    unfolding jobhistory_list_tasks_def by (rule tool_returns)
  have r7: "\<exists>s. fst (jobhistory_get_task ev params_task tr) = Inr s"
    unfolding jobhistory_get_task_def by (rule tool_returns)
  have r8: "\<exists>s. fst (jobhistory_get_task_counters ev params_tc tr) = Inr s"
    unfolding jobhistory_get_task_counters_def by (rule tool_returns)
  have r9: "\<exists>s. fst (jobhistory_list_task_attempts ev params_lta tr) = Inr s"
    unfolding jobhistory_list_task_attempts_def by (rule tool_returns)
  have r10: "\<exists>s. fst (jobhistory_get_task_attempt ev params_ta tr) = Inr s"
    unfolding jobhistory_get_task_attempt_def by (rule tool_returns)
  have r11: "\<exists>s. fst (jobhistory_get_task_attempt_counters ev params_tac tr) = Inr s"
    unfolding jobhistory_get_task_attempt_counters_def by (rule tool_returns)
  have r12: "\<exists>s. fst (jobhistory_get_task_attempt_logs ev params_logs tr) = Inr s"
    unfolding jobhistory_get_task_attempt_logs_def by (rule tool_returns)
  have r13: "\<exists>s. fst (jobhistory_get_task_attempt_logs_partial ev params_logs tr) = Inr s"
    unfolding jobhistory_get_task_attempt_logs_partial_def by (rule tool_returns)
  have x0: "fst (jobhistory_get_info_body ev tr) = Inl e \<longrightarrow>
        fst (jobhistory_get_info ev tr) = Inr (handle_error ev e)"
    by (simp add: jobhistory_get_info_def guarded_fst)
  have x1: "fst (jobhistory_list_jobs_body ev params_list tr) = Inl e \<longrightarrow>
        fst (jobhistory_list_jobs ev params_list tr) = Inr (handle_error ev e)"
    by (simp add: jobhistory_list_jobs_def guarded_fst)
  have x2: "fst (jobhistory_get_job_body ev params_job tr) = Inl e \<longrightarrow>
        fst (jobhistory_get_job ev params_job tr) = Inr (handle_error ev e)"
    by (simp add: jobhistory_get_job_def guarded_fst)
  have x3: "fst (counters_tool_body ev (response_format params_jc)
            (ascii ''mapreduce/jobs/'' @ job_id params_jc @ ascii ''/counters'')
            (ascii ''jobCounters'') (word_job @ word_counters @ ascii '': '') (job_id params_jc) tr) = Inl e \<longrightarrow>
        fst (jobhistory_get_job_counters ev params_jc tr) = Inr (handle_error ev e)"
    by (simp add: jobhistory_get_job_counters_def guarded_fst)
  have x4: "fst (jobhistory_get_job_conf_body ev params_conf tr) = Inl e \<longrightarrow>
        fst (jobhistory_get_job_conf ev params_conf tr) = Inr (handle_error ev e)"
    by (simp add: jobhistory_get_job_conf_def guarded_fst)
  have x5: "fst (jobhistory_get_job_attempts_body ev params_ja tr) = Inl e \<longrightarrow>
        fst (jobhistory_get_job_attempts ev params_ja tr) = Inr (handle_error ev e)"
    by (simp add: jobhistory_get_job_attempts_def guarded_fst)
  have x6: "fst (jobhistory_list_tasks_body ev params_lt tr) = Inl e \<longrightarrow>
        fst (jobhistory_list_tasks ev params_lt tr) = Inr (handle_error ev e)"
    by (simp add: jobhistory_list_tasks_def guarded_fst)
  have x7: "fst (jobhistory_get_task_body ev params_task tr) = Inl e \<longrightarrow>
        fst (jobhistory_get_task ev params_task tr) = Inr (handle_error ev e)"
    by (simp add: jobhistory_get_task_def guarded_fst)
  have x8: "fst (counters_tool_body ev (response_format params_tc)
            (ascii ''mapreduce/jobs/'' @ job_id params_tc @ ascii ''/tasks/'' @ task_id params_tc
             @ ascii ''/counters'')
            (ascii ''jobTaskCounters'') (word_task @ word_counters @ ascii '': '') (task_id params_tc) tr) = Inl e \<longrightarrow>
        fst (jobhistory_get_task_counters ev params_tc tr) = Inr (handle_error ev e)"
    by (simp add: jobhistory_get_task_counters_def guarded_fst)
  have x9: "fst (jobhistory_list_task_attempts_body ev params_lta tr) = Inl e \<longrightarrow>
        fst (jobhistory_list_task_attempts ev params_lta tr) = Inr (handle_error ev e)"
    by (simp add: jobhistory_list_task_attempts_def guarded_fst)
  have x10: "fst (jobhistory_get_task_attempt_body ev params_ta tr) = Inl e \<longrightarrow>
        fst (jobhistory_get_task_attempt ev params_ta tr) = Inr (handle_error ev e)"
    by (simp add: jobhistory_get_task_attempt_def guarded_fst)
  have x11: "fst (counters_tool_body ev (response_format params_tac)
            (ascii ''mapreduce/jobs/'' @ job_id params_tac @ ascii ''/tasks/'' @ task_id params_tac
             @ ascii ''/attempts/'' @ attempt_id params_tac @ ascii ''/counters'')
            (ascii ''jobTaskAttemptCounters'')
            (word_task @ word_attempt @ word_counters @ ascii '': '') (attempt_id params_tac) tr) = Inl e \<longrightarrow>
        fst (jobhistory_get_task_attempt_counters ev params_tac tr) = Inr (handle_error ev e)"
    by (simp add: jobhistory_get_task_attempt_counters_def guarded_fst)
  have x12: "fst (jobhistory_get_task_attempt_logs_body ev params_logs tr) = Inl e \<longrightarrow>
        fst (jobhistory_get_task_attempt_logs ev params_logs tr) = Inr (handle_error ev e)"
    by (simp add: jobhistory_get_task_attempt_logs_def guarded_fst)
  have x13: "fst (jobhistory_get_task_attempt_logs_partial_body ev params_logs tr) = Inl e \<longrightarrow>
        fst (jobhistory_get_task_attempt_logs_partial ev params_logs tr) = Inr (handle_error ev e)"
    by (simp add: jobhistory_get_task_attempt_logs_partial_def guarded_fst)
  have f0: "http_get_json ev
          (JOBHISTORY_BASE_URL ev @ ascii ''/''
            @ ascii ''info'')
          [] = Inl e \<longrightarrow>
        fst (jobhistory_get_info ev tr) = Inr (handle_error ev e)"
    by (simp add: jobhistory_get_info_def guarded_fst jobhistory_get_info_body_def io_bind_make_request)
  have f1: "http_get_json ev
          (JOBHISTORY_BASE_URL ev @ ascii ''/''
            @ ascii ''mapreduce/jobs'')
          (list_jobs_query_params params_list) = Inl e \<longrightarrow>
        fst (jobhistory_list_jobs ev params_list tr) = Inr (handle_error ev e)"
    by (simp add: jobhistory_list_jobs_def guarded_fst jobhistory_list_jobs_body_def io_bind_make_request)
  have f2: "http_get_json ev
          (JOBHISTORY_BASE_URL ev @ ascii ''/''
            @ (ascii ''mapreduce/jobs/'' @ job_id params_job))
          [] = Inl e \<longrightarrow>
        fst (jobhistory_get_job ev params_job tr) = Inr (handle_error ev e)"
    by (simp add: jobhistory_get_job_def guarded_fst jobhistory_get_job_body_def io_bind_make_request)
  have f3: "http_get_json ev
          (JOBHISTORY_BASE_URL ev @ ascii ''/''
            @ (ascii ''mapreduce/jobs/'' @ job_id params_jc @ ascii ''/counters''))
          [] = Inl e \<longrightarrow>
        fst (jobhistory_get_job_counters ev params_jc tr) = Inr (handle_error ev e)"
    by (simp add: jobhistory_get_job_counters_def guarded_fst counters_tool_body_def io_bind_make_request)
  have f4: "http_get_json ev
          (JOBHISTORY_BASE_URL ev @ ascii ''/''
            @ (ascii ''mapreduce/jobs/'' @ job_id params_conf @ ascii ''/conf''))
          [] = Inl e \<longrightarrow>
        fst (jobhistory_get_job_conf ev params_conf tr) = Inr (handle_error ev e)"
    by (simp add: jobhistory_get_job_conf_def guarded_fst jobhistory_get_job_conf_body_def io_bind_make_request)
  have f5: "http_get_json ev
          (JOBHISTORY_BASE_URL ev @ ascii ''/''
            @ (ascii ''mapreduce/jobs/'' @ job_id params_ja @ ascii ''/jobattempts''))
          [] = Inl e \<longrightarrow>
        fst (jobhistory_get_job_attempts ev params_ja tr) = Inr (handle_error ev e)"
    by (simp add: jobhistory_get_job_attempts_def guarded_fst jobhistory_get_job_attempts_body_def io_bind_make_request)
  have f6: "http_get_json ev
          (JOBHISTORY_BASE_URL ev @ ascii ''/''
            @ (ascii ''mapreduce/jobs/'' @ job_id params_lt @ ascii ''/tasks''))
          (list_tasks_query_params params_lt) = Inl e \<longrightarrow>
        fst (jobhistory_list_tasks ev params_lt tr) = Inr (handle_error ev e)"
    by (simp add: jobhistory_list_tasks_def guarded_fst jobhistory_list_tasks_body_def io_bind_make_request)
  have f7: "http_get_json ev
          (JOBHISTORY_BASE_URL ev @ ascii ''/''
            @ (ascii ''mapreduce/jobs/'' @ job_id params_task @ ascii ''/tasks/'' @ task_id params_task))
          [] = Inl e \<longrightarrow>
        fst (jobhistory_get_task ev params_task tr) = Inr (handle_error ev e)"
    by (simp add: jobhistory_get_task_def guarded_fst jobhistory_get_task_body_def io_bind_make_request)
  have f8: "http_get_json ev
          (JOBHISTORY_BASE_URL ev @ ascii ''/''
            @ (ascii ''mapreduce/jobs/'' @ job_id params_tc @ ascii ''/tasks/'' @ task_id params_tc @ ascii ''/counters''))
          [] = Inl e \<longrightarrow>
        fst (jobhistory_get_task_counters ev params_tc tr) = Inr (handle_error ev e)"
    by (simp add: jobhistory_get_task_counters_def guarded_fst counters_tool_body_def io_bind_make_request)
  have f9: "http_get_json ev
          (JOBHISTORY_BASE_URL ev @ ascii ''/''
            @ (ascii ''mapreduce/jobs/'' @ job_id params_lta @ ascii ''/tasks/'' @ task_id params_lta @ ascii ''/attempts''))
          [] = Inl e \<longrightarrow>
        fst (jobhistory_list_task_attempts ev params_lta tr) = Inr (handle_error ev e)"
    by (simp add: jobhistory_list_task_attempts_def guarded_fst jobhistory_list_task_attempts_body_def io_bind_make_request)
  have f10: "http_get_json ev
          (JOBHISTORY_BASE_URL ev @ ascii ''/''
            @ (ascii ''mapreduce/jobs/'' @ job_id params_ta @ ascii ''/tasks/'' @ task_id params_ta @ ascii ''/attempts/'' @ attempt_id params_ta))
          [] = Inl e \<longrightarrow>
        fst (jobhistory_get_task_attempt ev params_ta tr) = Inr (handle_error ev e)"
    by (simp add: jobhistory_get_task_attempt_def guarded_fst jobhistory_get_task_attempt_body_def io_bind_make_request)
  have f11: "http_get_json ev
          (JOBHISTORY_BASE_URL ev @ ascii ''/''
            @ (ascii ''mapreduce/jobs/'' @ job_id params_tac @ ascii ''/tasks/'' @ task_id params_tac @ ascii ''/attempts/'' @ attempt_id params_tac @ ascii ''/counters''))
          [] = Inl e \<longrightarrow>
        fst (jobhistory_get_task_attempt_counters ev params_tac tr) = Inr (handle_error ev e)"
    by (simp add: jobhistory_get_task_attempt_counters_def guarded_fst counters_tool_body_def io_bind_make_request)
  have f12: "http_get_json ev
          (JOBHISTORY_BASE_URL ev @ ascii ''/''
            @ (ascii ''mapreduce/jobs/'' @ job_id params_logs @ ascii ''/tasks/'' @ task_id params_logs @ ascii ''/attempts/'' @ attempt_id params_logs))
          [] = Inl e \<longrightarrow>
        fst (jobhistory_get_task_attempt_logs ev params_logs tr) = Inr (handle_error ev e)"
    using log_tools_first_request_fails [of ev params_logs e tr] by simp
  have f13: "http_get_json ev
          (JOBHISTORY_BASE_URL ev @ ascii ''/''
            @ (ascii ''mapreduce/jobs/'' @ job_id params_logs @ ascii ''/tasks/'' @ task_id params_logs @ ascii ''/attempts/'' @ attempt_id params_logs))
          [] = Inl e \<longrightarrow>
        fst (jobhistory_get_task_attempt_logs_partial ev params_logs tr) = Inr (handle_error ev e)"
    using log_tools_first_request_fails [of ev params_logs e tr] by simp
  have s0: "http_get_json ev (JOBHISTORY_BASE_URL ev @ ascii ''/''
            @ (ascii ''mapreduce/jobs/'' @ job_id params_logs @ ascii ''/tasks/'' @ task_id params_logs @ ascii ''/attempts/'' @ attempt_id params_logs)) [] = Inr attempt_data
      \<and> py_get attempt_data (ascii ''taskAttempt'') (JObj []) = Inr (JObj attempt)
      \<and> truthy (dict_get attempt (ascii ''assignedContainerId'') JNull)
      \<and> truthy (dict_get attempt (ascii ''nodeHttpAddress'') JNull)
      \<and> http_get_json ev (JOBHISTORY_BASE_URL ev @ ascii ''/''
            @ (ascii ''mapreduce/jobs/'' @ job_id params_logs)) [] = Inl e \<longrightarrow>
        fst (jobhistory_get_task_attempt_logs ev params_logs tr) = Inr (handle_error ev e)
        \<and> fst (jobhistory_get_task_attempt_logs_partial ev params_logs tr) = Inr (handle_error ev e)"
    using log_tools_second_request_fails [of ev params_logs attempt_data attempt e tr] by blast
  have h0: "locate_log ev params_logs tr = (Inr (Inr (Located container_id node_manager job_user)), tr')
      \<and> http_get_text ev
            (LOGS_BASE_URL ev @ ascii ''/'' @ node_manager @ ascii ''/'' @ py_format ev container_id
             @ ascii ''/'' @ attempt_id params_logs @ ascii ''/'' @ py_format ev job_user @ ascii ''/''
             @ LogType_value (log_type params_logs) @ ascii ''/''
             @ ascii ''?start=0&start.time=0&end.time=9223372036854775807'') = Inl e \<longrightarrow>
        fst (jobhistory_get_task_attempt_logs ev params_logs tr) = Inr (handle_error ev e)"
    using full_fetch_fails [of ev params_logs tr container_id node_manager job_user tr' e] by blast
  have h1: "locate_log ev params_logs tr = (Inr (Inr (Located container_id node_manager job_user)), tr')
      \<and> http_get_text ev
            (LOGS_BASE_URL ev @ ascii ''/'' @ node_manager @ ascii ''/'' @ py_format ev container_id
             @ ascii ''/'' @ attempt_id params_logs @ ascii ''/'' @ py_format ev job_user @ ascii ''/''
             @ LogType_value (log_type params_logs) @ ascii ''/''
             @ ascii ''?start='' @ py_str_int (start params_logs)
             @ ascii ''&end='' @ py_str_int (end_pos params_logs)) = Inl e \<longrightarrow>
        fst (jobhistory_get_task_attempt_logs_partial ev params_logs tr) = Inr (handle_error ev e)"
    using partial_fetch_fails [of ev params_logs tr container_id node_manager job_user tr' e] by blast
  have b0: "http_get_json ev (JOBHISTORY_BASE_URL ev @ ascii ''/''
            @ (ascii ''mapreduce/jobs/'' @ job_id params_job)) [] = Inr (JArr xs) \<longrightarrow>
        fst (jobhistory_get_job ev params_job tr) = Inr (handle_error ev AttributeError)"
    by (simp add: jobhistory_get_job_def guarded_fst jobhistory_get_job_body_def
        io_bind_make_request io_lift_def and_then_def py_get_def)
  have m404: "handle_error ev (HTTPStatusError 404) = msg_404"
    by (simp add: handle_error_def)
  have m403: "handle_error ev (HTTPStatusError 403) = msg_403"
    by (simp add: handle_error_def)
  have m401: "handle_error ev (HTTPStatusError 401) = msg_401"
    by (simp add: handle_error_def)
  have m500: "handle_error ev (HTTPStatusError 500) = msg_500"
    by (simp add: handle_error_def)
  have m503: "handle_error ev (HTTPStatusError 503) = msg_503"
    by (simp add: handle_error_def)
  have mo: "c \<notin> {404, 403, 401, 500, 503} \<longrightarrow>
        handle_error ev (HTTPStatusError c) = msg_http_prefix @ py_str_int c @ [12290]"
    by (simp add: handle_error_def)
  have mt: "handle_error ev TimeoutException = msg_timeout_prefix @ REQUEST_TIMEOUT ev @ msg_timeout_suffix"
    by (simp add: handle_error_def)
  have mc: "handle_error ev ConnectError = msg_connect_prefix @ JOBHISTORY_BASE_URL ev @ msg_connect_suffix"
    by (simp add: handle_error_def)
  have mx: "(\<forall>c. other \<noteq> HTTPStatusError c) \<and> other \<noteq> TimeoutException \<and> other \<noteq> ConnectError \<longrightarrow>
        handle_error ev other = msg_error_prefix @ exc_name other @ ascii '' - '' @ exc_str ev other"
    by (cases other) (simp_all add: handle_error_def)
  show ?thesis
    using g0 g1 r0 r1 r2 r3 r4 r5 r6 r7 r8 r9 r10 r11 r12 r13 x0 x1 x2 x3 x4 x5 x6 x7 x8
      x9 x10 x11 x12 x13 f0 f1 f2 f3 f4 f5 f6 f7 f8 f9 f10 f11 f12 f13 s0 h0 h1 b0 m404
      m403 m401 m500 m503 mo mt mc mx
    by (intro conjI) assumption+
qed

text \<open>
  An upstream that answers every request with 404, seen through each of the fourteen
  tools; an upstream that answers \<open>jobhistory_get_job\<close> with an empty list; a job detail
  that fails with 503 after the detail of the task attempt was found; a log page that
  times out; and the code 418, which is none of the five.
\<close>

theorem tools_return_diagnostics_witness:
  "fst (jobhistory_get_info (example_failing_env (HTTPStatusError 404)) []) = Inr msg_404
   \<and> fst (jobhistory_list_jobs (example_failing_env (HTTPStatusError 404))
        example_list_params []) = Inr msg_404
   \<and> fst (jobhistory_get_job (example_failing_env (HTTPStatusError 404))
        example_job_params []) = Inr msg_404
   \<and> fst (jobhistory_get_job_counters (example_failing_env (HTTPStatusError 404))
        example_job_params []) = Inr msg_404
   \<and> fst (jobhistory_get_job_conf (example_failing_env (HTTPStatusError 404))
        example_conf_params []) = Inr msg_404
   \<and> fst (jobhistory_get_job_attempts (example_failing_env (HTTPStatusError 404))
        example_job_params []) = Inr msg_404
   \<and> fst (jobhistory_list_tasks (example_failing_env (HTTPStatusError 404))
        example_tasks_params []) = Inr msg_404
   \<and> fst (jobhistory_get_task (example_failing_env (HTTPStatusError 404))
        example_logs_params []) = Inr msg_404
   \<and> fst (jobhistory_get_task_counters (example_failing_env (HTTPStatusError 404))
        example_logs_params []) = Inr msg_404
   \<and> fst (jobhistory_list_task_attempts (example_failing_env (HTTPStatusError 404))
        example_logs_params []) = Inr msg_404
   \<and> fst (jobhistory_get_task_attempt (example_failing_env (HTTPStatusError 404))
        example_logs_params []) = Inr msg_404
   \<and> fst (jobhistory_get_task_attempt_counters (example_failing_env (HTTPStatusError 404))
        example_logs_params []) = Inr msg_404
   \<and> fst (jobhistory_get_task_attempt_logs (example_failing_env (HTTPStatusError 404))
        example_logs_params []) = Inr msg_404
   \<and> fst (jobhistory_get_task_attempt_logs_partial (example_failing_env (HTTPStatusError 404))
        example_logs_params []) = Inr msg_404
   \<and> fst (jobhistory_get_job (example_env (\<lambda>url q. Inr (JArr [])) (\<lambda>url. Inl ConnectError))
        example_job_params []) = Inr (msg_error_prefix @ ascii ''AttributeError'' @ ascii '' - '')
   \<and> fst (jobhistory_get_task_attempt_logs
        (example_env (example_upstream_job_fails
           (JObj [(ascii ''taskAttempt'', JObj example_attempt)]) (HTTPStatusError 503))
           (\<lambda>url. Inl ConnectError))
        example_logs_params []) = Inr msg_503
   \<and> fst (jobhistory_get_task_attempt_logs_partial
        (example_env (example_upstream (JObj [(ascii ''taskAttempt'', JObj example_attempt)])
           (JObj [(ascii ''job'', JObj example_job)]))
           (\<lambda>url. Inl TimeoutException))
        example_logs_params [])
      = Inr (msg_timeout_prefix @ ascii ''30.0'' @ msg_timeout_suffix)
   \<and> handle_error (example_failing_env (HTTPStatusError 404)) (HTTPStatusError 418)
      = msg_http_prefix @ ascii ''418'' @ [12290]"
proof -
  let ?e = "example_failing_env (HTTPStatusError 404)"
  let ?a = "JObj [(ascii ''taskAttempt'', JObj example_attempt)]"
  let ?j = "JObj [(ascii ''job'', JObj example_job)]"
  let ?e1 = "example_env (\<lambda>url q. Inr (JArr [])) (\<lambda>url. Inl ConnectError)"
  let ?e2 = "example_env (example_upstream_job_fails ?a (HTTPStatusError 503))
               (\<lambda>url. Inl ConnectError)"
  let ?e3 = "example_env (example_upstream ?a ?j) (\<lambda>url. Inl TimeoutException)"
  have up: "\<And>url q. http_get_json ?e url q = Inl (HTTPStatusError 404)"
    by (simp add: example_failing_env_def example_env_def)
  note t = tools_return_diagnostics
      [where ev = ?e and e = "HTTPStatusError 404" and tr = "[]" and c = 418
         and params_list = example_list_params and params_job = example_job_params
         and params_jc = example_job_params and params_conf = example_conf_params
         and params_ja = example_job_params and params_lt = example_tasks_params
         and params_task = example_logs_params and params_tc = example_logs_params
         and params_lta = example_logs_params and params_ta = example_logs_params
         and params_tac = example_logs_params and params_logs = example_logs_params]
  have m: "handle_error ?e (HTTPStatusError 404) = msg_404"
    by (rule t [THEN conj_drop8, THEN conj_drop8, THEN conj_drop8, THEN conj_drop8, THEN conj_drop8, THEN conj_drop8, THEN conjunct1])
  have w0: "fst (jobhistory_get_info ?e []) = Inr (handle_error ?e (HTTPStatusError 404))"
    by (rule t [THEN conj_drop8, THEN conj_drop8, THEN conj_drop8, THEN conjunct2, THEN conjunct2, THEN conjunct2, THEN conjunct2, THEN conjunct2, THEN conjunct2, THEN conjunct1, THEN mp, OF up])
  have w1: "fst (jobhistory_list_jobs ?e example_list_params [])
      = Inr (handle_error ?e (HTTPStatusError 404))"
    by (rule t [THEN conj_drop8, THEN conj_drop8, THEN conj_drop8, THEN conjunct2, THEN conjunct2, THEN conjunct2, THEN conjunct2, THEN conjunct2, THEN conjunct2, THEN conjunct2, THEN conjunct1, THEN mp, OF up])
  have w2: "fst (jobhistory_get_job ?e example_job_params [])
      = Inr (handle_error ?e (HTTPStatusError 404))"
    by (rule t [THEN conj_drop8, THEN conj_drop8, THEN conj_drop8, THEN conj_drop8, THEN conjunct1, THEN mp, OF up])
  have w3: "fst (jobhistory_get_job_counters ?e example_job_params [])
      = Inr (handle_error ?e (HTTPStatusError 404))"
    by (rule t [THEN conj_drop8, THEN conj_drop8, THEN conj_drop8, THEN conj_drop8, THEN conjunct2, THEN conjunct1, THEN mp, OF up])
  have w4: "fst (jobhistory_get_job_conf ?e example_conf_params [])
      = Inr (handle_error ?e (HTTPStatusError 404))"
    by (rule t [THEN conj_drop8, THEN conj_drop8, THEN conj_drop8, THEN conj_drop8, THEN conjunct2, THEN conjunct2, THEN conjunct1, THEN mp, OF up])
  have w5: "fst (jobhistory_get_job_attempts ?e example_job_params [])
      = Inr (handle_error ?e (HTTPStatusError 404))"
    by (rule t [THEN conj_drop8, THEN conj_drop8, THEN conj_drop8, THEN conj_drop8, THEN conjunct2, THEN conjunct2, THEN conjunct2, THEN conjunct1, THEN mp, OF up])
  have w6: "fst (jobhistory_list_tasks ?e example_tasks_params [])
      = Inr (handle_error ?e (HTTPStatusError 404))"
    by (rule t [THEN conj_drop8, THEN conj_drop8, THEN conj_drop8, THEN conj_drop8, THEN conjunct2, THEN conjunct2, THEN conjunct2, THEN conjunct2, THEN conjunct1, THEN mp, OF up])
  have w7: "fst (jobhistory_get_task ?e example_logs_params [])
      = Inr (handle_error ?e (HTTPStatusError 404))"
    by (rule t [THEN conj_drop8, THEN conj_drop8, THEN conj_drop8, THEN conj_drop8, THEN conjunct2, THEN conjunct2, THEN conjunct2, THEN conjunct2, THEN conjunct2, THEN conjunct1, THEN mp, OF up])
  have w8: "fst (jobhistory_get_task_counters ?e example_logs_params [])
      = Inr (handle_error ?e (HTTPStatusError 404))"
    by (rule t [THEN conj_drop8, THEN conj_drop8, THEN conj_drop8, THEN conj_drop8, THEN conjunct2, THEN conjunct2, THEN conjunct2, THEN conjunct2, THEN conjunct2, THEN conjunct2, THEN conjunct1, THEN mp, OF up])
  have w9: "fst (jobhistory_list_task_attempts ?e example_logs_params [])
      = Inr (handle_error ?e (HTTPStatusError 404))"
    by (rule t [THEN conj_drop8, THEN conj_drop8, THEN conj_drop8, THEN conj_drop8, THEN conjunct2, THEN conjunct2, THEN conjunct2, THEN conjunct2, THEN conjunct2, THEN conjunct2, THEN conjunct2, THEN conjunct1, THEN mp, OF up])
  have w10: "fst (jobhistory_get_task_attempt ?e example_logs_params [])
      = Inr (handle_error ?e (HTTPStatusError 404))"
    by (rule t [THEN conj_drop8, THEN conj_drop8, THEN conj_drop8, THEN conj_drop8, THEN conj_drop8, THEN conjunct1, THEN mp, OF up])
  have w11: "fst (jobhistory_get_task_attempt_counters ?e example_logs_params [])
      = Inr (handle_error ?e (HTTPStatusError 404))"
    by (rule t [THEN conj_drop8, THEN conj_drop8, THEN conj_drop8, THEN conj_drop8, THEN conj_drop8, THEN conjunct2, THEN conjunct1, THEN mp, OF up])
  have w12: "fst (jobhistory_get_task_attempt_logs ?e example_logs_params [])
      = Inr (handle_error ?e (HTTPStatusError 404))"
    by (rule t [THEN conj_drop8, THEN conj_drop8, THEN conj_drop8, THEN conj_drop8, THEN conj_drop8, THEN conjunct2, THEN conjunct2, THEN conjunct1, THEN mp, OF up])
  have w13: "fst (jobhistory_get_task_attempt_logs_partial ?e example_logs_params [])
      = Inr (handle_error ?e (HTTPStatusError 404))"
    by (rule t [THEN conj_drop8, THEN conj_drop8, THEN conj_drop8, THEN conj_drop8, THEN conj_drop8, THEN conjunct2, THEN conjunct2, THEN conjunct2, THEN conjunct1, THEN mp, OF up])
  have d: "py_str_int 418 = ascii ''418''"
    by (simp add: py_str_int_def digits_small digits_big ascii_def)
  have nc: "(418::int) \<notin> {404, 403, 401, 500, 503}" by simp
  have o: "handle_error ?e (HTTPStatusError 418)
      = msg_http_prefix @ py_str_int 418 @ [12290]"
    by (rule t [THEN conj_drop8, THEN conj_drop8, THEN conj_drop8, THEN conj_drop8, THEN conj_drop8, THEN conj_drop8, THEN conjunct2, THEN conjunct2, THEN conjunct2, THEN conjunct2, THEN conjunct2, THEN conjunct1, THEN mp, OF nc])
  have up1: "http_get_json ?e1 (JOBHISTORY_BASE_URL ?e1 @ ascii ''/''
      @ (ascii ''mapreduce/jobs/'' @ job_id example_job_params)) [] = Inr (JArr [])"
    by (simp add: example_env_def)
  have ne: "(\<forall>c. AttributeError \<noteq> HTTPStatusError c) \<and> AttributeError \<noteq> TimeoutException
      \<and> AttributeError \<noteq> ConnectError"
    by simp
  note t1 = tools_return_diagnostics
      [where ev = ?e1 and tr = "[]" and params_job = example_job_params and xs = "[]"
         and other = AttributeError and params_logs = example_logs_params]
  have b: "fst (jobhistory_get_job ?e1 example_job_params [])
      = Inr (handle_error ?e1 AttributeError)"
    by (rule t1 [THEN conj_drop8, THEN conj_drop8, THEN conj_drop8, THEN conj_drop8, THEN conj_drop8, THEN conjunct2, THEN conjunct2, THEN conjunct2, THEN conjunct2, THEN conjunct2, THEN conjunct2, THEN conjunct2, THEN conjunct1, THEN mp, OF up1])
  have bm: "handle_error ?e1 AttributeError
      = msg_error_prefix @ exc_name AttributeError @ ascii '' - '' @ exc_str ?e1 AttributeError"
    by (rule t1 [THEN conj_drop8, THEN conj_drop8, THEN conj_drop8, THEN conj_drop8, THEN conj_drop8, THEN conj_drop8, THEN conj_drop8, THEN mp, OF ne])
  have bs: "exc_str ?e1 AttributeError = []"
    by (simp add: example_env_def)
  have k: "ascii ''nodeHttpAddress'' \<noteq> ascii ''assignedContainerId''"
    "ascii ''nm1:8042'' \<noteq> []" "ascii ''container_1'' \<noteq> []" "ascii ''hadoop'' \<noteq> []"
    by (simp_all add: ascii_def)
  have urls2: "JOBHISTORY_BASE_URL ?e2 @ ascii ''/''
     @ (ascii ''mapreduce/jobs/'' @ job_id example_logs_params @ ascii ''/tasks/''
        @ task_id example_logs_params @ ascii ''/attempts/'' @ attempt_id example_logs_params)
     = ascii ''http://jhs:19888/ws/v1/history/mapreduce/jobs/job_1_1/tasks/task_1_1_m_0/attempts/attempt_1_1_m_0_0''"
    "JOBHISTORY_BASE_URL ?e2 @ ascii ''/''
     @ (ascii ''mapreduce/jobs/'' @ job_id example_logs_params)
     = ascii ''http://jhs:19888/ws/v1/history/mapreduce/jobs/job_1_1''"
    by (rule example_urls)+
  have ans2: "http_get_json ?e2
      (ascii ''http://jhs:19888/ws/v1/history/mapreduce/jobs/job_1_1/tasks/task_1_1_m_0/attempts/attempt_1_1_m_0_0'') []
      = Inr ?a"
    "http_get_json ?e2 (ascii ''http://jhs:19888/ws/v1/history/mapreduce/jobs/job_1_1'') []
      = Inl (HTTPStatusError 503)"
    by (simp_all add: example_env_def example_upstream_job_fails_def ascii_def)
  have pre2: "http_get_json ?e2 (JOBHISTORY_BASE_URL ?e2 @ ascii ''/''
        @ (ascii ''mapreduce/jobs/'' @ job_id example_logs_params @ ascii ''/tasks/''
           @ task_id example_logs_params @ ascii ''/attempts/''
           @ attempt_id example_logs_params)) [] = Inr ?a
      \<and> py_get ?a (ascii ''taskAttempt'') (JObj []) = Inr (JObj example_attempt)
      \<and> truthy (dict_get example_attempt (ascii ''assignedContainerId'') JNull)
      \<and> truthy (dict_get example_attempt (ascii ''nodeHttpAddress'') JNull)
      \<and> http_get_json ?e2 (JOBHISTORY_BASE_URL ?e2 @ ascii ''/''
           @ (ascii ''mapreduce/jobs/'' @ job_id example_logs_params)) []
         = Inl (HTTPStatusError 503)"
    unfolding urls2 ans2
    by (simp add: py_get_def dict_get_def example_attempt_def k)
  note t2 = tools_return_diagnostics
      [where ev = ?e2 and tr = "[]" and e = "HTTPStatusError 503"
         and params_logs = example_logs_params and attempt_data = ?a
         and attempt = example_attempt]
  have s: "fst (jobhistory_get_task_attempt_logs ?e2 example_logs_params [])
      = Inr (handle_error ?e2 (HTTPStatusError 503))"
    by (rule t2 [THEN conj_drop8, THEN conj_drop8, THEN conj_drop8, THEN conj_drop8, THEN conj_drop8, THEN conjunct2, THEN conjunct2, THEN conjunct2, THEN conjunct2, THEN conjunct1, THEN mp, OF pre2, THEN conjunct1])
  have sm: "handle_error ?e2 (HTTPStatusError 503) = msg_503"
    by (rule t2 [THEN conj_drop8, THEN conj_drop8, THEN conj_drop8, THEN conj_drop8, THEN conj_drop8, THEN conj_drop8, THEN conjunct2, THEN conjunct2, THEN conjunct2, THEN conjunct2, THEN conjunct1])
  have pre3: "http_get_json ?e3 (JOBHISTORY_BASE_URL ?e3 @ ascii ''/''
             @ (ascii ''mapreduce/jobs/'' @ job_id example_logs_params @ ascii ''/tasks/''
                @ task_id example_logs_params @ ascii ''/attempts/''
                @ attempt_id example_logs_params)) [] = Inr ?a"
    "py_get ?a (ascii ''taskAttempt'') (JObj []) = Inr (JObj example_attempt)"
    "dict_get example_attempt (ascii ''assignedContainerId'') JNull = JStr (ascii ''container_1'')"
    "ascii ''container_1'' \<noteq> []"
    "dict_get example_attempt (ascii ''nodeHttpAddress'') JNull = JStr (ascii ''nm1:8042'')"
    "ascii ''nm1:8042'' \<noteq> []"
    "http_get_json ?e3 (JOBHISTORY_BASE_URL ?e3 @ ascii ''/''
                @ (ascii ''mapreduce/jobs/'' @ job_id example_logs_params)) [] = Inr ?j"
    "py_get ?j (ascii ''job'') (JObj []) = Inr (JObj example_job)"
    "dict_get example_job (ascii ''user'') JNull = JStr (ascii ''hadoop'')"
    "ascii ''hadoop'' \<noteq> []"
    by (simp_all add: example_urls example_upstream_simps py_get_def dict_get_def k
        example_attempt_def example_job_def)
  note loc = locate_log_found [where tr = "[]", OF pre3]
  have fetch: "\<And>url. http_get_text ?e3 url = Inl TimeoutException"
    by (simp add: example_env_def)
  note t3 = tools_return_diagnostics
      [where ev = ?e3 and tr = "[]" and e = TimeoutException
         and params_logs = example_logs_params]
  have h: "fst (jobhistory_get_task_attempt_logs_partial ?e3 example_logs_params [])
      = Inr (handle_error ?e3 TimeoutException)"
    by (rule t3 [THEN conj_drop8, THEN conj_drop8, THEN conj_drop8, THEN conj_drop8, THEN conj_drop8, THEN conjunct2, THEN conjunct2, THEN conjunct2, THEN conjunct2, THEN conjunct2, THEN conjunct2, THEN conjunct1, THEN mp, OF conjI [OF loc fetch]])
  have hm: "handle_error ?e3 TimeoutException
      = msg_timeout_prefix @ REQUEST_TIMEOUT ?e3 @ msg_timeout_suffix"
    by (rule t3 [THEN conj_drop8, THEN conj_drop8, THEN conj_drop8, THEN conj_drop8, THEN conj_drop8, THEN conj_drop8, THEN conjunct2, THEN conjunct2, THEN conjunct2, THEN conjunct2, THEN conjunct2, THEN conjunct2, THEN conjunct1])
  have rt: "REQUEST_TIMEOUT ?e3 = ascii ''30.0''"
    by (simp add: example_env_def)
  show ?thesis
    unfolding w0 w1 w2 w3 w4 w5 w6 w7 w8 w9 w10 w11 w12 w13 m o d b bm bs s sm h hm rt
    by simp
qed

end
